theory Spec2Isabelle
  imports Complex_Main "HOL-Library.Word" "HOL-Library.Signed_Division"
begin

section \<open>Data model of xcom\_base.cc\<close>

text \<open>
  Machine integers are words of the width the program uses: message numbers are
  64-bit unsigned, event horizons and group ids 32-bit unsigned, ballot counters 32-bit
  signed (a \<open>32 word\<close> read with \<open>sint\<close>). The declaration of \<open>node_no\<close> is not in
  xcom\_base.cc; its width is taken from the data model of the specification (16 bits).
\<close>

type_synonym u32 = "32 word"
type_synonym u64 = "64 word"
type_synonym i32 = "32 word"
type_synonym node_no = "16 word"
type_synonym xcom_event_horizon = u32

definition VOID_NODE_NO :: node_no where
  "VOID_NODE_NO = - 1"

record synode_no =
  group_id :: u32
  msgno :: u64
  node :: node_no

definition null_synode :: synode_no where
  "null_synode = \<lparr>group_id = 0, msgno = 0, node = 0\<rparr>"

record ballot =
  bal_cnt :: i32
  bal_node :: node_no

datatype pax_op =
    client_msg | initial_op | prepare_op | ack_prepare_op | ack_prepare_empty_op
  | accept_op | ack_accept_op | multi_ack_accept_op | learn_op | tiny_learn_op
  | recover_learn_op | skip_op | read_op | i_am_alive_op | are_you_alive_op
  | need_boot_op | gcs_snapshot_op | die_op | xcom_client_reply

datatype pax_msg_type = normal | no_op | multi_no_op

datatype cargo_type =
    unified_boot_type | xcom_boot_type | xcom_set_group | app_type | begin_trans
  | prepared_trans | abort_trans | view_msg | exit_type | reset_type | remove_reset_type
  | add_node_type | remove_node_type | force_config_type | set_event_horizon_type
  | get_event_horizon_type | get_synode_app_data_type | set_cache_limit
  | set_notify_truly_remove | convert_into_local_server_type | x_terminate_and_exit
  | enable_arbitrator | disable_arbitrator

datatype cons_type = cons_majority | cons_all

datatype client_reply_code = REQUEST_OK | REQUEST_FAIL | REQUEST_RETRY

text \<open>
  A node address carries the textual address, the unique id of the incarnation and the
  range of protocol versions the node speaks. Protocol versions are the ordinals of the
  \<open>xcom_proto\<close> enumeration.
\<close>

type_synonym xcom_proto = nat

record node_address =
  address :: string
  uuid :: string
  min_proto :: xcom_proto
  max_proto :: xcom_proto

text \<open>
  The payload of a message. \<open>app_c_t\<close> is the discriminant \<open>body.c_t\<close>; \<open>app_nodes\<close> and
  \<open>app_event_horizon\<close> are the members \<open>body.app_u_u.nodes\<close> and
  \<open>body.app_u_u.event_horizon\<close> of the union. None of the functions below follows the
  \<open>next\<close> link of a batched payload, so the link is not represented.
\<close>

record app_data =
  app_group_id :: u32
  app_key :: synode_no
  app_consensus :: cons_type
  app_chosen :: bool
  app_c_t :: cargo_type
  app_nodes :: "node_address list"
  app_event_horizon :: xcom_event_horizon

record pax_msg =
  msg_from :: node_no
  msg_to :: node_no
  msg_op :: pax_op
  msg_synode :: synode_no
  proposal :: ballot
  reply_to :: ballot
  msg_type :: pax_msg_type
  msg_a :: "app_data option"
  msg_force_delivery :: int
  msg_delivered_msg :: synode_no
  msg_max_synode :: synode_no

text \<open>
  Messages are shared by pointer: the acceptor, the learner and the proposer of a machine
  may hold the same \<open>pax_msg\<close>, and some handlers write through one of these pointers. A
  pointer is an address in a store of messages; \<open>None\<close> is the null pointer. Reference
  counts only decide when a message is freed and are not represented.
\<close>

type_synonym msg_ref = nat
type_synonym msg_store = "msg_ref \<Rightarrow> pax_msg"

text \<open>
  The type \<open>bit_set\<close> and the macros \<open>BIT_ISSET\<close>, \<open>BIT_SET\<close> and \<open>BIT_ZERO\<close> are defined
  outside xcom\_base.cc. A bit set is represented by the set of the indices whose bit is
  set.
\<close>

type_synonym bit_set = "nat set"

definition BIT_ISSET :: "node_no \<Rightarrow> bit_set \<Rightarrow> bool" where
  "BIT_ISSET i bs = (unat i \<in> bs)"

definition BIT_SET :: "node_no \<Rightarrow> bit_set \<Rightarrow> bit_set" where
  "BIT_SET i bs = insert (unat i) bs"

definition BIT_ZERO :: bit_set where
  "BIT_ZERO = {}"

record pax_machine =
  pm_synode :: synode_no
  last_modified :: real
  acceptor_promise :: ballot
  acceptor_msg :: "msg_ref option"
  proposer_bal :: ballot
  proposer_sent_prop :: ballot
  proposer_sent_learn :: ballot
  proposer_msg :: "msg_ref option"
  prep_nodeset :: bit_set
  prop_nodeset :: bit_set
  learner_msg :: "msg_ref option"
  pm_op :: pax_op
  force_delivery :: int
  enforcer :: int

section \<open>The delay FIFO of the executor\<close>

definition FIFO_SIZE :: int where
  "FIFO_SIZE = 1000"

record delay_fifo =
  fifo_n :: int
  fifo_front_ix :: int
  fifo_rear_ix :: int
  fifo_q :: "synode_no list"

text \<open>\<open>%\<close> of C truncates towards zero: \<open>smod\<close>.\<close>

definition addone :: "int \<Rightarrow> int" where
  "addone i = (i + 1) smod FIFO_SIZE"

definition fifo_empty :: "delay_fifo \<Rightarrow> bool" where
  "fifo_empty f = (fifo_n f \<le> 0)"

definition fifo_full :: "delay_fifo \<Rightarrow> bool" where
  "fifo_full f = (fifo_n f \<ge> FIFO_SIZE)"

definition fifo_insert :: "synode_no \<Rightarrow> delay_fifo \<Rightarrow> delay_fifo" where
  "fifo_insert s f =
     (if \<not> fifo_full f then
        f\<lparr>fifo_n := fifo_n f + 1,
          fifo_q := (fifo_q f)[nat (fifo_rear_ix f) := s],
          fifo_rear_ix := addone (fifo_rear_ix f)\<rparr>
      else f)"

definition fifo_extract :: "delay_fifo \<Rightarrow> synode_no \<times> delay_fifo" where
  "fifo_extract f =
     (if \<not> fifo_empty f then
        (fifo_q f ! nat (fifo_front_ix f),
         f\<lparr>fifo_front_ix := addone (fifo_front_ix f), fifo_n := fifo_n f - 1\<rparr>)
      else (null_synode, f))"

definition fifo_front :: "delay_fifo \<Rightarrow> synode_no" where
  "fifo_front f =
     (if \<not> fifo_empty f then fifo_q f ! nat (fifo_front_ix f) else null_synode)"

section \<open>Forcing a Paxos machine\<close>

definition INT32_MAX :: i32 where
  "INT32_MAX = 2147483647"

text \<open>The macro \<open>MAX\<close> on signed 32-bit operands, and C's truncating signed division.\<close>

definition MAX_i32 :: "i32 \<Rightarrow> i32 \<Rightarrow> i32" where
  "MAX_i32 x y = (if y <s x then x else y)"

definition div_i32 :: "i32 \<Rightarrow> i32 \<Rightarrow> i32" where
  "div_i32 x y = word_of_int (sint x sdiv sint y)"

definition force_pax_machine :: "pax_machine \<Rightarrow> int \<Rightarrow> pax_machine" where
  "force_pax_machine p enf =
     (let p1 =
        (if enforcer p = 0 then
           (if enf \<noteq> 0 then
              (let delta = div_i32 (INT32_MAX - MAX_i32 (bal_cnt (proposer_bal p)) 0) 3
               in p\<lparr>proposer_bal :=
                      (proposer_bal p)\<lparr>bal_cnt := bal_cnt (proposer_bal p) + delta\<rparr>\<rparr>)
            else p)
         else p)
      in p1\<lparr>force_delivery := 1, enforcer := enf\<rparr>)"

section \<open>Sites\<close>

text \<open>
  A configuration. \<open>sd_nodeno\<close> is the index of the local node in the configuration, or
  \<open>VOID_NODE_NO\<close> when the local node is not a member.
\<close>

record site_def =
  sd_start :: synode_no
  sd_boot_key :: synode_no
  sd_nodeno :: node_no
  sd_nodes :: "node_address list"
  sd_event_horizon :: xcom_event_horizon
  sd_x_proto :: xcom_proto
  max_conn_rtt :: real

text \<open>
  Modelled from the spec: \<open>get_maxnodes\<close> and \<open>get_nodeno\<close> are defined outside
  xcom\_base.cc. By the data model of the specification a site has a list of nodes, and
  a node that is not a member of a site has no index in it. The functions read the
  length of the node list and the index of the local node; a null site has no nodes and
  no local node, so they yield 0 and \<open>VOID_NODE_NO\<close> for it.
\<close>

definition get_maxnodes :: "site_def option \<Rightarrow> node_no" where
  "get_maxnodes site = (case site of None \<Rightarrow> 0 | Some s \<Rightarrow> word_of_nat (length (sd_nodes s)))"

definition get_nodeno :: "site_def option \<Rightarrow> node_no" where
  "get_nodeno site = (case site of None \<Rightarrow> VOID_NODE_NO | Some s \<Rightarrow> sd_nodeno s)"

section \<open>Ballots and the state predicates of a machine\<close>

text \<open>
  Modelled from the spec: \<open>gt_ballot\<close> and \<open>eq_ballot\<close> are defined outside
  xcom\_base.cc. The specification orders ballots lexicographically on the signed counter
  and then the node number.
\<close>

definition gt_ballot :: "ballot \<Rightarrow> ballot \<Rightarrow> bool" where
  "gt_ballot x y =
     (bal_cnt y <s bal_cnt x \<or> (bal_cnt x = bal_cnt y \<and> bal_node y < bal_node x))"

definition eq_ballot :: "ballot \<Rightarrow> ballot \<Rightarrow> bool" where
  "eq_ballot x y = (bal_cnt x = bal_cnt y \<and> bal_node x = bal_node y)"

definition finished :: "msg_store \<Rightarrow> pax_machine \<Rightarrow> bool" where
  "finished h p =
     (case learner_msg p of
        None \<Rightarrow> False
      | Some l \<Rightarrow> msg_op (h l) = learn_op \<or> msg_op (h l) = tiny_learn_op)"

definition accepted :: "msg_store \<Rightarrow> pax_machine \<Rightarrow> bool" where
  "accepted h p =
     (case acceptor_msg p of None \<Rightarrow> False | Some a \<Rightarrow> msg_op (h a) \<noteq> initial_op)"

definition accepted_noop :: "msg_store \<Rightarrow> pax_machine \<Rightarrow> bool" where
  "accepted_noop h p =
     (accepted h p \<and>
      (case acceptor_msg p of None \<Rightarrow> False | Some a \<Rightarrow> msg_type (h a) = no_op))"

definition noop_match :: "msg_store \<Rightarrow> pax_machine \<Rightarrow> pax_msg \<Rightarrow> bool" where
  "noop_match h p pm = (msg_type pm = no_op \<and> accepted_noop h p)"

section \<open>Majority\<close>

text \<open>The counting loop of \<open>majority\<close>: \<open>for (i = 0; i < max; i++) if (BIT_ISSET(i, nodeset)) ok++\<close>.\<close>

function count_answered :: "bit_set \<Rightarrow> node_no \<Rightarrow> node_no \<Rightarrow> node_no \<Rightarrow> node_no" where
  "count_answered nodeset mx i ok =
     (if i < mx
      then count_answered nodeset mx (i + 1) (if BIT_ISSET i nodeset then ok + 1 else ok)
      else ok)"
  by pat_completeness auto
termination
proof (relation "measure (\<lambda>(nodeset, mx, i, ok). unat mx - unat i)")
  show "wf (measure (\<lambda>(nodeset, mx, i, ok). unat mx - unat i))"
    by simp
next
  fix nodeset :: bit_set and mx i ok :: node_no
  assume lt: "i < mx"
  then have less: "unat i < unat mx"
    by (simp add: word_less_nat_alt)
  have "unat mx < 2 ^ 16"
    using unsigned_less [of mx, where 'a = nat] by simp
  with less have "unat i + 1 < 2 ^ 16"
    by simp
  then have "unat (i + 1) = unat i + 1"
    by (simp add: unat_word_ariths)
  with less show "((nodeset, mx, i + 1, if BIT_ISSET i nodeset then ok + 1 else ok),
                    (nodeset, mx, i, ok)) \<in> measure (\<lambda>(nodeset, mx, i, ok). unat mx - unat i)"
    by simp
qed

declare count_answered.simps [simp del]

text \<open>
  \<open>forced_config\<close> is a global of the program; it is passed explicitly. The parameter
  \<open>delay\<close> is unused in the program as well.
\<close>

definition majority ::
  "site_def option \<Rightarrow> bit_set \<Rightarrow> site_def option \<Rightarrow> bool \<Rightarrow> bool \<Rightarrow> bool \<Rightarrow> bool" where
  "majority forced_config nodeset s all delay force =
     (let mx = get_maxnodes s;
          ok = count_answered nodeset mx 0 0
      in if force then ok = get_maxnodes forced_config
         else (if all then ok = mx else ok > mx div 2))"

definition IS_CONS_ALL :: "pax_msg \<Rightarrow> bool" where
  "IS_CONS_ALL m = (case msg_a m of None \<Rightarrow> False | Some a \<Rightarrow> app_consensus a = cons_all)"

text \<open>
  \<open>prep_majority\<close> and \<open>prop_majority\<close> read the proposer's message, which the program
  asserts to be present; \<open>None\<close> is the null dereference.
\<close>

definition prep_majority ::
  "site_def option \<Rightarrow> msg_store \<Rightarrow> site_def option \<Rightarrow> pax_machine \<Rightarrow> bool option" where
  "prep_majority forced_config h site p =
     (case proposer_msg p of
        None \<Rightarrow> None
      | Some pr \<Rightarrow>
          Some (majority forced_config (prep_nodeset p) site (IS_CONS_ALL (h pr))
                  (bal_cnt (proposer_bal p) = 1)
                  (msg_force_delivery (h pr) \<noteq> 0 \<or> force_delivery p \<noteq> 0)))"

definition prop_majority ::
  "site_def option \<Rightarrow> msg_store \<Rightarrow> site_def option \<Rightarrow> pax_machine \<Rightarrow> bool option" where
  "prop_majority forced_config h site p =
     (case proposer_msg p of
        None \<Rightarrow> None
      | Some pr \<Rightarrow>
          Some (majority forced_config (prop_nodeset p) site (IS_CONS_ALL (h pr))
                  (bal_cnt (proposer_bal p) = 1)
                  (msg_force_delivery (h pr) \<noteq> 0 \<or> force_delivery p \<noteq> 0)))"

text \<open>
  The reading of the majority rule in which an answer only counts when its sender is a
  member of the forced configuration. It follows the wording of the specification
  (answers of nodes absent from \<open>forced_config\<close> are ignored) and is compared with
  \<open>majority\<close> below; the program has no such function.
\<close>

definition answered_in_forced :: "site_def \<Rightarrow> site_def \<Rightarrow> bit_set \<Rightarrow> nat set" where
  "answered_in_forced forced s nodeset =
     {i \<in> nodeset. i < length (sd_nodes s) \<and>
        address (sd_nodes s ! i) \<in> address ` set (sd_nodes forced)}"

definition spec_force_majority :: "site_def \<Rightarrow> site_def \<Rightarrow> bit_set \<Rightarrow> bool" where
  "spec_force_majority forced s nodeset =
     (card (answered_in_forced forced s nodeset) = length (sd_nodes forced))"

section \<open>Synodes and the history of sites\<close>

text \<open>
  Modelled from the spec: \<open>synode_lt\<close>, \<open>synode_gt\<close> and \<open>synode_eq\<close> are defined
  outside xcom\_base.cc. The specification orders synodes lexicographically on
  (\<open>msgno\<close>, \<open>node\<close>); a synode is identified by its three fields.
\<close>

definition synode_lt :: "synode_no \<Rightarrow> synode_no \<Rightarrow> bool" where
  "synode_lt x y = (msgno x < msgno y \<or> (msgno x = msgno y \<and> node x < node y))"

definition synode_gt :: "synode_no \<Rightarrow> synode_no \<Rightarrow> bool" where
  "synode_gt x y = (msgno x > msgno y \<or> (msgno x = msgno y \<and> node x > node y))"

definition synode_eq :: "synode_no \<Rightarrow> synode_no \<Rightarrow> bool" where
  "synode_eq x y = (group_id x = group_id y \<and> msgno x = msgno y \<and> node x = node y)"

definition group_mismatch :: "synode_no \<Rightarrow> synode_no \<Rightarrow> bool" where
  "group_mismatch x y = (group_id x \<noteq> group_id y)"

text \<open>
  The installed sites are kept in a history with the latest site first. A pointer to a
  site is its position in the history; \<open>None\<close> is the null pointer.
\<close>

type_synonym site_ptr = "nat option"

primrec find_first :: "('a \<Rightarrow> bool) \<Rightarrow> 'a list \<Rightarrow> nat option" where
  "find_first P [] = None"
| "find_first P (x # xs) = (if P x then Some 0 else map_option Suc (find_first P xs))"

primrec find_last :: "('a \<Rightarrow> bool) \<Rightarrow> 'a list \<Rightarrow> nat option" where
  "find_last P [] = None"
| "find_last P (x # xs) =
     (case find_last P xs of
        Some j \<Rightarrow> Some (Suc j)
      | None \<Rightarrow> if P x then Some 0 else None)"

definition deref_site :: "site_def list \<Rightarrow> site_ptr \<Rightarrow> site_def option" where
  "deref_site sites ptr = (case ptr of None \<Rightarrow> None | Some i \<Rightarrow> Some (sites ! i))"

text \<open>
  Modelled from the spec: \<open>get_site_def\<close>, \<open>find_site_def\<close> and \<open>find_next_site_def\<close>
  are defined outside xcom\_base.cc. By the specification the history is kept in reverse
  start order and \<open>find_site_def s\<close> is the latest site whose start is not after \<open>s\<close>;
  \<open>get_site_def\<close> is the latest site. By the comment on \<open>first_event_horizon_reconfig\<close>
  in xcom\_base.cc, \<open>find_next_site_def s\<close> is the site with the smallest start after
  \<open>s\<close>, which in a history in reverse start order is the oldest site that starts after
  \<open>s\<close>.
\<close>

definition get_site_def :: "site_def list \<Rightarrow> site_ptr" where
  "get_site_def sites = (if sites = [] then None else Some 0)"

definition find_site_def :: "site_def list \<Rightarrow> synode_no \<Rightarrow> site_ptr" where
  "find_site_def sites s = find_first (\<lambda>c. \<not> synode_lt s (sd_start c)) sites"

definition find_next_site_def :: "site_def list \<Rightarrow> synode_no \<Rightarrow> site_ptr" where
  "find_next_site_def sites s = find_last (\<lambda>c. synode_gt (sd_start c) s) sites"

section \<open>The global state\<close>

text \<open>
  Calls that leave the state below alone (waking tasks, informing removed nodes,
  collecting and updating servers, notifying the detector, starting the sweeper) are
  recorded in the order in which they are made. \<open>dead_sites_id\<close> is the array
  \<open>dead_sites.id\<close> of the group ids that have been buried.
\<close>

datatype effect =
    Activate_sweeper
  | Task_wakeup_exec_wait
  | Inform_removed int int
  | Garbage_collect_servers
  | Update_servers cargo_type
  | Notify_detector_when_removed "node_address list" int

record xcom_state =
  executed_msg :: synode_no
  delivered_msg :: synode_no
  max_synode :: synode_no
  current_message :: synode_no
  site_defs :: "site_def list"
  executor_site :: site_ptr
  delay_fifo :: delay_fifo
  last_config_modification_id :: synode_no
  dead_sites_id :: "u64 list"
  effects :: "effect list"

definition set_max_synode :: "xcom_state \<Rightarrow> synode_no \<Rightarrow> xcom_state" where
  "set_max_synode st synode = st\<lparr>max_synode := synode, effects := effects st @ [Activate_sweeper]\<rparr>"

definition incr_msgno :: "xcom_state \<Rightarrow> synode_no \<Rightarrow> synode_no" where
  "incr_msgno st s =
     (let ret = s\<lparr>msgno := msgno s + 1\<rparr>
      in ret\<lparr>node := get_nodeno (deref_site (site_defs st) (find_site_def (site_defs st) ret))\<rparr>)"

definition incr_synode :: "xcom_state \<Rightarrow> synode_no \<Rightarrow> synode_no" where
  "incr_synode st synode =
     (let ret = synode\<lparr>node := node synode + 1\<rparr>
      in if node ret \<ge> get_maxnodes (deref_site (site_defs st) (find_site_def (site_defs st) synode))
         then ret\<lparr>node := 0, msgno := msgno ret + 1\<rparr>
         else ret)"

section \<open>The event horizon\<close>

definition is_latest_config :: "xcom_state \<Rightarrow> nat \<Rightarrow> bool" where
  "is_latest_config st config = (get_site_def (site_defs st) = Some config)"

text \<open>
  The loop of \<open>first_event_horizon_reconfig\<close>. It walks from a site to the next site
  by start and stops at the first one whose event horizon differs from the active one.
\<close>

function first_event_horizon_reconfig_loop ::
  "site_def list \<Rightarrow> xcom_event_horizon \<Rightarrow> site_ptr \<Rightarrow> site_ptr \<Rightarrow> site_ptr" where
  "first_event_horizon_reconfig_loop sites active_event_horizon next_config first =
     (case next_config of
        None \<Rightarrow> first
      | Some n \<Rightarrow>
          if first \<noteq> None then first
          else first_event_horizon_reconfig_loop sites active_event_horizon
                 (find_next_site_def sites (sd_start (sites ! n)))
                 (if active_event_horizon \<noteq> sd_event_horizon (sites ! n)
                  then Some n else first))"
  by pat_completeness auto
termination
proof (relation "measure (\<lambda>(sites, aeh, next_config, first).
         case next_config of
           None \<Rightarrow> 0
         | Some n \<Rightarrow> Suc (length (filter (\<lambda>c. synode_gt (sd_start c) (sd_start (sites ! n))) sites)))")
  show "wf (measure (\<lambda>(sites, aeh, next_config, first).
         case next_config of
           None \<Rightarrow> 0
         | Some n \<Rightarrow> Suc (length (filter (\<lambda>c. synode_gt (sd_start c) (sd_start (sites ! n))) sites))))"
    by simp
next
  fix sites :: "site_def list" and aeh :: xcom_event_horizon
    and next_config first :: site_ptr and n :: nat
  assume "next_config = Some n" and "\<not> first \<noteq> None"
  have found: "j < length xs \<and> P (xs ! j)" if "find_last P xs = Some j"
    for P :: "site_def \<Rightarrow> bool" and xs j
    using that
  proof (induction xs arbitrary: j)
    case Nil
    then show ?case by simp
  next
    case (Cons x xs)
    then show ?case
      by (cases "find_last P xs") (auto split: if_splits)
  qed
  let ?gt = "\<lambda>k c. synode_gt (sd_start c) (sd_start (sites ! k))"
  have "length (filter (?gt j) sites) < length (filter (?gt n) sites)"
    if j: "find_next_site_def sites (sd_start (sites ! n)) = Some j" for j
  proof -
    from found [OF j [unfolded find_next_site_def_def]]
    have jl: "j < length sites" and jn: "?gt n (sites ! j)"
      by simp_all
    have sub: "?gt j c \<Longrightarrow> ?gt n c" for c
      using jn by (auto simp: synode_gt_def)
    have notj: "\<not> ?gt j (sites ! j)"
      by (simp add: synode_gt_def)
    have "filter (?gt j) sites = filter (?gt j) (filter (?gt n) sites)"
      using sub by (auto intro: filter_cong)
    moreover have "sites ! j \<in> set (filter (?gt n) sites)"
      using jl jn by simp
    ultimately show ?thesis
      using notj length_filter_less [of "sites ! j" "filter (?gt n) sites" "?gt j"]
      by simp
  qed
  then show "((sites, aeh, find_next_site_def sites (sd_start (sites ! n)),
               if aeh \<noteq> sd_event_horizon (sites ! n) then Some n else first),
              (sites, aeh, next_config, first))
             \<in> measure (\<lambda>(sites, aeh, next_config, first).
                 case next_config of
                   None \<Rightarrow> 0
                 | Some n \<Rightarrow> Suc (length (filter (\<lambda>c. synode_gt (sd_start c) (sd_start (sites ! n))) sites)))"
    using \<open>next_config = Some n\<close>
    by (cases "find_next_site_def sites (sd_start (sites ! n))") simp_all
qed

declare first_event_horizon_reconfig_loop.simps [simp del]

text \<open>
  \<open>first_event_horizon_reconfig\<close> and \<open>too_far_threshold_new_event_horizon_pending\<close>
  dereference the active configuration without a test; the outer \<open>None\<close> of their results
  is that null dereference. \<open>too_far\<close> calls them only after it has found an active
  configuration.
\<close>

definition first_event_horizon_reconfig :: "xcom_state \<Rightarrow> site_ptr option" where
  "first_event_horizon_reconfig st =
     (case find_site_def (site_defs st) (executed_msg st) of
        None \<Rightarrow> None
      | Some active_config \<Rightarrow>
          Some (first_event_horizon_reconfig_loop (site_defs st)
                  (sd_event_horizon (site_defs st ! active_config))
                  (find_next_site_def (site_defs st) (sd_start (site_defs st ! active_config)))
                  None))"

text \<open>
  The loop of \<open>latest_event_horizon_reconfig\<close>. It walks over all the sites after the active
  one, from a site to the next site by start, and keeps the last one whose event horizon
  differs from that of the site kept before it.
\<close>

function latest_event_horizon_reconfig_loop ::
  "site_def list \<Rightarrow> xcom_event_horizon \<Rightarrow> site_ptr \<Rightarrow> site_ptr \<Rightarrow> site_ptr" where
  "latest_event_horizon_reconfig_loop sites previous_event_horizon next_config last_reconfig =
     (case next_config of
        None \<Rightarrow> last_reconfig
      | Some n \<Rightarrow>
          if previous_event_horizon \<noteq> sd_event_horizon (sites ! n)
          then latest_event_horizon_reconfig_loop sites (sd_event_horizon (sites ! n))
                 (find_next_site_def sites (sd_start (sites ! n))) (Some n)
          else latest_event_horizon_reconfig_loop sites previous_event_horizon
                 (find_next_site_def sites (sd_start (sites ! n))) last_reconfig)"
  by pat_completeness auto
termination
proof (relation "measure (\<lambda>(sites, peh, next_config, last_reconfig).
         case next_config of
           None \<Rightarrow> 0
         | Some n \<Rightarrow> Suc (length (filter (\<lambda>c. synode_gt (sd_start c) (sd_start (sites ! n))) sites)))")
  show "wf (measure (\<lambda>(sites, peh, next_config, last_reconfig).
         case next_config of
           None \<Rightarrow> 0
         | Some n \<Rightarrow> Suc (length (filter (\<lambda>c. synode_gt (sd_start c) (sd_start (sites ! n))) sites))))"
    by simp
next
  fix sites :: "site_def list" and n :: nat
  have found: "j < length xs \<and> P (xs ! j)" if "find_last P xs = Some j"
    for P :: "site_def \<Rightarrow> bool" and xs j
    using that
  proof (induction xs arbitrary: j)
    case Nil
    then show ?case by simp
  next
    case (Cons x xs)
    then show ?case
      by (cases "find_last P xs") (auto split: if_splits)
  qed
  let ?gt = "\<lambda>k c. synode_gt (sd_start c) (sd_start (sites ! k))"
  have less: "length (filter (?gt j) sites) < length (filter (?gt n) sites)"
    if j: "find_next_site_def sites (sd_start (sites ! n)) = Some j" for j
  proof -
    from found [OF j [unfolded find_next_site_def_def]]
    have jl: "j < length sites" and jn: "?gt n (sites ! j)"
      by simp_all
    have sub: "?gt j c \<Longrightarrow> ?gt n c" for c
      using jn by (auto simp: synode_gt_def)
    have notj: "\<not> ?gt j (sites ! j)"
      by (simp add: synode_gt_def)
    have "filter (?gt j) sites = filter (?gt j) (filter (?gt n) sites)"
      using sub by (auto intro: filter_cong)
    moreover have "sites ! j \<in> set (filter (?gt n) sites)"
      using jl jn by simp
    ultimately show ?thesis
      using notj length_filter_less [of "sites ! j" "filter (?gt n) sites" "?gt j"]
      by simp
  qed
  fix peh :: xcom_event_horizon and next_config last_reconfig :: site_ptr
  assume nc: "next_config = Some n"
  show "((sites, sd_event_horizon (sites ! n), find_next_site_def sites (sd_start (sites ! n)),
          Some n),
         (sites, peh, next_config, last_reconfig))
        \<in> measure (\<lambda>(sites, peh, next_config, last_reconfig).
            case next_config of
              None \<Rightarrow> 0
            | Some n \<Rightarrow> Suc (length (filter (\<lambda>c. synode_gt (sd_start c) (sd_start (sites ! n))) sites)))"
    using nc less
    by (cases "find_next_site_def sites (sd_start (sites ! n))") simp_all
  show "((sites, peh, find_next_site_def sites (sd_start (sites ! n)), last_reconfig),
         (sites, peh, next_config, last_reconfig))
        \<in> measure (\<lambda>(sites, peh, next_config, last_reconfig).
            case next_config of
              None \<Rightarrow> 0
            | Some n \<Rightarrow> Suc (length (filter (\<lambda>c. synode_gt (sd_start c) (sd_start (sites ! n))) sites)))"
    using nc less
    by (cases "find_next_site_def sites (sd_start (sites ! n))") simp_all
qed

declare latest_event_horizon_reconfig_loop.simps [simp del]

text \<open>
  \<open>latest_event_horizon_reconfig\<close> dereferences the active configuration without a test as
  well; \<open>add_event_horizon\<close> calls it only after it has found an active configuration, and
  yields \<open>null_synode\<close> when there is none.
\<close>

definition latest_event_horizon_reconfig :: "xcom_state \<Rightarrow> site_ptr option" where
  "latest_event_horizon_reconfig st =
     (case find_site_def (site_defs st) (executed_msg st) of
        None \<Rightarrow> None
      | Some active_config \<Rightarrow>
          Some (latest_event_horizon_reconfig_loop (site_defs st)
                  (sd_event_horizon (site_defs st ! active_config))
                  (find_next_site_def (site_defs st) (sd_start (site_defs st ! active_config)))
                  None))"

definition add_event_horizon :: "xcom_state \<Rightarrow> synode_no \<Rightarrow> synode_no option" where
  "add_event_horizon st s =
     (case find_site_def (site_defs st) (executed_msg st) of
        None \<Rightarrow> Some null_synode
      | Some active_config \<Rightarrow>
          (case latest_event_horizon_reconfig st of
             None \<Rightarrow> None
           | Some pending_config \<Rightarrow>
               (case pending_config of
                  None \<Rightarrow>
                    Some (s\<lparr>msgno := msgno s +
                               ucast (sd_event_horizon (site_defs st ! active_config)) + 1\<rparr>)
                | Some pending \<Rightarrow>
                    if is_latest_config st active_config
                    then Some (s\<lparr>msgno := msgno s +
                                    ucast (sd_event_horizon (site_defs st ! active_config)) + 1\<rparr>)
                    else Some (s\<lparr>msgno := msgno (sd_start (site_defs st ! pending)) +
                                    ucast (sd_event_horizon (site_defs st ! pending)) + 1\<rparr>))))"





text \<open>
  The invariant of the history stated in the specification: the sites are kept in reverse
  start order, the latest first.
\<close>

definition reverse_start_order :: "site_def list \<Rightarrow> bool" where
  "reverse_start_order sites = sorted_wrt (\<lambda>c d. synode_gt (sd_start c) (sd_start d)) sites"

text \<open>
  The vocabulary of the threshold: relative to the active site (the site of \<open>executed_msg\<close>), a
  reconfiguration of the event horizon is pending at a site that starts after \<open>executed_msg\<close>
  and has another event horizon than the active site; the first one is the pending site that
  no other pending site starts before.
\<close>

definition event_horizon_reconfig_pending :: "xcom_state \<Rightarrow> nat \<Rightarrow> nat \<Rightarrow> bool" where
  "event_horizon_reconfig_pending st active j =
     (j < length (site_defs st) \<and>
      synode_gt (sd_start (site_defs st ! j)) (executed_msg st) \<and>
      sd_event_horizon (site_defs st ! j) \<noteq> sd_event_horizon (site_defs st ! active))"

definition first_pending_event_horizon_reconfig :: "xcom_state \<Rightarrow> nat \<Rightarrow> nat \<Rightarrow> bool" where
  "first_pending_event_horizon_reconfig st active r =
     (event_horizon_reconfig_pending st active r \<and>
      (\<forall>j < length (site_defs st).
         event_horizon_reconfig_pending st active j \<longrightarrow>
         \<not> synode_gt (sd_start (site_defs st ! r)) (sd_start (site_defs st ! j))))"

definition no_event_horizon_reconfig_pending :: "xcom_state \<Rightarrow> nat \<Rightarrow> bool" where
  "no_event_horizon_reconfig_pending st active =
     (\<forall>j < length (site_defs st). \<not> event_horizon_reconfig_pending st active j)"

section \<open>The executor\<close>

text \<open>
  The state of the executor is a pointer to the function that runs next; the null pointer
  ends the task. Of the execution context, the fields that the functions below use are
  represented. Assertions of the program are not represented.
\<close>

datatype exec_fp = FP_x_fetch | FP_x_execute | FP_x_terminate

record execute_context =
  exit_synode :: synode_no
  delivery_limit :: synode_no
  xc_state :: "exec_fp option"
  exit_flag :: int
  inform_index :: int

definition compute_delay :: "synode_no \<Rightarrow> xcom_event_horizon \<Rightarrow> synode_no" where
  "compute_delay start event_horizon = start\<lparr>msgno := msgno start + ucast event_horizon\<rparr>"

definition is_empty_site :: "site_def \<Rightarrow> bool" where
  "is_empty_site s = (length (sd_nodes s) = 0)"

definition is_member :: "site_def \<Rightarrow> bool" where
  "is_member site = (sd_nodeno site \<noteq> VOID_NODE_NO)"

text \<open>\<open>site\<close> points into the history; the write to \<open>site->start\<close> changes the history.\<close>

definition setup_exit_handling ::
  "xcom_state \<Rightarrow> execute_context \<Rightarrow> nat \<Rightarrow> xcom_state \<times> execute_context" where
  "setup_exit_handling st xc site =
     (let s = site_defs st ! site;
          (st1, xc1, delay_until) =
            (if is_member s then
               (st, xc, compute_delay (sd_start s) (sd_event_horizon s))
             else
               (let xca = xc\<lparr>delivery_limit := sd_start s\<rparr>;
                    xcb = xca\<lparr>exit_synode := compute_delay (sd_start s) (sd_event_horizon s)\<rparr>;
                    sta = (if is_empty_site s then
                             st\<lparr>site_defs := (site_defs st)
                                  [site := s\<lparr>sd_start :=
                                     compute_delay
                                       (compute_delay (sd_start s) (sd_event_horizon s))
                                       (sd_event_horizon s)\<rparr>]\<rparr>
                           else st);
                    stb = (if \<not> synode_lt (exit_synode xcb) (max_synode sta) then
                             set_max_synode sta (incr_synode sta (exit_synode xcb))
                           else sta)
                in (stb, xcb\<lparr>exit_flag := 1\<rparr>, exit_synode xcb)));
          st2 = (if synode_gt delay_until (max_synode st1) then
                   set_max_synode st1 (incr_msgno st1 delay_until)
                 else st1);
          st3 = st2\<lparr>delay_fifo := fifo_insert delay_until (delay_fifo st2)\<rparr>
      in (st3, xc1\<lparr>inform_index := inform_index xc1 + 1\<rparr>))"

definition x_check_exit :: "xcom_state \<Rightarrow> execute_context \<Rightarrow> bool" where
  "x_check_exit st xc =
     (exit_flag xc \<noteq> 0 \<and> \<not> synode_lt (executed_msg st) (exit_synode xc) \<and>
      \<not> synode_lt (delivered_msg st) (delivery_limit xc))"

text \<open>
  \<open>first_free_synode\<close> reads the latest site when no site covers the message; without any
  site that is a null dereference (\<open>None\<close>), which \<open>set_executed_msg\<close> passes on.
\<close>

definition first_free_synode :: "xcom_state \<Rightarrow> synode_no \<Rightarrow> synode_no option" where
  "first_free_synode st m =
     (case find_site_def (site_defs st) m of
        None \<Rightarrow>
          (case get_site_def (site_defs st) of
             None \<Rightarrow> None
           | Some latest \<Rightarrow> Some (sd_start (site_defs st ! latest)))
      | Some site \<Rightarrow>
          (let retval = (if msgno m = 0 then m\<lparr>msgno := 1\<rparr> else m);
               retval = retval\<lparr>node := get_nodeno (Some (site_defs st ! site))\<rparr>
           in Some (if synode_lt retval m then incr_msgno st retval else retval)))"

definition set_executed_msg :: "xcom_state \<Rightarrow> synode_no \<Rightarrow> xcom_state option" where
  "set_executed_msg st m =
     (case (if group_mismatch m (current_message st) \<or> synode_gt m (current_message st)
            then map_option (\<lambda>f. st\<lparr>current_message := f\<rparr>) (first_free_synode st m)
            else Some st) of
        None \<Rightarrow> None
      | Some st1 \<Rightarrow>
          (let st2 = (if msgno m > msgno (executed_msg st1)
                      then st1\<lparr>effects := effects st1 @ [Task_wakeup_exec_wait]\<rparr>
                      else st1)
           in Some (st2\<lparr>executed_msg := m,
                         executor_site := find_site_def (site_defs st2) m\<rparr>)))"

text \<open>The loop of \<open>x_check_execute_inform\<close>: more than one entry of the FIFO may match.\<close>

function inform_loop :: "xcom_state \<Rightarrow> execute_context \<Rightarrow> xcom_state \<times> execute_context" where
  "inform_loop st xc =
     (if \<not> fifo_empty (delay_fifo st) \<and>
         \<not> synode_lt (executed_msg st) (fifo_front (delay_fifo st))
      then inform_loop
             (st\<lparr>effects := effects st @ [Inform_removed (inform_index xc) 0],
                 delay_fifo := snd (fifo_extract (delay_fifo st))\<rparr>)
             (xc\<lparr>inform_index := inform_index xc - 1\<rparr>)
      else (st, xc))"
  by pat_completeness auto
termination
  by (relation "measure (\<lambda>(st, xc). nat (fifo_n (delay_fifo st)))")
     (auto simp: fifo_extract_def fifo_empty_def)

declare inform_loop.simps [simp del]

definition x_check_execute_inform ::
  "xcom_state \<Rightarrow> execute_context \<Rightarrow> (xcom_state \<times> execute_context) \<times> bool" where
  "x_check_execute_inform st xc =
     (if fifo_empty (delay_fifo st) then ((st, xc), True)
      else if \<not> synode_lt (executed_msg st) (fifo_front (delay_fifo st)) then
        (let (st1, xc1) = inform_loop st xc
         in ((st1\<lparr>effects := effects st1 @ [Garbage_collect_servers]\<rparr>, xc1), True))
      else ((st, xc), False))"

definition x_check_increment_fetch ::
  "xcom_state \<Rightarrow> execute_context \<Rightarrow> (xcom_state \<times> execute_context) option" where
  "x_check_increment_fetch st xc =
     (if x_check_exit st xc then Some (st, xc\<lparr>xc_state := Some FP_x_terminate\<rparr>)
      else
        (case set_executed_msg st (incr_synode st (executed_msg st)) of
           None \<Rightarrow> None
         | Some st1 \<Rightarrow>
             (let ((st2, xc2), inform) = x_check_execute_inform st1 xc
              in Some (st2, if inform then xc2\<lparr>xc_state := Some FP_x_execute\<rparr> else xc2))))"

definition x_check_increment_execute ::
  "xcom_state \<Rightarrow> execute_context \<Rightarrow> xcom_state \<times> execute_context" where
  "x_check_increment_execute st xc =
     (if x_check_exit st xc then (st, xc\<lparr>xc_state := Some FP_x_terminate\<rparr>)
      else
        (let st1 = st\<lparr>delivered_msg := incr_synode st (delivered_msg st)\<rparr>
         in if synode_eq (delivered_msg st1) (executed_msg st1)
            then (st1, xc\<lparr>xc_state := Some FP_x_fetch\<rparr>)
            else (st1, xc)))"

section \<open>Message handlers of a Paxos machine\<close>

text \<open>
  Calls of a handler that act outside the machine and the store of messages, in the order
  in which they are made.
\<close>

datatype call =
    Call_task_wakeup
  | Call_activate_sweeper
  | Call_add_cache_size
  | Call_shrink_cache
  | Call_xcom_fsm_net_boot
  | Call_log_ignored_forced_config
  | Call_start_force_config cargo_type
  | Call_send_read synode_no
  | Call_update_max_synode msg_ref
  | Call_send_propose_msg msg_ref

text \<open>
  \<open>CREATE_REPLY\<close> makes the reply a clone of the request. The macro \<open>CLONE_PAX_MSG\<close>
  that it uses is defined outside xcom\_base.cc; the clone has the fields of the request
  and no payload of its own (the handlers copy into it the payload they reply with).
\<close>

definition clone_pax_msg_no_app :: "pax_msg \<Rightarrow> pax_msg" where
  "clone_pax_msg_no_app m = m\<lparr>msg_a := None\<rparr>"

text \<open>
  \<open>copy_app_data\<close> is defined outside xcom\_base.cc and is the parameter \<open>cp\<close>: it yields
  the copy of a payload, or the null pointer when memory runs out. \<open>safe_app_data_copy\<close>
  then drops the target message; \<open>None\<close> is that dropped message.
\<close>

definition safe_app_data_copy ::
  "(app_data option \<Rightarrow> app_data option) \<Rightarrow> pax_msg \<Rightarrow> app_data option \<Rightarrow> pax_msg option" where
  "safe_app_data_copy cp target source =
     (let t = target\<lparr>msg_a := cp source\<rparr>
      in if msg_a t = None \<and> source \<noteq> None then None else Some t)"

definition set_learn_type :: "pax_msg \<Rightarrow> pax_msg" where
  "set_learn_type p = p\<lparr>msg_op := learn_op, msg_type := (if msg_a p \<noteq> None then normal else no_op)\<rparr>"

definition skip_value :: "pax_msg \<Rightarrow> pax_msg" where
  "skip_value p = p\<lparr>msg_op := learn_op, msg_type := no_op\<rparr>"

definition brand_app_data :: "pax_msg \<Rightarrow> pax_msg" where
  "brand_app_data p =
     (case msg_a p of
        None \<Rightarrow> p
      | Some a \<Rightarrow>
          p\<lparr>msg_a := Some (a\<lparr>app_key := (app_key a)\<lparr>msgno := msgno (msg_synode p),
                                                       node := node (msg_synode p),
                                                       group_id := group_id (msg_synode p)\<rparr>,
                               app_group_id := group_id (msg_synode p)\<rparr>)\<rparr>)"

definition init_propose_msg :: "pax_msg \<Rightarrow> pax_msg" where
  "init_propose_msg p = brand_app_data (p\<lparr>msg_op := accept_op, reply_to := proposal p\<rparr>)"

text \<open>
  The learner's message is read without a test; the callers test \<open>finished\<close> first, so the
  branch \<open>None\<close> of the learner is not reached.
\<close>

definition create_learn_msg_for_ignorant_node ::
  "(app_data option \<Rightarrow> app_data option) \<Rightarrow> msg_store \<Rightarrow> pax_machine \<Rightarrow> msg_ref \<Rightarrow>
   synode_no \<Rightarrow> pax_msg option" where
  "create_learn_msg_for_ignorant_node cp h p pm synode =
     (case learner_msg p of
        None \<Rightarrow> None
      | Some l \<Rightarrow>
          (let reply = clone_pax_msg_no_app (h pm);
               reply = reply\<lparr>msg_synode := synode\<rparr>;
               reply = reply\<lparr>proposal := proposal (h l)\<rparr>;
               reply = reply\<lparr>msg_type := msg_type (h l)\<rparr>
           in map_option set_learn_type (safe_app_data_copy cp reply (msg_a (h l)))))"

definition create_ack_prepare_msg ::
  "(app_data option \<Rightarrow> app_data option) \<Rightarrow> msg_store \<Rightarrow> pax_machine \<Rightarrow> msg_ref \<Rightarrow>
   synode_no \<Rightarrow> pax_msg option" where
  "create_ack_prepare_msg cp h p pm synode =
     (let reply = clone_pax_msg_no_app (h pm);
          reply = reply\<lparr>msg_synode := synode\<rparr>
      in if accepted h p then
           (case acceptor_msg p of
              None \<Rightarrow> None
            | Some a \<Rightarrow>
                safe_app_data_copy cp
                  (reply\<lparr>proposal := proposal (h a), msg_type := msg_type (h a),
                         msg_op := ack_prepare_op\<rparr>)
                  (msg_a (h a)))
         else Some (reply\<lparr>msg_op := ack_prepare_empty_op\<rparr>))"

text \<open>
  The handlers take the current time (\<open>task_now\<close>) as \<open>now\<close>. A handler returns the
  machine and the reply; \<open>None\<close> is the null reply, after which nothing is sent.
\<close>

definition handle_simple_prepare ::
  "(app_data option \<Rightarrow> app_data option) \<Rightarrow> real \<Rightarrow> msg_store \<Rightarrow> pax_machine \<Rightarrow> msg_ref \<Rightarrow>
   synode_no \<Rightarrow> pax_machine \<times> pax_msg option" where
  "handle_simple_prepare cp now h p pm synode =
     (if finished h p then (p, create_learn_msg_for_ignorant_node cp h p pm synode)
      else
        (let greater = gt_ballot (proposal (h pm)) (acceptor_promise p)
         in if greater \<or> noop_match h p (h pm) then
              (let p1 = p\<lparr>last_modified := now\<rparr>;
                   p2 = (if greater then p1\<lparr>acceptor_promise := proposal (h pm)\<rparr> else p1)
               in (p2, create_ack_prepare_msg cp h p2 pm synode))
            else (p, None)))"

definition create_ack_accept_msg :: "pax_msg \<Rightarrow> synode_no \<Rightarrow> bool \<Rightarrow> pax_msg" where
  "create_ack_accept_msg m synode skip_flag =
     (let reply = clone_pax_msg_no_app m;
          reply = (if skip_flag then reply\<lparr>msg_op := multi_ack_accept_op\<rparr>
                   else reply\<lparr>msg_op := ack_accept_op\<rparr>)
      in reply\<lparr>msg_synode := synode\<rparr>)"

definition handle_simple_accept ::
  "(app_data option \<Rightarrow> app_data option) \<Rightarrow> real \<Rightarrow> msg_store \<Rightarrow> pax_machine \<Rightarrow> msg_ref \<Rightarrow>
   synode_no \<Rightarrow> bool \<Rightarrow> pax_machine \<times> pax_msg option" where
  "handle_simple_accept cp now h p m synode skip_flag =
     (if finished h p then (p, create_learn_msg_for_ignorant_node cp h p m synode)
      else if \<not> gt_ballot (acceptor_promise p) (proposal (h m)) \<or> noop_match h p (h m) then
        (p\<lparr>last_modified := now, acceptor_msg := Some m\<rparr>,
         Some (create_ack_accept_msg (h m) synode skip_flag))
      else (p, None))"

definition do_learn :: "msg_store \<Rightarrow> pax_machine \<Rightarrow> msg_ref \<Rightarrow> msg_store \<times> pax_machine" where
  "do_learn h p m =
     (let h1 = (case msg_a (h m) of
                  None \<Rightarrow> h
                | Some a \<Rightarrow> h(m := (h m)\<lparr>msg_a := Some (a\<lparr>app_chosen := True\<rparr>)\<rparr>))
      in (h1, p\<lparr>acceptor_msg := Some m, learner_msg := Some m\<rparr>))"

text \<open>
  One round of the loop of \<open>force_interval\<close>, on the machine it has fetched: a machine
  that is marked as enforcer extends the mark to the machines after it.
\<close>

definition force_interval_step :: "pax_machine \<Rightarrow> int \<Rightarrow> pax_machine" where
  "force_interval_step p enf =
     (let enf1 = (if enforcer p \<noteq> 0 then 1 else enf)
      in (force_pax_machine p enf1)\<lparr>prep_nodeset := BIT_ZERO, prop_nodeset := BIT_ZERO\<rparr>)"

text \<open>
  What \<open>handle_learn\<close> takes from outside: the time, the answer of
  \<open>should_ignore_forced_config_or_view\<close> for the protocol of the machine's site, and
  whether the \<open>force_interval\<close> that \<open>start_force_config\<close> runs reaches this machine
  (\<open>Some enf\<close>, with the enforcer flag it arrives with) or not (\<open>None\<close>).
\<close>

record learn_env =
  env_now :: real
  env_ignore_forced :: bool
  env_force_reach :: "int option"

definition forced_config_calls :: "learn_env \<Rightarrow> pax_msg \<Rightarrow> call list" where
  "forced_config_calls env m =
     (case msg_a m of
        None \<Rightarrow> []
      | Some a \<Rightarrow>
          if msg_force_delivery m \<noteq> 0 then
            (if app_c_t a = add_node_type \<or> app_c_t a = remove_node_type then
               (if env_ignore_forced env then [Call_log_ignored_forced_config]
                else [Call_start_force_config (app_c_t a)])
             else if app_c_t a = force_config_type then [Call_start_force_config (app_c_t a)]
             else [])
          else [])"

definition handle_learn ::
  "learn_env \<Rightarrow> msg_store \<Rightarrow> pax_machine \<Rightarrow> msg_ref \<Rightarrow> msg_store \<times> pax_machine \<times> call list" where
  "handle_learn env h p m =
     (let p0 = p\<lparr>last_modified := env_now env\<rparr>
      in if \<not> finished h p0 then
           (let (h1, p1) = do_learn h p0 m;
                boot = (case msg_a (h1 m) of
                          None \<Rightarrow> []
                        | Some a \<Rightarrow>
                            if app_c_t a = unified_boot_type then [Call_xcom_fsm_net_boot] else []);
                forced = forced_config_calls env (h1 m);
                p2 = (case forced of
                        [Call_start_force_config c] \<Rightarrow>
                          (case env_force_reach env of
                             None \<Rightarrow> p1
                           | Some enf \<Rightarrow> force_interval_step p1 enf)
                      | _ \<Rightarrow> p1)
            in (h1, p2,
                [Call_activate_sweeper, Call_add_cache_size, Call_shrink_cache] @ boot @ forced @
                [Call_task_wakeup]))
         else (h, p0, [Call_task_wakeup]))"

definition handle_skip ::
  "real \<Rightarrow> msg_store \<Rightarrow> pax_machine \<Rightarrow> msg_ref \<Rightarrow> msg_store \<times> pax_machine \<times> call list" where
  "handle_skip now h p m =
     (if \<not> finished h p then
        (let p0 = p\<lparr>last_modified := now\<rparr>;
             h0 = h(m := skip_value (h m));
             (h1, p1) = do_learn h0 p0 m
         in (h1, p1, [Call_add_cache_size, Call_shrink_cache, Call_task_wakeup]))
      else (h, p, [Call_task_wakeup]))"

definition handle_tiny_learn ::
  "learn_env \<Rightarrow> msg_store \<Rightarrow> pax_machine \<Rightarrow> msg_ref \<Rightarrow> msg_store \<times> pax_machine \<times> call list" where
  "handle_tiny_learn env h pm p =
     (case acceptor_msg pm of
        Some a \<Rightarrow>
          if eq_ballot (proposal (h a)) (proposal (h p)) then
            (let h1 = h(a := (h a)\<lparr>msg_op := learn_op\<rparr>);
                 pm1 = pm\<lparr>last_modified := env_now env\<rparr>;
                 (h2, pm2, calls) = handle_learn env h1 pm1 a
             in (h2, pm2, Call_update_max_synode p # calls))
          else (h, pm, [Call_send_read (msg_synode (h p))])
      | None \<Rightarrow> (h, pm, [Call_send_read (msg_synode (h p))]))"

text \<open>
  The handlers of the answers to a prepare read the proposer's message without a test
  (\<open>dispatch_op\<close> tests it before it calls them); \<open>None\<close> is the null dereference.
\<close>

definition check_propose ::
  "site_def option \<Rightarrow> site_def option \<Rightarrow> msg_store \<Rightarrow> pax_machine \<Rightarrow>
   (msg_store \<times> pax_machine \<times> bool) option" where
  "check_propose forced_config site h p =
     (case prep_majority forced_config h site p of
        None \<Rightarrow> None
      | Some maj \<Rightarrow>
          if maj then
            (case proposer_msg p of
               None \<Rightarrow> None
             | Some pr \<Rightarrow>
                 (let h1 = h(pr := (h pr)\<lparr>proposal := proposer_bal p\<rparr>);
                      p1 = p\<lparr>prop_nodeset := BIT_ZERO\<rparr>;
                      h2 = h1(pr := (h1 pr)\<lparr>msg_synode := pm_synode p1\<rparr>);
                      h3 = h2(pr := init_propose_msg (h2 pr));
                      p2 = p1\<lparr>proposer_sent_prop := proposer_bal p1\<rparr>
                  in Some (h3, p2, True)))
          else Some (h, p, False))"

definition handle_simple_ack_prepare ::
  "site_def option \<Rightarrow> site_def option \<Rightarrow> msg_store \<Rightarrow> pax_machine \<Rightarrow> msg_ref \<Rightarrow>
   (msg_store \<times> pax_machine \<times> bool) option" where
  "handle_simple_ack_prepare forced_config site h p m =
     (let p1 = (if get_nodeno site \<noteq> VOID_NODE_NO
                then p\<lparr>prep_nodeset := BIT_SET (msg_from (h m)) (prep_nodeset p)\<rparr>
                else p)
      in case (if msg_op (h m) = ack_prepare_op then
                 (case proposer_msg p1 of
                    None \<Rightarrow> None
                  | Some pr \<Rightarrow>
                      if gt_ballot (proposal (h m)) (proposal (h pr))
                      then Some (p1\<lparr>proposer_msg := Some m\<rparr>)
                      else Some p1)
               else Some p1) of
           None \<Rightarrow> None
         | Some p2 \<Rightarrow>
             if gt_ballot (reply_to (h m)) (proposer_sent_prop p2)
             then check_propose forced_config site h p2
             else Some (h, p2, False))"

definition handle_ack_prepare ::
  "site_def option \<Rightarrow> site_def option \<Rightarrow> msg_store \<Rightarrow> pax_machine \<Rightarrow> msg_ref \<Rightarrow>
   (msg_store \<times> pax_machine \<times> call list) option" where
  "handle_ack_prepare forced_config site h p m =
     (if finished h p then Some (h, p, [])
      else if msg_from (h m) \<noteq> VOID_NODE_NO \<and> eq_ballot (proposer_bal p) (reply_to (h m)) then
        (case handle_simple_ack_prepare forced_config site h p m of
           None \<Rightarrow> None
         | Some (h1, p1, can_propose) \<Rightarrow>
             Some (h1, p1,
                   if can_propose then
                     (case proposer_msg p1 of
                        None \<Rightarrow> []
                      | Some pr \<Rightarrow> [Call_send_propose_msg pr])
                   else []))
      else Some (h, p, []))"

section \<open>Vocabulary of the properties of the handlers\<close>

text \<open>
  A reply is an acknowledgement of a prepare for machine \<open>p\<close>: \<open>ack_prepare_op\<close> with the
  ballot, the type and the payload of the accepted message when the machine has accepted
  one, \<open>ack_prepare_empty_op\<close> otherwise.
\<close>

definition ack_prepare_of :: "msg_store \<Rightarrow> pax_machine \<Rightarrow> pax_msg option \<Rightarrow> bool" where
  "ack_prepare_of h p reply =
     (case reply of
        None \<Rightarrow> False
      | Some r \<Rightarrow>
          (case acceptor_msg p of
             Some a \<Rightarrow>
               if msg_op (h a) \<noteq> initial_op
               then msg_op r = ack_prepare_op \<and> proposal r = proposal (h a) \<and>
                    msg_type r = msg_type (h a) \<and> msg_a r = msg_a (h a)
               else msg_op r = ack_prepare_empty_op
           | None \<Rightarrow> msg_op r = ack_prepare_empty_op))"

text \<open>The ballot and the value (type and payload) of the learned message of a machine.\<close>

definition learned_value :: "msg_store \<Rightarrow> pax_machine \<Rightarrow> (ballot \<times> pax_msg_type \<times> app_data option) option" where
  "learned_value h p =
     (case learner_msg p of
        None \<Rightarrow> None
      | Some l \<Rightarrow> Some (proposal (h l), msg_type (h l), msg_a (h l)))"

definition keeps_learned :: "msg_store \<Rightarrow> pax_machine \<Rightarrow> msg_store \<times> pax_machine \<times> call list \<Rightarrow> bool" where
  "keeps_learned h p res =
     (case res of
        (h', p', calls) \<Rightarrow>
          learner_msg p' = learner_msg p \<and> learned_value h' p' = learned_value h p \<and>
          finished h' p')"

text \<open>
  The promise of \<open>p'\<close> is the promise of \<open>p\<close> or a greater ballot, and is not a smaller
  one.
\<close>

definition promise_not_decreased :: "pax_machine \<Rightarrow> pax_machine \<Rightarrow> bool" where
  "promise_not_decreased p p' =
     ((acceptor_promise p' = acceptor_promise p \<or>
       gt_ballot (acceptor_promise p') (acceptor_promise p)) \<and>
      \<not> gt_ballot (acceptor_promise p) (acceptor_promise p'))"

section \<open>Validation of configuration changes\<close>

text \<open>
  What the validation takes from outside xcom\_base.cc: the identity of the local node
  (\<open>cfg_app_xcom_get_identity\<close>), the bounds of the event horizon, the first protocol
  version that speaks IPv6 (\<open>minimum_ipv6_version\<close>), the parser of addresses
  (\<open>get_ip_and_port\<close>, \<open>None\<close> on a parse error), \<open>is_node_v4_reachable\<close>,
  \<open>ask_for_detector_if_added_ok\<close>, and the verdict of the failure detector on a node of
  the latest site (\<open>may_be_dead\<close>).
\<close>

record cfg_env =
  cfg_identity :: node_address
  EVENT_HORIZON_MIN :: xcom_event_horizon
  EVENT_HORIZON_MAX :: xcom_event_horizon
  minimum_ipv6_version :: xcom_proto
  get_ip_and_port :: "string \<Rightarrow> (string \<times> nat) option"
  is_node_v4_reachable :: "string \<Rightarrow> bool"
  ask_for_detector_if_added_ok :: "node_address list \<Rightarrow> bool"
  may_be_dead :: "node_no \<Rightarrow> bool"

text \<open>
  Modelled from the spec: \<open>node_exists\<close>, \<open>node_exists_with_uid\<close> and \<open>find_nodeno\<close> are
  defined outside xcom\_base.cc. By the specification a node is present in a list by
  address, or by address and unique id; \<open>find_nodeno\<close> is the index of the node with the
  address in the site, or \<open>VOID_NODE_NO\<close>.
\<close>

definition node_exists :: "node_address \<Rightarrow> node_address list \<Rightarrow> bool" where
  "node_exists name nodes = list_ex (\<lambda>n. address n = address name) nodes"

definition node_exists_with_uid :: "node_address \<Rightarrow> node_address list \<Rightarrow> bool" where
  "node_exists_with_uid name nodes =
     list_ex (\<lambda>n. address n = address name \<and> uuid n = uuid name) nodes"

definition find_nodeno :: "site_def \<Rightarrow> string \<Rightarrow> node_no" where
  "find_nodeno site addr =
     (case find_first (\<lambda>n. address n = addr) (sd_nodes site) of
        None \<Rightarrow> VOID_NODE_NO
      | Some i \<Rightarrow> word_of_nat i)"

text \<open>
  \<open>x_1_4\<close> is the fifth version of the protocol (the comment on \<open>allow_event_horizon\<close>
  says so); it is the first that can reconfigure the event horizon.
\<close>

definition x_1_4 :: xcom_proto where
  "x_1_4 = 5"

definition first_event_horizon_aware_protocol :: xcom_proto where
  "first_event_horizon_aware_protocol = x_1_4"

definition backwards_compatible :: "cfg_env \<Rightarrow> xcom_event_horizon \<Rightarrow> bool" where
  "backwards_compatible env event_horizon = (event_horizon = EVENT_HORIZON_MIN env)"

definition reconfigurable_event_horizon :: "xcom_proto \<Rightarrow> bool" where
  "reconfigurable_event_horizon protocol_version =
     (protocol_version \<ge> first_event_horizon_aware_protocol)"

text \<open>
  \<open>add_node_adding_own_address\<close> asserts that the payload is an \<open>add_node\<close> request and
  reads the node list of the union. For a payload of another type the result is \<open>None\<close>:
  the assertion fails, and a program built without assertions reads a member of the union
  that the payload need not hold.
\<close>

definition add_node_adding_own_address :: "cfg_env \<Rightarrow> app_data \<Rightarrow> bool option" where
  "add_node_adding_own_address env a =
     (if app_c_t a = add_node_type then Some (node_exists (cfg_identity env) (app_nodes a))
      else None)"

text \<open>
  The functions below read the latest site, and \<open>allow_add_node\<close> the site of
  \<open>executed_msg\<close> as well, without testing the pointer. A result \<open>None\<close> is the dereference
  of a null site.
\<close>

definition unsafe_against_event_horizon ::
  "cfg_env \<Rightarrow> xcom_state \<Rightarrow> node_address \<Rightarrow> bool option" where
  "unsafe_against_event_horizon env st n =
     (if reconfigurable_event_horizon (max_proto n) then Some False
      else (case get_site_def (site_defs st) of
              None \<Rightarrow> None
            | Some latest_config \<Rightarrow>
                Some (\<not> backwards_compatible env
                          (sd_event_horizon (site_defs st ! latest_config)))))"

fun add_node_unsafe_against_event_horizon_loop ::
  "cfg_env \<Rightarrow> xcom_state \<Rightarrow> node_address list \<Rightarrow> bool option" where
  "add_node_unsafe_against_event_horizon_loop env st [] = Some False"
| "add_node_unsafe_against_event_horizon_loop env st (n # ns) =
     (case unsafe_against_event_horizon env st n of
        None \<Rightarrow> None
      | Some unsafe \<Rightarrow>
          if unsafe then Some True
          else add_node_unsafe_against_event_horizon_loop env st ns)"

definition add_node_unsafe_against_event_horizon ::
  "cfg_env \<Rightarrow> xcom_state \<Rightarrow> app_data \<Rightarrow> bool option" where
  "add_node_unsafe_against_event_horizon env st a =
     add_node_unsafe_against_event_horizon_loop env st (app_nodes a)"

fun add_node_unsafe_against_ipv4_old_nodes_loop :: "cfg_env \<Rightarrow> node_address list \<Rightarrow> bool" where
  "add_node_unsafe_against_ipv4_old_nodes_loop env [] = False"
| "add_node_unsafe_against_ipv4_old_nodes_loop env (n # ns) =
     (case get_ip_and_port env (address n) of
        None \<Rightarrow> True
      | Some (node_addr, node_port) \<Rightarrow>
          if \<not> is_node_v4_reachable env node_addr then True
          else add_node_unsafe_against_ipv4_old_nodes_loop env ns)"

definition add_node_unsafe_against_ipv4_old_nodes ::
  "cfg_env \<Rightarrow> xcom_state \<Rightarrow> app_data \<Rightarrow> bool" where
  "add_node_unsafe_against_ipv4_old_nodes env st a =
     (case get_site_def (site_defs st) of
        Some latest_config \<Rightarrow>
          if sd_x_proto (site_defs st ! latest_config) \<ge> minimum_ipv6_version env then False
          else add_node_unsafe_against_ipv4_old_nodes_loop env (app_nodes a)
      | None \<Rightarrow> add_node_unsafe_against_ipv4_old_nodes_loop env (app_nodes a))"

fun allow_add_node_loop ::
  "site_def option \<Rightarrow> site_def option \<Rightarrow> node_address list \<Rightarrow> bool option" where
  "allow_add_node_loop new_site_def valid_site_def [] = Some True"
| "allow_add_node_loop new_site_def valid_site_def (n # ns) =
     (case new_site_def of
        None \<Rightarrow> None
      | Some new \<Rightarrow>
          if node_exists n (sd_nodes new) then Some False
          else (case valid_site_def of
                  None \<Rightarrow> None
                | Some valid \<Rightarrow>
                    if node_exists n (sd_nodes valid) then Some False
                    else allow_add_node_loop new_site_def valid_site_def ns))"

definition allow_add_node :: "cfg_env \<Rightarrow> xcom_state \<Rightarrow> app_data \<Rightarrow> bool option" where
  "allow_add_node env st a =
     (let new_site_def = deref_site (site_defs st) (get_site_def (site_defs st));
          valid_site_def = deref_site (site_defs st) (find_site_def (site_defs st) (executed_msg st))
      in case add_node_unsafe_against_event_horizon env st a of
           None \<Rightarrow> None
         | Some unsafe_eh \<Rightarrow>
             if unsafe_eh then Some False
             else if add_node_unsafe_against_ipv4_old_nodes env st a then Some False
             else (case allow_add_node_loop new_site_def valid_site_def (app_nodes a) of
                     None \<Rightarrow> None
                   | Some fresh \<Rightarrow>
                       if \<not> fresh then Some False
                       else if \<not> ask_for_detector_if_added_ok env (app_nodes a) then Some False
                       else Some True))"

fun allow_remove_node_loop :: "site_def option \<Rightarrow> node_address list \<Rightarrow> bool option" where
  "allow_remove_node_loop new_site_def [] = Some True"
| "allow_remove_node_loop new_site_def (n # ns) =
     (case new_site_def of
        None \<Rightarrow> None
      | Some new \<Rightarrow>
          if \<not> node_exists_with_uid n (sd_nodes new) then Some False
          else allow_remove_node_loop new_site_def ns)"

definition allow_remove_node :: "xcom_state \<Rightarrow> app_data \<Rightarrow> bool option" where
  "allow_remove_node st a =
     allow_remove_node_loop (deref_site (site_defs st) (get_site_def (site_defs st))) (app_nodes a)"

datatype allow_event_horizon_result =
  EVENT_HORIZON_ALLOWED | EVENT_HORIZON_INVALID | EVENT_HORIZON_UNCHANGEABLE

definition allow_event_horizon ::
  "cfg_env \<Rightarrow> xcom_state \<Rightarrow> xcom_event_horizon \<Rightarrow> allow_event_horizon_result option" where
  "allow_event_horizon env st event_horizon =
     (if event_horizon < EVENT_HORIZON_MIN env \<or> event_horizon > EVENT_HORIZON_MAX env
      then Some EVENT_HORIZON_INVALID
      else (case get_site_def (site_defs st) of
              None \<Rightarrow> None
            | Some latest_config \<Rightarrow>
                if \<not> reconfigurable_event_horizon (sd_x_proto (site_defs st ! latest_config))
                then Some EVENT_HORIZON_UNCHANGEABLE
                else Some EVENT_HORIZON_ALLOWED))"

definition unsafe_event_horizon_reconfiguration ::
  "cfg_env \<Rightarrow> xcom_state \<Rightarrow> app_data \<Rightarrow> bool option" where
  "unsafe_event_horizon_reconfiguration env st a =
     map_option (\<lambda>error_code. error_code \<noteq> EVENT_HORIZON_ALLOWED)
       (allow_event_horizon env st (app_event_horizon a))"

fun are_there_dead_nodes_in_new_config_loop ::
  "cfg_env \<Rightarrow> site_def option \<Rightarrow> node_address list \<Rightarrow> bool option" where
  "are_there_dead_nodes_in_new_config_loop env latest [] = Some False"
| "are_there_dead_nodes_in_new_config_loop env latest (n # ns) =
     (case latest of
        None \<Rightarrow> None
      | Some site \<Rightarrow>
          (let nd = find_nodeno site (address n)
           in if nd = get_nodeno latest
              then are_there_dead_nodes_in_new_config_loop env latest ns
              else if nd = VOID_NODE_NO then Some True
              else if may_be_dead env nd then Some True
              else are_there_dead_nodes_in_new_config_loop env latest ns))"

definition are_there_dead_nodes_in_new_config ::
  "cfg_env \<Rightarrow> xcom_state \<Rightarrow> app_data \<Rightarrow> bool option" where
  "are_there_dead_nodes_in_new_config env st a =
     are_there_dead_nodes_in_new_config_loop env
       (deref_site (site_defs st) (get_site_def (site_defs st))) (app_nodes a)"

text \<open>
  \<open>can_execute_cfgchange\<close> on the payload of the request. Before the node has booted the
  payload is read without a test; \<open>None\<close> is a null dereference, or a payload that
  \<open>add_node_adding_own_address\<close> cannot read.
\<close>

definition can_execute_cfgchange ::
  "cfg_env \<Rightarrow> xcom_state \<Rightarrow> pax_msg \<Rightarrow> client_reply_code option" where
  "can_execute_cfgchange env st p =
     (if msgno (executed_msg st) \<le> 2 then
        (case msg_a p of
           None \<Rightarrow> None
         | Some a \<Rightarrow>
             (case add_node_adding_own_address env a of
                None \<Rightarrow> None
              | Some own \<Rightarrow> if own then Some REQUEST_FAIL else Some REQUEST_RETRY))
      else
        (case msg_a p of
           None \<Rightarrow> Some REQUEST_OK
         | Some a \<Rightarrow>
             if app_group_id a \<noteq> 0 \<and> app_group_id a \<noteq> group_id (executed_msg st)
             then Some REQUEST_FAIL
             else if app_c_t a = add_node_type then
               (case allow_add_node env st a of
                  None \<Rightarrow> None
                | Some ok \<Rightarrow> if \<not> ok then Some REQUEST_FAIL else Some REQUEST_OK)
             else if app_c_t a = remove_node_type then
               (case allow_remove_node st a of
                  None \<Rightarrow> None
                | Some ok \<Rightarrow> if \<not> ok then Some REQUEST_FAIL else Some REQUEST_OK)
             else if app_c_t a = set_event_horizon_type then
               (case unsafe_event_horizon_reconfiguration env st a of
                  None \<Rightarrow> None
                | Some unsafe \<Rightarrow> if unsafe then Some REQUEST_FAIL else Some REQUEST_OK)
             else if app_c_t a = force_config_type then
               (case are_there_dead_nodes_in_new_config env st a of
                  None \<Rightarrow> None
                | Some dead \<Rightarrow> if dead then Some REQUEST_FAIL else Some REQUEST_OK)
             else Some REQUEST_OK))"

section \<open>Installing a configuration\<close>

text \<open>
  What the installation of a configuration takes from outside xcom\_base.cc:
  \<open>init_site_def\<close> (the site that \<open>new_site_def\<close> and \<open>init_site_def\<close> make of a list of
  nodes), \<open>add_site_def\<close> and \<open>remove_site_def\<close> (a site with nodes added or removed),
  \<open>xcom_find_node_index\<close> (the index of the local node in a list of nodes, or
  \<open>VOID_NODE_NO\<close>), \<open>get_group_id\<close>, \<open>garbage_collect_site_defs\<close> (what is left of the
  history), and \<open>fnv_hash_id_timestamp\<close>, the hash that \<open>new_id\<close> computes with \<open>fnv_hash\<close>
  from the bytes of \<open>xcom_unique_long ()\<close> and of \<open>task_now ()\<close>.
\<close>

record site_env =
  init_site_def :: "node_address list \<Rightarrow> site_def"
  add_site_def :: "node_address list \<Rightarrow> site_def \<Rightarrow> site_def"
  remove_site_def :: "node_address list \<Rightarrow> site_def \<Rightarrow> site_def"
  xcom_find_node_index :: "node_address list \<Rightarrow> node_no"
  get_group_id :: "site_def \<Rightarrow> u32"
  garbage_collect_site_defs :: "synode_no \<Rightarrow> site_def list \<Rightarrow> site_def list"
  fnv_hash_id_timestamp :: u32

text \<open>
  Modelled from the spec: \<open>clone_site_def\<close> and \<open>push_site_def\<close> are defined outside
  xcom\_base.cc. By the specification a reconfiguration clones the current site, changes
  the clone and pushes it onto the history of sites, where it is the latest site. The
  clone of a site is a site with the same fields. The sites that are in the history
  already move up by one index, and so does the pointer of the executor into the history.
\<close>

definition clone_site_def :: "site_def \<Rightarrow> site_def" where
  "clone_site_def site = site"

definition push_site_def :: "xcom_state \<Rightarrow> site_def \<Rightarrow> xcom_state" where
  "push_site_def st s =
     st\<lparr>site_defs := s # site_defs st, executor_site := map_option Suc (executor_site st)\<rparr>"

text \<open>
  \<open>null_id\<close> is defined outside xcom\_base.cc; it is the group id of \<open>null_synode\<close>, the id
  that \<open>new_id\<close> avoids and \<open>bury_site\<close> does not bury.
\<close>

definition null_id :: u32 where
  "null_id = 0"

definition set_group :: "xcom_state \<Rightarrow> u32 \<Rightarrow> xcom_state" where
  "set_group st gid =
     st\<lparr>current_message := (current_message st)\<lparr>group_id := gid\<rparr>,
        executed_msg := (executed_msg st)\<lparr>group_id := gid\<rparr>,
        max_synode := (max_synode st)\<lparr>group_id := gid\<rparr>\<rparr>"

text \<open>
  \<open>is_dead_site\<close> scans the array of the buried group ids up to the first entry that is the
  id or 0.
\<close>

fun is_dead_site_loop :: "u64 list \<Rightarrow> u32 \<Rightarrow> bool" where
  "is_dead_site_loop [] gid = False"
| "is_dead_site_loop (x # xs) gid =
     (if x = ucast gid then True
      else if x = 0 then False
      else is_dead_site_loop xs gid)"

definition is_dead_site :: "xcom_state \<Rightarrow> u32 \<Rightarrow> bool" where
  "is_dead_site st gid = is_dead_site_loop (dead_sites_id st) gid"

text \<open>
  The loop of \<open>new_id\<close> computes the same hash of the same two values in every round;
  \<open>None\<close> is the loop that does not end.
\<close>

partial_function (option) new_id_loop :: "site_env \<Rightarrow> xcom_state \<Rightarrow> u32 \<Rightarrow> u32 option" where
  "new_id_loop env st retval =
     (if retval = 0 \<or> is_dead_site st retval
      then new_id_loop env st (fnv_hash_id_timestamp env)
      else Some retval)"

definition new_id :: "site_env \<Rightarrow> xcom_state \<Rightarrow> u32 option" where
  "new_id env st = new_id_loop env st 0"

text \<open>
  \<open>getstart\<close> writes the group id into the payload; it yields the payload as it has become
  together with the start.
\<close>

definition getstart :: "site_env \<Rightarrow> xcom_state \<Rightarrow> app_data \<Rightarrow> (app_data \<times> synode_no) option" where
  "getstart env st a =
     (let a1 = (if app_group_id a = null_id
                then a\<lparr>app_group_id := group_id (app_key a)\<rparr> else a)
      in if app_group_id a1 = null_id then
           map_option (\<lambda>gid. (a1, null_synode\<lparr>group_id := gid\<rparr>)) (new_id env st)
         else
           (let a2 = a1\<lparr>app_key := (app_key a1)\<lparr>group_id := app_group_id a1\<rparr>\<rparr>;
                retval = app_key a2
            in if get_site_def (site_defs st) \<noteq> None \<and> msgno retval > 1
               then map_option (\<lambda>s. (a2, s)) (add_event_horizon st retval)
               else Some (a2, retval)))"

text \<open>
  \<open>site_install_action\<close> is given a site that is not in the history yet and pushes it; its
  assertion on the event horizon and the time of the installation are not represented.
\<close>

definition site_install_action ::
  "site_env \<Rightarrow> xcom_state \<Rightarrow> site_def \<Rightarrow> cargo_type \<Rightarrow> xcom_state" where
  "site_install_action env st site operation =
     (let st1 = (if group_mismatch (sd_start site) (max_synode st) \<or>
                    synode_gt (sd_start site) (max_synode st)
                 then set_max_synode st (sd_start site) else st);
          site1 = site\<lparr>sd_nodeno := xcom_find_node_index env (sd_nodes site)\<rparr>;
          st2 = push_site_def st1 site1;
          st3 = set_group st2 (get_group_id env site1)
      in if get_maxnodes (deref_site (site_defs st3) (get_site_def (site_defs st3))) \<noteq> 0
         then st3\<lparr>effects := effects st3 @ [Update_servers operation]\<rparr>
         else st3)"

definition create_site_def_with_start :: "site_env \<Rightarrow> app_data \<Rightarrow> synode_no \<Rightarrow> site_def" where
  "create_site_def_with_start env a start =
     (init_site_def env (app_nodes a))\<lparr>sd_start := start, sd_boot_key := app_key a\<rparr>"

text \<open>
  The functions that install a site yield the state, the payload and the pointer to the
  new site, which is the latest site; \<open>None\<close> is the dereference of a null site or a loop
  that does not end. The payload of \<open>handle_config\<close> is never null.
\<close>

definition install_ng_with_start ::
  "site_env \<Rightarrow> xcom_state \<Rightarrow> app_data \<Rightarrow> synode_no \<Rightarrow> xcom_state \<times> site_ptr" where
  "install_ng_with_start env st a start =
     (let site = create_site_def_with_start env a start;
          st1 = site_install_action env st site (app_c_t a)
      in (st1, get_site_def (site_defs st1)))"

definition install_node_group ::
  "site_env \<Rightarrow> xcom_state \<Rightarrow> app_data \<Rightarrow> (xcom_state \<times> app_data \<times> site_ptr) option" where
  "install_node_group env st a =
     (case getstart env st a of
        None \<Rightarrow> None
      | Some (a1, start) \<Rightarrow>
          (let (st1, site) = install_ng_with_start env st a1 start
           in Some (st1, a1, site)))"

definition handle_add_node ::
  "cfg_env \<Rightarrow> site_env \<Rightarrow> xcom_state \<Rightarrow> app_data \<Rightarrow>
   (xcom_state \<times> app_data \<times> site_ptr) option" where
  "handle_add_node cenv env st a =
     (case add_node_unsafe_against_event_horizon cenv st a of
        None \<Rightarrow> None
      | Some unsafe \<Rightarrow>
          if unsafe then Some (st, a, None)
          else
            (case get_site_def (site_defs st) of
               None \<Rightarrow> None
             | Some latest \<Rightarrow>
                 (let site = add_site_def env (app_nodes a)
                               (clone_site_def (site_defs st ! latest))
                  in case getstart env st a of
                       None \<Rightarrow> None
                     | Some (a1, start) \<Rightarrow>
                         (let site1 = site\<lparr>sd_start := start\<rparr>;
                              site2 = site1\<lparr>sd_boot_key := app_key a1\<rparr>;
                              st1 = site_install_action env st site2 (app_c_t a1)
                          in Some (st1, a1, get_site_def (site_defs st1))))))"

definition handle_event_horizon ::
  "cfg_env \<Rightarrow> site_env \<Rightarrow> xcom_state \<Rightarrow> app_data \<Rightarrow> (xcom_state \<times> bool) option" where
  "handle_event_horizon cenv env st a =
     (case unsafe_event_horizon_reconfiguration cenv st a of
        None \<Rightarrow> None
      | Some unsafe \<Rightarrow>
          if unsafe then Some (st, False)
          else
            (let new_event_horizon = app_event_horizon a
             in case get_site_def (site_defs st) of
                  None \<Rightarrow> None
                | Some latest_config \<Rightarrow>
                    (let new_config = clone_site_def (site_defs st ! latest_config);
                         new_config = new_config\<lparr>sd_event_horizon := new_event_horizon\<rparr>
                     in Some (site_install_action env st new_config (app_c_t a), True))))"

definition handle_remove_node ::
  "site_env \<Rightarrow> xcom_state \<Rightarrow> app_data \<Rightarrow> (xcom_state \<times> app_data \<times> site_ptr) option" where
  "handle_remove_node env st a =
     (case get_site_def (site_defs st) of
        None \<Rightarrow> None
      | Some latest \<Rightarrow>
          (let site = remove_site_def env (app_nodes a) (clone_site_def (site_defs st ! latest))
           in case getstart env st a of
                None \<Rightarrow> None
              | Some (a1, start) \<Rightarrow>
                  (let site1 = site\<lparr>sd_start := start\<rparr>;
                       site2 = site1\<lparr>sd_boot_key := app_key a1\<rparr>;
                       st1 = site_install_action env st site2 (app_c_t a1);
                       st2 = st1\<lparr>effects := effects st1 @
                                    [Notify_detector_when_removed (app_nodes a1) 10]\<rparr>
                   in Some (st2, a1, get_site_def (site_defs st2)))))"

text \<open>
  \<open>x_1_8\<close> is the fourth version of the protocol after \<open>x_1_4\<close>; from it on a configuration
  that was forced is ignored.
\<close>

definition x_1_8 :: xcom_proto where
  "x_1_8 = 9"

definition first_protocol_that_ignores_intermediate_forced_configs_or_views :: xcom_proto where
  "first_protocol_that_ignores_intermediate_forced_configs_or_views = x_1_8"

definition should_ignore_forced_config_or_view :: "xcom_proto \<Rightarrow> bool" where
  "should_ignore_forced_config_or_view protocol_version =
     (protocol_version \<ge> first_protocol_that_ignores_intermediate_forced_configs_or_views)"

definition is_config :: "cargo_type \<Rightarrow> bool" where
  "is_config x =
     (x = unified_boot_type \<or> x = add_node_type \<or> x = remove_node_type \<or>
      x = set_event_horizon_type \<or> x = force_config_type)"

text \<open>
  \<open>handle_config\<close> yields the state, the payload and whether the reconfiguration has
  succeeded. A forced configuration reads the protocol of the site of the executor. The
  default of the switch is an assertion, which is not represented: the reconfiguration
  has not succeeded.
\<close>

definition handle_config ::
  "cfg_env \<Rightarrow> site_env \<Rightarrow> xcom_state \<Rightarrow> app_data \<Rightarrow> bool \<Rightarrow>
   (xcom_state \<times> app_data \<times> bool) option" where
  "handle_config cenv env st a forced =
     (case (if forced
            then map_option (\<lambda>site. should_ignore_forced_config_or_view (sd_x_proto site))
                   (deref_site (site_defs st) (executor_site st))
            else Some False) of
        None \<Rightarrow> None
      | Some ignored \<Rightarrow>
          if ignored then Some (st, a, False)
          else
            (case app_c_t a of
               unified_boot_type \<Rightarrow>
                 map_option (\<lambda>(st1, a1, site). (st1, a1, site \<noteq> None))
                   (install_node_group env st a)
             | add_node_type \<Rightarrow>
                 map_option (\<lambda>(st1, a1, site). (st1, a1, site \<noteq> None))
                   (handle_add_node cenv env st a)
             | remove_node_type \<Rightarrow>
                 map_option (\<lambda>(st1, a1, site). (st1, a1, site \<noteq> None))
                   (handle_remove_node env st a)
             | set_event_horizon_type \<Rightarrow>
                 map_option (\<lambda>(st1, success). (st1, a, success))
                   (handle_event_horizon cenv env st a)
             | force_config_type \<Rightarrow>
                 map_option (\<lambda>(st1, a1, site). (st1, a1, site \<noteq> None))
                   (install_node_group env st a)
             | _ \<Rightarrow> Some (st, a, False)))"

section \<open>The executor learns a configuration\<close>

definition set_last_received_config :: "xcom_state \<Rightarrow> synode_no \<Rightarrow> xcom_state" where
  "set_last_received_config st received_config_change =
     st\<lparr>last_config_modification_id := received_config_change\<rparr>"

text \<open>
  \<open>x_fetch\<close> runs on the machine \<open>xc->p\<close> of the message that the executor has just got, and
  reads the message that the machine has learned from the store; a machine that has
  learned nothing is the dereference of a null message. The payload that \<open>handle_config\<close>
  has written is put back into the store. The first component of the tuple worked out
  before the last step tells whether \<open>x_fetch\<close> has returned early, with \<open>x_terminate\<close> as
  the next state, because there is no latest site.
\<close>

definition x_fetch ::
  "cfg_env \<Rightarrow> site_env \<Rightarrow> msg_store \<Rightarrow> xcom_state \<Rightarrow> execute_context \<Rightarrow> pax_machine \<Rightarrow>
   (msg_store \<times> xcom_state \<times> execute_context) option" where
  "x_fetch cenv env ms st xc p =
     (case learner_msg p of
        None \<Rightarrow> None
      | Some r \<Rightarrow>
          (case (case msg_a (ms r) of
                   None \<Rightarrow> Some (False, ms, st, xc)
                 | Some app \<Rightarrow>
                     if \<not> is_config (app_c_t app) then Some (False, ms, st, xc)
                     else
                       (case get_site_def (site_defs st) of
                          None \<Rightarrow> None
                        | Some latest \<Rightarrow>
                            if \<not> synode_gt (executed_msg st) (sd_boot_key (site_defs st ! latest))
                            then Some (False, ms, st, xc)
                            else
                              (case handle_config cenv env st app
                                      (msg_force_delivery (ms r) \<noteq> 0) of
                                 None \<Rightarrow> None
                               | Some (st1, app1, reconfiguration_successful) \<Rightarrow>
                                   (let ms1 = ms(r := (ms r)\<lparr>msg_a := Some app1\<rparr>)
                                    in if \<not> reconfiguration_successful
                                       then Some (False, ms1, st1, xc)
                                       else
                                         (let st2 = set_last_received_config st1 (executed_msg st1);
                                              st3 = st2\<lparr>site_defs :=
                                                      garbage_collect_site_defs env
                                                        (delivered_msg st2) (site_defs st2)\<rparr>
                                          in case get_site_def (site_defs st3) of
                                               None \<Rightarrow>
                                                 Some (True, ms1, st3,
                                                       xc\<lparr>xc_state := Some FP_x_terminate\<rparr>)
                                             | Some site \<Rightarrow>
                                                 if exit_flag xc = 0 then
                                                   (let (st4, xc4) = setup_exit_handling st3 xc site
                                                    in Some (False, ms1, st4, xc4))
                                                 else Some (False, ms1, st3, xc)))))) of
             None \<Rightarrow> None
           | Some (returned, ms1, st1, xc1) \<Rightarrow>
               if returned then Some (ms1, st1, xc1)
               else map_option (\<lambda>(st2, xc2). (ms1, st2, xc2)) (x_check_increment_fetch st1 xc1)))"

section \<open>The back-off of a waiting proposer\<close>

text \<open>
  Times and delays are values of type \<open>double\<close> in the program. They are represented by
  real numbers: the rounding of the floating-point operations is not represented.

  The loop \<open>while (retval > maximum_threshold) retval /= 1.3\<close> of \<open>wakeup_delay\<close>; \<open>None\<close>
  is a loop that does not end.
\<close>

partial_function (option) wakeup_delay_loop :: "real \<Rightarrow> real \<Rightarrow> real option" where
  "wakeup_delay_loop retval maximum_threshold =
     (if retval > maximum_threshold
      then wakeup_delay_loop (retval / 1.3) maximum_threshold
      else Some retval)"

definition wakeup_delay_threshold :: "site_def \<Rightarrow> real" where
  "wakeup_delay_threshold site =
     (let minimum_threshold = 0.005;
          maximum_threshold = 0.500;
          candidate_threshold = max_conn_rtt site * 10;
          candidate_threshold = (if candidate_threshold < minimum_threshold
                                 then minimum_threshold else candidate_threshold)
      in if candidate_threshold < maximum_threshold then candidate_threshold
         else maximum_threshold)"

definition wakeup_delay :: "site_def \<Rightarrow> real \<Rightarrow> real option" where
  "wakeup_delay site old =
     (let retval = (if 0.0 = old then 0.001 + max_conn_rtt site else old * 1.4)
      in wakeup_delay_loop retval (wakeup_delay_threshold site))"

text \<open>
  The delay in the wording of the specification: \<open>max (site.max_rtt, 0.001)\<close> at first,
  then the previous delay times 1.4, capped at \<open>min (0.5, 10 * site.max_rtt)\<close>. It is
  compared with \<open>wakeup_delay\<close> below; the program has no such function.
\<close>

definition spec_wakeup_delay :: "site_def \<Rightarrow> real \<Rightarrow> real" where
  "spec_wakeup_delay site old =
     min (if old = 0 then max (max_conn_rtt site) 0.001 else old * 1.4)
         (min 0.5 (10 * max_conn_rtt site))"

text \<open>
  Pushing a value with phase 1. \<open>wait_forced_config\<close> is a global of the program and is
  passed explicitly. The message is the proposer task's own prepare message.

  \<open>prepare_msg\<close> writes two more globals, the array \<open>participate_paxos\<close> and
  \<open>current_propose_msgno\<close>, and hands the message to \<open>send_to_acceptors\<close>, which is
  defined outside xcom\_base.cc: \<open>sent_to_acceptors\<close> is the list of the messages handed to
  it, each as it is at the call, the latest last. The value that \<open>send_to_acceptors\<close>
  returns is dropped by \<open>push_msg_3p\<close>.
\<close>

definition MAX_ARRAY_LEN :: nat where
  "MAX_ARRAY_LEN = 65536"

record propose_state =
  participate_paxos :: "nat \<Rightarrow> int"
  current_propose_msgno :: u64
  sent_to_acceptors :: "pax_msg list"

definition prepare :: "pax_msg \<Rightarrow> pax_op \<Rightarrow> pax_msg" where
  "prepare p opc = p\<lparr>msg_op := opc, reply_to := proposal p\<rparr>"

definition init_prepare_msg :: "pax_msg \<Rightarrow> pax_msg" where
  "init_prepare_msg p = prepare p prepare_op"

definition prepare_msg :: "pax_msg \<Rightarrow> propose_state \<Rightarrow> pax_msg \<times> propose_state" where
  "prepare_msg p g =
     (let p1 = init_prepare_msg p;
          g1 = g\<lparr>participate_paxos :=
                   (participate_paxos g)(unat (msgno (msg_synode p1)) mod MAX_ARRAY_LEN := 1)\<rparr>;
          g2 = (if msgno (msg_synode p1) > current_propose_msgno g1
                then g1\<lparr>current_propose_msgno := msgno (msg_synode p1)\<rparr>
                else g1)
      in (p1, g2\<lparr>sent_to_acceptors := sent_to_acceptors g2 @ [p1]\<rparr>))"

definition prepare_push_3p ::
  "site_def option \<Rightarrow> pax_machine \<Rightarrow> pax_msg \<Rightarrow> synode_no \<Rightarrow> pax_msg_type \<Rightarrow>
   pax_machine \<times> pax_msg" where
  "prepare_push_3p site p msg m mtype =
     (let p1 = p\<lparr>prep_nodeset := BIT_ZERO\<rparr>;
          p2 = p1\<lparr>proposer_bal := (proposer_bal p1)\<lparr>bal_node := get_nodeno site\<rparr>\<rparr>;
          maxcnt = MAX_i32 (bal_cnt (proposer_bal p2)) (bal_cnt (acceptor_promise p2));
          p3 = p2\<lparr>proposer_bal := (proposer_bal p2)\<lparr>bal_cnt := maxcnt + 1\<rparr>\<rparr>
      in (p3, msg\<lparr>msg_synode := m, proposal := proposer_bal p3, msg_type := mtype,
                   msg_force_delivery := force_delivery p3\<rparr>))"

definition push_msg_3p ::
  "bool \<Rightarrow> site_def option \<Rightarrow> pax_machine \<Rightarrow> pax_msg \<Rightarrow> synode_no \<Rightarrow> pax_msg_type \<Rightarrow>
   propose_state \<Rightarrow> pax_machine \<times> pax_msg \<times> propose_state" where
  "push_msg_3p wait_forced_config site p msg m mtype g =
     (let p1 = (if wait_forced_config then force_pax_machine p 1 else p);
          (p2, msg1) = prepare_push_3p site p1 msg m mtype;
          (msg2, g1) = prepare_msg msg1 g
      in (p2, msg2, g1))"

text \<open>
  One round of the loop in which \<open>proposer_task\<close> waits for its value to be learned. The
  task computes the delay and sleeps; \<open>h\<close> and \<open>p\<close> are the store and the machine as the
  task finds them when it wakes up, \<open>now\<close> the time at which it does. The round ends with
  a jump to \<open>retry_new\<close>, with the value learned, or with another round; \<open>g\<close> and
  \<open>wr_globals\<close> are the globals of \<open>prepare_msg\<close> before and after the round.
\<close>

datatype wait_outcome = Goto_retry_new | Value_learned | Keep_waiting

record proposer_env =
  ep_msgno :: synode_no
  ep_delay :: real
  ep_start_push :: real
  ep_prepare_msg :: pax_msg

record wait_result =
  wr_outcome :: wait_outcome
  wr_machine :: pax_machine
  wr_env :: proposer_env
  wr_globals :: propose_state

definition proposer_wait_round ::
  "bool \<Rightarrow> site_def \<Rightarrow> real \<Rightarrow> msg_store \<Rightarrow> pax_machine \<Rightarrow> proposer_env \<Rightarrow>
   propose_state \<Rightarrow> wait_result option" where
  "proposer_wait_round wait_forced_config site now h p ep g =
     (case wakeup_delay site (ep_delay ep) of
        None \<Rightarrow> None
      | Some d \<Rightarrow>
          (let ep1 = ep\<lparr>ep_delay := d\<rparr>
           in if \<not> synode_eq (ep_msgno ep1) (pm_synode p) \<or> proposer_msg p = None then
                Some \<lparr>wr_outcome = Goto_retry_new, wr_machine = p, wr_env = ep1, wr_globals = g\<rparr>
              else if finished h p then
                Some \<lparr>wr_outcome = Value_learned, wr_machine = p, wr_env = ep1, wr_globals = g\<rparr>
              else if ep_start_push ep1 + 3.0 \<le> now then
                (let (p1, msg1, g1) = push_msg_3p wait_forced_config (Some site) p
                                        (ep_prepare_msg ep1) (ep_msgno ep1) normal g
                 in Some \<lparr>wr_outcome = Keep_waiting, wr_machine = p1,
                          wr_env = ep1\<lparr>ep_start_push := now, ep_prepare_msg := msg1\<rparr>,
                          wr_globals = g1\<rparr>)
              else Some \<lparr>wr_outcome = Keep_waiting, wr_machine = p, wr_env = ep1, wr_globals = g\<rparr>))"

section \<open>Concrete states\<close>

text \<open>
  States on which the theorems below are instantiated. \<open>idle_machine\<close> is a machine on
  which nothing has happened yet: its proposer ballot counter is \<open>-1\<close>.
\<close>

definition idle_machine :: pax_machine where
  "idle_machine =
     \<lparr>pm_synode = \<lparr>group_id = 1, msgno = 7, node = 0\<rparr>, last_modified = 0,
      acceptor_promise = \<lparr>bal_cnt = 0, bal_node = 0\<rparr>, acceptor_msg = None,
      proposer_bal = \<lparr>bal_cnt = - 1, bal_node = 0\<rparr>,
      proposer_sent_prop = \<lparr>bal_cnt = 0, bal_node = 0\<rparr>,
      proposer_sent_learn = \<lparr>bal_cnt = - 1, bal_node = 0\<rparr>,
      proposer_msg = None, prep_nodeset = {}, prop_nodeset = {}, learner_msg = None,
      pm_op = initial_op, force_delivery = 0, enforcer = 0\<rparr>"

definition full_fifo :: delay_fifo where
  "full_fifo = \<lparr>fifo_n = 1000, fifo_front_ix = 0, fifo_rear_ix = 0,
                 fifo_q = replicate 1000 null_synode\<rparr>"

text \<open>
  A configuration of three nodes with the local node at index 0, and the configuration
  of its first two nodes, as a forced configuration would list them.
\<close>

definition three_node_site :: site_def where
  "three_node_site =
     \<lparr>sd_start = \<lparr>group_id = 1, msgno = 1, node = 0\<rparr>,
      sd_boot_key = \<lparr>group_id = 1, msgno = 0, node = 0\<rparr>,
      sd_nodeno = 0,
      sd_nodes = [\<lparr>address = ''a:1'', uuid = ''ua'', min_proto = 1, max_proto = 10\<rparr>,
                  \<lparr>address = ''b:1'', uuid = ''ub'', min_proto = 1, max_proto = 10\<rparr>,
                  \<lparr>address = ''c:1'', uuid = ''uc'', min_proto = 1, max_proto = 10\<rparr>],
      sd_event_horizon = 10, sd_x_proto = 10, max_conn_rtt = 0\<rparr>"

definition forced_two_node_site :: site_def where
  "forced_two_node_site =
     three_node_site
       \<lparr>sd_nodes := [\<lparr>address = ''a:1'', uuid = ''ua'', min_proto = 1, max_proto = 10\<rparr>,
                     \<lparr>address = ''b:1'', uuid = ''ub'', min_proto = 1, max_proto = 10\<rparr>]\<rparr>"

text \<open>
  A state in which the executor is at message 45 under a configuration with event horizon
  10, while a configuration that starts at message 50 with event horizon 2 is already
  installed.
\<close>

definition shrinking_horizon_state :: xcom_state where
  "shrinking_horizon_state =
     \<lparr>executed_msg = \<lparr>group_id = 1, msgno = 45, node = 0\<rparr>,
      delivered_msg = \<lparr>group_id = 1, msgno = 45, node = 0\<rparr>,
      max_synode = \<lparr>group_id = 1, msgno = 60, node = 0\<rparr>,
      current_message = \<lparr>group_id = 1, msgno = 46, node = 0\<rparr>,
      site_defs = [three_node_site\<lparr>sd_start := \<lparr>group_id = 1, msgno = 50, node = 0\<rparr>,
                                   sd_event_horizon := 2\<rparr>,
                   three_node_site],
      executor_site = Some 1,
      delay_fifo = \<lparr>fifo_n = 0, fifo_front_ix = 0, fifo_rear_ix = 0,
                     fifo_q = replicate 1000 null_synode\<rparr>,
      last_config_modification_id = null_synode,
      dead_sites_id = replicate 10 0,
      effects = []\<rparr>"


text \<open>
  The execution context with which the executor starts, and the context of an executor
  that has set its exit trigger for a configuration that starts at message 50 with event
  horizon 10.
\<close>

definition fresh_context :: execute_context where
  "fresh_context = \<lparr>exit_synode = null_synode, delivery_limit = null_synode,
                     xc_state = Some FP_x_fetch, exit_flag = 0, inform_index = - 1\<rparr>"

definition leaving_context :: execute_context where
  "leaving_context =
     fresh_context\<lparr>exit_synode := \<lparr>group_id = 1, msgno = 60, node = 0\<rparr>,
                    delivery_limit := \<lparr>group_id = 1, msgno = 50, node = 0\<rparr>,
                    exit_flag := 1\<rparr>"

text \<open>
  A store of messages: message 1 is an accepted \<open>no_op\<close> with ballot (4, 1), message 2 a
  prepare for a \<open>no_op\<close> with ballot (3, 2), message 3 a learned \<open>no_op\<close>, message 4 a
  prepare with ballot (6, 2). \<open>noop_accepted_machine\<close> has promised ballot (5, 1) and
  accepted message 1; \<open>learned_machine\<close> has learned message 3.
\<close>

definition blank_msg :: pax_msg where
  "blank_msg =
     \<lparr>msg_from = 0, msg_to = 0, msg_op = initial_op,
      msg_synode = \<lparr>group_id = 1, msgno = 7, node = 0\<rparr>,
      proposal = \<lparr>bal_cnt = 0, bal_node = 0\<rparr>, reply_to = \<lparr>bal_cnt = 0, bal_node = 0\<rparr>,
      msg_type = normal, msg_a = None, msg_force_delivery = 0,
      msg_delivered_msg = null_synode, msg_max_synode = null_synode\<rparr>"

definition example_store :: msg_store where
  "example_store =
     (\<lambda>r. blank_msg)
       (1 := blank_msg\<lparr>msg_from := 1, msg_op := accept_op, msg_type := no_op,
                       proposal := \<lparr>bal_cnt = 4, bal_node = 1\<rparr>\<rparr>,
        2 := blank_msg\<lparr>msg_from := 2, msg_op := prepare_op, msg_type := no_op,
                       proposal := \<lparr>bal_cnt = 3, bal_node = 2\<rparr>\<rparr>,
        3 := blank_msg\<lparr>msg_from := 1, msg_op := learn_op, msg_type := no_op,
                       proposal := \<lparr>bal_cnt = 4, bal_node = 1\<rparr>\<rparr>,
        4 := blank_msg\<lparr>msg_from := 2, msg_op := prepare_op, msg_type := normal,
                       proposal := \<lparr>bal_cnt = 6, bal_node = 2\<rparr>\<rparr>)"

definition noop_accepted_machine :: pax_machine where
  "noop_accepted_machine =
     idle_machine\<lparr>acceptor_promise := \<lparr>bal_cnt = 5, bal_node = 1\<rparr>, acceptor_msg := Some 1\<rparr>"

definition learned_machine :: pax_machine where
  "learned_machine = noop_accepted_machine\<lparr>acceptor_msg := Some 3, learner_msg := Some 3\<rparr>"

text \<open>
  Environments of the validation: one whose local node (z:1) is not a member of the
  three-node configuration, one whose local node (a:1) is. A client request that adds a
  single node, addressed to group 1.
\<close>

definition outsider_env :: cfg_env where
  "outsider_env =
     \<lparr>cfg_identity = \<lparr>address = ''z:1'', uuid = ''uz'', min_proto = 1, max_proto = 10\<rparr>,
      EVENT_HORIZON_MIN = 10, EVENT_HORIZON_MAX = 200, minimum_ipv6_version = 7,
      get_ip_and_port = (\<lambda>s. Some (s, 1)), is_node_v4_reachable = (\<lambda>s. True),
      ask_for_detector_if_added_ok = (\<lambda>ns. True), may_be_dead = (\<lambda>n. False)\<rparr>"

definition member_env :: cfg_env where
  "member_env =
     outsider_env\<lparr>cfg_identity := \<lparr>address = ''a:1'', uuid = ''ua'', min_proto = 1, max_proto = 10\<rparr>\<rparr>"

definition add_payload :: "node_address \<Rightarrow> app_data" where
  "add_payload n =
     \<lparr>app_group_id = 1, app_key = null_synode, app_consensus = cons_majority,
      app_chosen = False, app_c_t = add_node_type, app_nodes = [n], app_event_horizon = 0\<rparr>"

definition add_request :: "node_address \<Rightarrow> pax_msg" where
  "add_request n = blank_msg\<lparr>msg_op := client_msg, msg_a := Some (add_payload n)\<rparr>"

text \<open>
  A proposer that has pushed its value at time 10 and waits for the first time, and its
  machine, which holds a proposer message and has not learned a value.
\<close>

definition waiting_env :: proposer_env where
  "waiting_env = \<lparr>ep_msgno = \<lparr>group_id = 1, msgno = 7, node = 0\<rparr>, ep_delay = 0,
                   ep_start_push = 10, ep_prepare_msg = blank_msg\<rparr>"

definition proposing_machine :: pax_machine where
  "proposing_machine = idle_machine\<lparr>proposer_msg := Some 4\<rparr>"

text \<open>The globals of \<open>prepare_msg\<close> of a node that has proposed up to message 6.\<close>

definition proposed_to_6 :: propose_state where
  "proposed_to_6 = \<lparr>participate_paxos = (\<lambda>i. if i < 7 then 1 else 0),
                     current_propose_msgno = 6, sent_to_acceptors = []\<rparr>"

text \<open>
  A node (a:1) that runs at message 45 under the three-node configuration alone, and what
  it takes from outside xcom\_base.cc to install a configuration: nodes are added at the
  end of a site and removed by address, the local node is found by its address, the group
  id of a site is that of its start, and nothing of the history is collected. The machine
  of message 45 has learned a request, with boot key 45, that removes all three nodes.
  \<open>installed_state\<close> is the state once that request is installed: the empty configuration
  starts at message 56.
\<close>

definition plain_site_env :: site_env where
  "plain_site_env =
     \<lparr>init_site_def = (\<lambda>nodes. three_node_site\<lparr>sd_nodes := nodes\<rparr>),
      add_site_def = (\<lambda>nodes site. site\<lparr>sd_nodes := sd_nodes site @ nodes\<rparr>),
      remove_site_def =
        (\<lambda>nodes site. site\<lparr>sd_nodes := filter (\<lambda>n. \<not> node_exists n nodes) (sd_nodes site)\<rparr>),
      xcom_find_node_index = (\<lambda>nodes. find_nodeno (three_node_site\<lparr>sd_nodes := nodes\<rparr>) ''a:1''),
      get_group_id = (\<lambda>site. group_id (sd_start site)),
      garbage_collect_site_defs = (\<lambda>x sites. sites),
      fnv_hash_id_timestamp = 7\<rparr>"

definition running_state :: xcom_state where
  "running_state = shrinking_horizon_state\<lparr>site_defs := [three_node_site], executor_site := Some 0\<rparr>"

definition remove_all_payload :: app_data where
  "remove_all_payload =
     \<lparr>app_group_id = 1, app_key = \<lparr>group_id = 1, msgno = 45, node = 0\<rparr>,
      app_consensus = cons_majority, app_chosen = True, app_c_t = remove_node_type,
      app_nodes = sd_nodes three_node_site, app_event_horizon = 0\<rparr>"

definition removal_store :: msg_store where
  "removal_store = example_store(5 := blank_msg\<lparr>msg_op := learn_op, msg_a := Some remove_all_payload\<rparr>)"

definition removal_machine :: pax_machine where
  "removal_machine = idle_machine\<lparr>learner_msg := Some 5\<rparr>"

definition learned_empty_site :: site_def where
  "learned_empty_site =
     three_node_site\<lparr>sd_start := \<lparr>group_id = 1, msgno = 56, node = 0\<rparr>,
                      sd_boot_key := \<lparr>group_id = 1, msgno = 45, node = 0\<rparr>,
                      sd_nodeno := VOID_NODE_NO, sd_nodes := []\<rparr>"

definition installed_state :: xcom_state where
  "installed_state =
     running_state\<lparr>site_defs := [learned_empty_site, three_node_site],
                    executor_site := Some 1,
                    effects := [Notify_detector_when_removed (sd_nodes three_node_site) 10]\<rparr>"

section \<open>Properties\<close>

subsection \<open>Arithmetic of the force bump\<close>

lemma force_delta_sint:
  fixes c :: i32
  shows "sint (div_i32 (INT32_MAX - MAX_i32 c 0) 3) = (2147483647 - max (sint c) 0) div 3"
proof -
  have r: "- 2147483648 \<le> sint c" "sint c \<le> 2147483647"
    using sint_ge [of c] sint_lt [of c] by simp_all
  have m: "sint (MAX_i32 c 0) = max (sint c) 0"
    by (simp add: MAX_i32_def word_sless_alt max_def)
  have s: "sint (INT32_MAX - MAX_i32 c 0) = 2147483647 - max (sint c) 0"
    using r by (simp add: INT32_MAX_def sint_word_ariths m signed_take_bit_int_eq_self)
  have d: "(2147483647 - max (sint c) 0) sdiv 3 = (2147483647 - max (sint c) 0) div 3"
    using r by (simp add: signed_divide_int_def sgn_if)
  have b: "- 2147483648 \<le> (2147483647 - max (sint c) 0) div 3"
    "(2147483647 - max (sint c) 0) div 3 < 2147483648"
    using r by (auto simp: max_def)
  show ?thesis
    using b by (simp add: div_i32_def s d sint_sbintrunc' signed_take_bit_int_eq_self)
qed

lemma force_bump_sum:
  fixes c :: i32
  defines "d \<equiv> (2147483647 - max (sint c) 0) div 3"
  shows "- 2147483648 \<le> sint c + d" and "sint c + d \<le> 2147483647"
    and "sint (c + div_i32 (INT32_MAX - MAX_i32 c 0) 3) = sint c + d"
proof -
  have r: "- 2147483648 \<le> sint c" "sint c \<le> 2147483647"
    using sint_ge [of c] sint_lt [of c] by simp_all
  show lo: "- 2147483648 \<le> sint c + d" and hi: "sint c + d \<le> 2147483647"
    using r by (auto simp: d_def max_def)
  show "sint (c + div_i32 (INT32_MAX - MAX_i32 c 0) 3) = sint c + d"
    using lo hi
    by (simp add: sint_word_ariths force_delta_sint d_def signed_take_bit_int_eq_self)
qed

text \<open>
  C8: on a machine that is not yet marked as enforcer, \<open>force_pax_machine\<close> called on the
  forcing node adds \<open>(INT32_MAX - max cnt 0) / 3\<close> to the proposer's ballot counter, for
  every signed 32-bit counter (\<open>-1\<close> included); the sum, taken in the integers, lies in
  the signed 32-bit range, so the addition does not overflow. A machine that is already
  marked as enforcer keeps its ballot, and so does a machine on a node that is not
  forcing. In every case the machine ends up marked for forced delivery, with the
  enforcer flag it was given.
\<close>

theorem force_pax_machine_bump:
  "(enforcer p = 0 \<and> enf \<noteq> 0 \<longrightarrow>
      sint (bal_cnt (proposer_bal (force_pax_machine p enf))) =
        sint (bal_cnt (proposer_bal p)) +
        (2147483647 - max (sint (bal_cnt (proposer_bal p))) 0) div 3 \<and>
      - 2147483648 \<le> sint (bal_cnt (proposer_bal p)) +
        (2147483647 - max (sint (bal_cnt (proposer_bal p))) 0) div 3 \<and>
      sint (bal_cnt (proposer_bal p)) +
        (2147483647 - max (sint (bal_cnt (proposer_bal p))) 0) div 3 \<le> 2147483647) \<and>
   (enforcer p \<noteq> 0 \<or> enf = 0 \<longrightarrow>
      proposer_bal (force_pax_machine p enf) = proposer_bal p) \<and>
   enforcer (force_pax_machine p enf) = enf \<and>
   force_delivery (force_pax_machine p enf) = 1"
  using force_bump_sum [of "bal_cnt (proposer_bal p)"]
  by (auto simp: force_pax_machine_def Let_def)

theorem force_pax_machine_bump_witness:
  "enforcer idle_machine = 0 \<and> (1::int) \<noteq> 0 \<and>
   sint (bal_cnt (proposer_bal idle_machine)) = - 1 \<and>
   sint (bal_cnt (proposer_bal (force_pax_machine idle_machine 1))) = 715827881 \<and>
   enforcer (force_pax_machine idle_machine 1) \<noteq> 0 \<and>
   proposer_bal (force_pax_machine (force_pax_machine idle_machine 1) 1) =
     proposer_bal (force_pax_machine idle_machine 1)"
  using force_pax_machine_bump [of idle_machine 1]
        force_pax_machine_bump [of "force_pax_machine idle_machine 1" 1]
  by (simp add: idle_machine_def)

subsection \<open>The delay FIFO\<close>

text \<open>
  C10: inserting a synode into a delay FIFO that already holds \<open>FIFO_SIZE\<close> = 1000
  entries returns the FIFO as it was. The entry is dropped; the function has no way of
  reporting it (it returns nothing in the program). The count stays 1000, and the front
  entry and the result of the next extraction are those of the FIFO before the insertion.
\<close>

theorem fifo_insert_full_unchanged:
  "fifo_n f = FIFO_SIZE \<Longrightarrow>
     fifo_insert s f = f \<and> fifo_n (fifo_insert s f) = 1000 \<and>
     fifo_front (fifo_insert s f) = fifo_front f \<and>
     fifo_extract (fifo_insert s f) = fifo_extract f"
  by (simp add: fifo_insert_def fifo_full_def FIFO_SIZE_def)

theorem fifo_insert_full_unchanged_witness:
  "fifo_n full_fifo = FIFO_SIZE \<and>
   fifo_insert \<lparr>group_id = 1, msgno = 5, node = 2\<rparr> full_fifo = full_fifo"
  using fifo_insert_full_unchanged [of full_fifo "\<lparr>group_id = 1, msgno = 5, node = 2\<rparr>"]
  by (simp add: full_fifo_def FIFO_SIZE_def)

subsection \<open>Majority\<close>

lemma unat_succ_below:
  fixes i mx :: node_no
  assumes "i < mx"
  shows "unat (i + 1) = unat i + 1"
proof -
  have "unat i < unat mx"
    using assms by (simp add: word_less_nat_alt)
  moreover have "unat mx < 2 ^ 16"
    using unsigned_less [of mx, where 'a = nat] by simp
  ultimately have "unat i + 1 < 2 ^ 16"
    by simp
  then show ?thesis
    by (simp add: unat_word_ariths)
qed

text \<open>
  The loop counts the bits of the set below \<open>mx\<close>. The counter cannot wrap: it never
  exceeds the loop index.
\<close>

lemma count_answered_card:
  "unat ok \<le> unat i \<Longrightarrow>
   unat (count_answered S mx i ok) = unat ok + card {k \<in> S. unat i \<le> k \<and> k < unat mx}"
proof (induction S mx i ok rule: count_answered.induct)
  case (1 S mx i ok)
  show ?case
  proof (cases "i < mx")
    case False
    then have "unat mx \<le> unat i"
      by (simp add: word_less_nat_alt)
    then have "{k \<in> S. unat i \<le> k \<and> k < unat mx} = {}"
      by auto
    with False show ?thesis
      by (simp add: count_answered.simps [of S mx i ok])
  next
    case True
    have si: "unat (i + 1) = unat i + 1"
      using True by (rule unat_succ_below)
    have lt: "unat i < unat mx"
      using True by (simp add: word_less_nat_alt)
    have bound: "unat i + 1 < 2 ^ 16"
      using si unsigned_less [of "i + 1", where 'a = nat] by simp
    have sok: "unat (ok + 1) = unat ok + 1"
      using "1.prems" bound by (simp add: unat_word_ariths)
    let ?ok' = "if BIT_ISSET i S then ok + 1 else ok"
    have le': "unat ?ok' \<le> unat (i + 1)"
      using "1.prems" si sok by simp
    have ih: "unat (count_answered S mx (i + 1) ?ok') =
                unat ?ok' + card {k \<in> S. unat (i + 1) \<le> k \<and> k < unat mx}"
      using "1.IH" [OF True le'] .
    have fin: "finite {k \<in> S. unat i + 1 \<le> k \<and> k < unat mx}"
      by (rule finite_subset [of _ "{..<unat mx}"]) auto
    have split: "{k \<in> S. unat i \<le> k \<and> k < unat mx} =
                   (if unat i \<in> S then {unat i} else {}) \<union>
                   {k \<in> S. unat i + 1 \<le> k \<and> k < unat mx}"
      using lt by (auto simp: Suc_le_eq le_less)
    have cardsplit: "card {k \<in> S. unat i \<le> k \<and> k < unat mx} =
                   (if unat i \<in> S then 1 else 0) +
                   card {k \<in> S. unat i + 1 \<le> k \<and> k < unat mx}"
      unfolding split using fin by simp
    show ?thesis
      using True ih si sok cardsplit
      by (simp add: count_answered.simps [of S mx i ok] BIT_ISSET_def)
  qed
qed

lemma count_answered_from_zero:
  "unat (count_answered S mx 0 0) = card {k \<in> S. k < unat mx}"
  using count_answered_card [of 0 0 S mx] by simp

lemma unat_length_nodes:
  "length (sd_nodes s) < 65536 \<Longrightarrow> unat (get_maxnodes (Some s)) = length (sd_nodes s)"
  by (simp add: get_maxnodes_def unat_of_nat)

lemma count_answered_example: "count_answered {0, 2} 3 0 0 = 2"
  by (simp add: count_answered.simps BIT_ISSET_def)

text \<open>
  C4: the claim says that under force mode the answers of nodes that are absent from
  \<open>forced_config\<close> are ignored in the count. The program counts every answer of a node
  of the site, whatever \<open>forced_config\<close> lists. With a site of three nodes, a forced
  configuration of the first two and answers from nodes 0 and 2, \<open>majority\<close> holds,
  while only one of the two answers comes from a node of the forced configuration.
\<close>

theorem majority_force_counterexample:
  "majority (Some forced_two_node_site) {0, 2} (Some three_node_site) False False True \<and>
   \<not> spec_force_majority forced_two_node_site three_node_site {0, 2}"
proof -
  have "answered_in_forced forced_two_node_site three_node_site {0, 2} = {0}"
    by (auto simp: answered_in_forced_def forced_two_node_site_def three_node_site_def)
  then show ?thesis
    by (simp add: spec_force_majority_def majority_def get_maxnodes_def
          count_answered_example forced_two_node_site_def three_node_site_def)
qed

text \<open>
  C4 as amended: for a site \<open>s\<close> of \<open>N\<close> members and a set \<open>S\<close> of answers, let \<open>|S|\<close> be
  the number of members of the site whose bit is set. Without force, \<open>majority\<close> holds
  exactly when \<open>|S| > N div 2\<close>, and with \<open>all\<close> (consensus \<open>cons_all\<close>) exactly when
  \<open>|S| = N\<close>. Under force it holds exactly when \<open>|S|\<close>, still counted over all members
  of the site, equals the number of nodes of \<open>forced_config\<close>. Node lists are shorter
  than the range of \<open>node_no\<close>.
\<close>

theorem majority_counts_answers:
  "length (sd_nodes s) < 65536 \<Longrightarrow> length (sd_nodes forced) < 65536 \<Longrightarrow>
   (majority fc S (Some s) False d False \<longleftrightarrow>
      card {k \<in> S. k < length (sd_nodes s)} > length (sd_nodes s) div 2) \<and>
   (majority fc S (Some s) True d False \<longleftrightarrow>
      card {k \<in> S. k < length (sd_nodes s)} = length (sd_nodes s)) \<and>
   (majority (Some forced) S (Some s) all d True \<longleftrightarrow>
      card {k \<in> S. k < length (sd_nodes s)} = length (sd_nodes forced))"
proof -
  assume s: "length (sd_nodes s) < 65536" and f: "length (sd_nodes forced) < 65536"
  let ?mx = "get_maxnodes (Some s)"
  have mx: "unat ?mx = length (sd_nodes s)"
    using s by (rule unat_length_nodes)
  have fmx: "unat (get_maxnodes (Some forced)) = length (sd_nodes forced)"
    using f by (rule unat_length_nodes)
  have c: "unat (count_answered S ?mx 0 0) = card {k \<in> S. k < length (sd_nodes s)}"
    using count_answered_from_zero [of S ?mx] mx by simp
  have half: "unat (?mx div 2) = length (sd_nodes s) div 2"
    using mx by (simp add: unat_div)
  have "majority fc S (Some s) False d False \<longleftrightarrow>
           card {k \<in> S. k < length (sd_nodes s)} > length (sd_nodes s) div 2"
    using c half by (simp add: majority_def Let_def word_less_nat_alt)
  moreover have "majority fc S (Some s) True d False \<longleftrightarrow>
           card {k \<in> S. k < length (sd_nodes s)} = length (sd_nodes s)"
    using c mx by (simp add: majority_def Let_def word_unat_eq_iff)
  moreover have "majority (Some forced) S (Some s) all d True \<longleftrightarrow>
           card {k \<in> S. k < length (sd_nodes s)} = length (sd_nodes forced)"
    using c fmx by (simp add: majority_def Let_def word_unat_eq_iff)
  ultimately show ?thesis
    by simp
qed

theorem majority_counts_answers_witness:
  "length (sd_nodes three_node_site) < 65536 \<and>
   length (sd_nodes forced_two_node_site) < 65536 \<and>
   card {k \<in> {0, 2}. k < length (sd_nodes three_node_site)} = 2 \<and>
   majority None {0, 2} (Some three_node_site) False False False \<and>
   \<not> majority None {0, 2} (Some three_node_site) True False False \<and>
   majority (Some forced_two_node_site) {0, 2} (Some three_node_site) False False True"
proof -
  have l3: "length (sd_nodes three_node_site) = 3"
    by (simp add: three_node_site_def)
  have l2: "length (sd_nodes forced_two_node_site) = 2"
    by (simp add: three_node_site_def forced_two_node_site_def)
  have "{k \<in> {0, 2}. k < (3::nat)} = {0, 2}"
    by auto
  then have c: "card {k \<in> {0, 2}. k < (3::nat)} = 2"
    by simp
  show ?thesis
    using majority_counts_answers
            [of three_node_site forced_two_node_site None "{0, 2}" False False]
    unfolding l3 l2 c by simp
qed

subsection \<open>The event horizon\<close>

lemma find_last_Some:
  "find_last P xs = Some j \<Longrightarrow> j < length xs \<and> P (xs ! j)"
proof (induction xs arbitrary: j)
  case Nil
  then show ?case by simp
next
  case (Cons x xs)
  then show ?case
    by (cases "find_last P xs") (auto split: if_splits)
qed

lemma loop_no_next:
  "first_event_horizon_reconfig_loop sites aeh None first = first"
  by (simp add: first_event_horizon_reconfig_loop.simps)




lemma find_first_Some:
  "find_first P xs = Some a \<Longrightarrow> a < length xs \<and> P (xs ! a) \<and> (\<forall>j<a. \<not> P (xs ! j))"
proof (induction xs arbitrary: a)
  case Nil
  then show ?case by simp
next
  case (Cons x xs)
  show ?case
  proof (cases "P x")
    case True
    with Cons.prems show ?thesis by simp
  next
    case False
    with Cons.prems obtain b where b: "find_first P xs = Some b" "a = Suc b"
      by auto
    from Cons.IH [OF b(1)] have ih: "b < length xs" "P (xs ! b)" "\<forall>j<b. \<not> P (xs ! j)"
      by simp_all
    have "\<not> P ((x # xs) ! j)" if "j < a" for j
      using that False ih(3) b(2) by (cases j) simp_all
    with ih b(2) show ?thesis by simp
  qed
qed

lemma find_last_None: "find_last P xs = None \<Longrightarrow> \<forall>x \<in> set xs. \<not> P x"
  by (induction xs) (auto split: option.splits if_splits)

lemma find_last_is_last:
  "find_last P xs = Some j \<Longrightarrow> \<forall>k. j < k \<and> k < length xs \<longrightarrow> \<not> P (xs ! k)"
proof (induction xs arbitrary: j)
  case Nil
  then show ?case by simp
next
  case (Cons x xs)
  show ?case
  proof (cases "find_last P xs")
    case None
    then have "\<forall>y \<in> set xs. \<not> P y"
      by (rule find_last_None)
    then have "\<not> P ((x # xs) ! k)" if "0 < k" "k < length (x # xs)" for k
      using that by (cases k) simp_all
    moreover from None Cons.prems have "j = 0"
      by (simp split: if_splits)
    ultimately show ?thesis by simp
  next
    case (Some i)
    with Cons.prems have j: "j = Suc i" by simp
    from Cons.IH [OF Some] have "\<forall>k. i < k \<and> k < length xs \<longrightarrow> \<not> P (xs ! k)" .
    then have "\<not> P ((x # xs) ! k)" if "j < k" "k < length (x # xs)" for k
      using that j by (cases k) simp_all
    then show ?thesis by simp
  qed
qed

lemma start_order_index:
  assumes "reverse_start_order sites" "i < length sites" "j < length sites"
  shows "synode_gt (sd_start (sites ! j)) (sd_start (sites ! i)) \<longleftrightarrow> j < i"
proof
  assume gt: "synode_gt (sd_start (sites ! j)) (sd_start (sites ! i))"
  show "j < i"
  proof (rule ccontr)
    assume "\<not> j < i"
    then consider "j = i" | "i < j" by linarith
    then show False
    proof cases
      case 1
      with gt show False by (simp add: synode_gt_def)
    next
      case 2
      with assms have "synode_gt (sd_start (sites ! i)) (sd_start (sites ! j))"
        by (simp add: reverse_start_order_def sorted_wrt_iff_nth_less)
      with gt show False by (auto simp: synode_gt_def)
    qed
  qed
next
  assume "j < i"
  with assms show "synode_gt (sd_start (sites ! j)) (sd_start (sites ! i))"
    by (simp add: reverse_start_order_def sorted_wrt_iff_nth_less)
qed

lemma find_next_site_def_sorted:
  assumes s: "reverse_start_order sites" and n: "n < length sites"
  shows "find_next_site_def sites (sd_start (sites ! n)) = (if n = 0 then None else Some (n - 1))"
proof (cases "find_next_site_def sites (sd_start (sites ! n))")
  case None
  then have "\<forall>c \<in> set sites. \<not> synode_gt (sd_start c) (sd_start (sites ! n))"
    unfolding find_next_site_def_def by (rule find_last_None)
  then have "\<forall>j < length sites. \<not> j < n"
    using start_order_index [OF s n] by (metis nth_mem)
  then have "n = 0"
    using n by (metis gr0I less_trans)
  with None show ?thesis by simp
next
  case (Some j)
  then have fl: "find_last (\<lambda>c. synode_gt (sd_start c) (sd_start (sites ! n))) sites = Some j"
    by (simp add: find_next_site_def_def)
  from find_last_Some [OF fl] have jl: "j < length sites"
    and jg: "synode_gt (sd_start (sites ! j)) (sd_start (sites ! n))"
    by simp_all
  from jg have jn: "j < n"
    using start_order_index [OF s n jl] by simp
  have "\<not> j < n - 1"
  proof
    assume "j < n - 1"
    then have k: "j < n - 1" "n - 1 < length sites" "n - 1 < n"
      using n by simp_all
    from find_last_is_last [OF fl] k
    have "\<not> synode_gt (sd_start (sites ! (n - 1))) (sd_start (sites ! n))"
      by blast
    with start_order_index [OF s n k(2)] k(3) show False
      by simp
  qed
  with jn have "j = n - 1" "n \<noteq> 0" by simp_all
  with Some show ?thesis by simp
qed

lemma loop_first_found:
  "first_event_horizon_reconfig_loop sites h nxt (Some r) = Some r"
  by (cases nxt) (simp_all add: first_event_horizon_reconfig_loop.simps)

lemma loop_characterisation:
  assumes s: "reverse_start_order sites"
  shows "n < length sites \<Longrightarrow>
         ((\<forall>j\<le>n. sd_event_horizon (sites ! j) = h) \<longrightarrow>
            first_event_horizon_reconfig_loop sites h (Some n) None = None) \<and>
         (\<forall>r. r \<le> n \<and> sd_event_horizon (sites ! r) \<noteq> h \<and>
              (\<forall>j. r < j \<and> j \<le> n \<longrightarrow> sd_event_horizon (sites ! j) = h) \<longrightarrow>
            first_event_horizon_reconfig_loop sites h (Some n) None = Some r)"
proof (induction n)
  case 0
  have nx: "find_next_site_def sites (sd_start (sites ! 0)) = None"
    using find_next_site_def_sorted [OF s 0] by simp
  show ?case
    by (subst first_event_horizon_reconfig_loop.simps,
        subst (2) first_event_horizon_reconfig_loop.simps)
       (auto simp: nx loop_no_next loop_first_found)
next
  case (Suc n)
  then have n: "n < length sites" by simp
  have nx: "find_next_site_def sites (sd_start (sites ! Suc n)) = Some n"
    using find_next_site_def_sorted [OF s Suc.prems] by simp
  have step: "first_event_horizon_reconfig_loop sites h (Some (Suc n)) None =
          (if h \<noteq> sd_event_horizon (sites ! Suc n) then Some (Suc n)
           else first_event_horizon_reconfig_loop sites h (Some n) None)"
    by (subst first_event_horizon_reconfig_loop.simps) (simp add: nx loop_first_found)
  from Suc.IH [OF n] have ih1: "(\<forall>j\<le>n. sd_event_horizon (sites ! j) = h) \<Longrightarrow>
            first_event_horizon_reconfig_loop sites h (Some n) None = None"
    and ih2: "\<And>r. r \<le> n \<Longrightarrow> sd_event_horizon (sites ! r) \<noteq> h \<Longrightarrow>
              (\<forall>j. r < j \<and> j \<le> n \<longrightarrow> sd_event_horizon (sites ! j) = h) \<Longrightarrow>
            first_event_horizon_reconfig_loop sites h (Some n) None = Some r"
    by blast+
  have a: "first_event_horizon_reconfig_loop sites h (Some (Suc n)) None = None"
    if all: "\<forall>j\<le>Suc n. sd_event_horizon (sites ! j) = h"
  proof -
    from all have "\<forall>j\<le>n. sd_event_horizon (sites ! j) = h" by simp
    from ih1 [OF this] all show ?thesis by (simp add: step)
  qed
  have b: "first_event_horizon_reconfig_loop sites h (Some (Suc n)) None = Some r"
    if r: "r \<le> Suc n" "sd_event_horizon (sites ! r) \<noteq> h"
      "\<forall>j. r < j \<and> j \<le> Suc n \<longrightarrow> sd_event_horizon (sites ! j) = h" for r
  proof (cases "r = Suc n")
    case True
    with r(2) show ?thesis by (auto simp: step)
  next
    case False
    with r(1) have rn: "r \<le> n" by simp
    from r(3) False r(1) have top: "sd_event_horizon (sites ! Suc n) = h"
      by (metis le_neq_implies_less order_refl)
    from r(3) have "\<forall>j. r < j \<and> j \<le> n \<longrightarrow> sd_event_horizon (sites ! j) = h" by simp
    from ih2 [OF rn r(2) this] top show ?thesis by (simp add: step)
  qed
  from a b show ?case by blast
qed


lemma synode_gt_lt: "synode_gt x y \<longleftrightarrow> synode_lt y x"
  by (auto simp: synode_gt_def synode_lt_def)

lemma active_splits_history:
  assumes s: "reverse_start_order sites" and a: "find_site_def sites e = Some a"
  shows "a < length sites"
    and "j < length sites \<Longrightarrow> synode_gt (sd_start (sites ! j)) e \<longleftrightarrow> j < a"
proof -
  from find_first_Some [OF a [unfolded find_site_def_def]]
  have al: "a < length sites" and aa: "\<not> synode_lt e (sd_start (sites ! a))"
    and before: "\<forall>j<a. synode_lt e (sd_start (sites ! j))"
    by simp_all
  show "a < length sites" by (rule al)
  assume jl: "j < length sites"
  show "synode_gt (sd_start (sites ! j)) e \<longleftrightarrow> j < a"
  proof
    assume gt: "synode_gt (sd_start (sites ! j)) e"
    show "j < a"
    proof (rule ccontr)
      assume "\<not> j < a"
      then consider "j = a" | "a < j" by linarith
      then show False
      proof cases
        case 1
        with gt aa show False by (simp add: synode_gt_lt)
      next
        case 2
        then have "synode_gt (sd_start (sites ! a)) (sd_start (sites ! j))"
          using start_order_index [OF s jl al] by simp
        with gt have "synode_lt e (sd_start (sites ! a))"
          by (auto simp: synode_gt_def synode_lt_def)
        with aa show False by simp
      qed
    qed
  next
    assume "j < a"
    with before show "synode_gt (sd_start (sites ! j)) e"
      by (simp add: synode_gt_lt)
  qed
qed

lemma first_event_horizon_reconfig_sorted:
  assumes s: "reverse_start_order (site_defs st)"
    and a: "find_site_def (site_defs st) (executed_msg st) = Some a"
  shows "no_event_horizon_reconfig_pending st a \<Longrightarrow> first_event_horizon_reconfig st = Some None"
    and "first_pending_event_horizon_reconfig st a r \<Longrightarrow>
           first_event_horizon_reconfig st = Some (Some r)"
proof -
  let ?sites = "site_defs st"
  let ?h = "sd_event_horizon (?sites ! a)"
  note al = active_splits_history(1) [OF s a]
  note pend = active_splits_history(2) [OF s a]
  have nx: "find_next_site_def ?sites (sd_start (?sites ! a)) = (if a = 0 then None else Some (a - 1))"
    using find_next_site_def_sorted [OF s al] .
  have r: "first_event_horizon_reconfig st =
             Some (first_event_horizon_reconfig_loop ?sites ?h
                     (if a = 0 then None else Some (a - 1)) None)"
    using a nx by (simp add: first_event_horizon_reconfig_def)
  {
    assume none: "no_event_horizon_reconfig_pending st a"
    have same: "sd_event_horizon (?sites ! j) = ?h" if "j < a" for j
    proof -
      from that al have jl: "j < length ?sites" by simp
      with that pend [OF jl] none show ?thesis
        by (auto simp: no_event_horizon_reconfig_pending_def event_horizon_reconfig_pending_def)
    qed
    show "first_event_horizon_reconfig st = Some None"
    proof (cases "a = 0")
      case True
      with r show ?thesis by (simp add: loop_no_next)
    next
      case False
      then have "a - 1 < length ?sites" "\<forall>j\<le>a - 1. sd_event_horizon (?sites ! j) = ?h"
        using al same by auto
      with loop_characterisation [OF s, of "a - 1" ?h] False r show ?thesis
        by simp
    qed
  }
  {
    assume first: "first_pending_event_horizon_reconfig st a r"
    then have rl: "r < length ?sites"
      and rg: "synode_gt (sd_start (?sites ! r)) (executed_msg st)"
      and rh: "sd_event_horizon (?sites ! r) \<noteq> ?h"
      and least: "\<And>j. j < length ?sites \<Longrightarrow> event_horizon_reconfig_pending st a j \<Longrightarrow>
                   \<not> synode_gt (sd_start (?sites ! r)) (sd_start (?sites ! j))"
      by (auto simp: first_pending_event_horizon_reconfig_def event_horizon_reconfig_pending_def)
    from rg pend [OF rl] have ra: "r < a" by simp
    have same: "sd_event_horizon (?sites ! j) = ?h" if j: "r < j" "j \<le> a - 1" for j
    proof (rule ccontr)
      assume d: "sd_event_horizon (?sites ! j) \<noteq> ?h"
      from j ra al have jl: "j < length ?sites" and ja: "j < a" by simp_all
      from ja pend [OF jl] d jl have "event_horizon_reconfig_pending st a j"
        by (simp add: event_horizon_reconfig_pending_def)
      from least [OF jl this] start_order_index [OF s jl rl] j(1) show False
        by simp
    qed
    have "a - 1 < length ?sites" "r \<le> a - 1"
      using al ra by simp_all
    with loop_characterisation [OF s, of "a - 1" ?h] rh same
    have "first_event_horizon_reconfig_loop ?sites ?h (Some (a - 1)) None = Some r"
      by blast
    with r ra show "first_event_horizon_reconfig st = Some (Some r)"
      by simp
  }
qed


lemma pending_cases:
  assumes s: "reverse_start_order (site_defs st)"
    and a: "find_site_def (site_defs st) (executed_msg st) = Some a"
  shows "no_event_horizon_reconfig_pending st a \<or>
         (\<exists>r. first_pending_event_horizon_reconfig st a r)"
proof (cases "no_event_horizon_reconfig_pending st a")
  case True
  then show ?thesis by simp
next
  case False
  let ?sites = "site_defs st"
  let ?P = "\<lambda>j. j < length ?sites \<and> event_horizon_reconfig_pending st a j"
  from False obtain k where k: "?P k"
    by (auto simp: no_event_horizon_reconfig_pending_def)
  have "\<forall>y. ?P y \<longrightarrow> (\<lambda>x. x) y < length ?sites"
    by simp
  from ex_has_greatest_nat [of ?P k "\<lambda>x. x" "length ?sites", OF k this]
  obtain r where r: "?P r" and top: "\<forall>y. ?P y \<longrightarrow> y \<le> r"
    by blast
  have "\<not> synode_gt (sd_start (?sites ! r)) (sd_start (?sites ! j))"
    if "j < length ?sites" "event_horizon_reconfig_pending st a j" for j
  proof -
    from that top have "j \<le> r" by simp
    with start_order_index [OF s that(1), of r] r show ?thesis by simp
  qed
  with r have "first_pending_event_horizon_reconfig st a r"
    by (simp add: first_pending_event_horizon_reconfig_def)
  then show ?thesis by blast
qed

lemma first_event_horizon_reconfig_iff:
  assumes s: "reverse_start_order (site_defs st)"
    and a: "find_site_def (site_defs st) (executed_msg st) = Some a"
  shows "first_event_horizon_reconfig st = Some None \<longleftrightarrow> no_event_horizon_reconfig_pending st a"
    and "first_event_horizon_reconfig st = Some (Some r) \<longleftrightarrow>
           first_pending_event_horizon_reconfig st a r"
  using pending_cases [OF s a] first_event_horizon_reconfig_sorted [OF s a]
  by (metis option.distinct(1) option.inject)+







subsection \<open>Exit of the executor\<close>

lemma inform_loop_keeps_exit:
  "xc_state (snd (inform_loop st xc)) = xc_state xc"
proof (induction st xc rule: inform_loop.induct)
  case (1 st xc)
  show ?case
  proof (cases "\<not> fifo_empty (delay_fifo st) \<and>
                \<not> synode_lt (executed_msg st) (fifo_front (delay_fifo st))")
    case True
    with "1.IH" show ?thesis
      by (subst inform_loop.simps) simp
  next
    case False
    then show ?thesis
      by (subst inform_loop.simps) auto
  qed
qed

lemma x_check_execute_inform_state:
  "xc_state (snd (fst (x_check_execute_inform st xc))) = xc_state xc"
proof (cases "inform_loop st xc")
  case (Pair st1 xc1)
  with inform_loop_keeps_exit [of st xc] have "xc_state xc1 = xc_state xc"
    by simp
  with Pair show ?thesis
    by (simp add: x_check_execute_inform_def)
qed

lemma x_check_increment_fetch_state:
  assumes nx: "\<not> x_check_exit g xc"
    and r: "x_check_increment_fetch g xc = Some r"
  shows "xc_state (snd r) = Some FP_x_execute \<or> xc_state (snd r) = xc_state xc"
proof -
  from nx r obtain g1 where
    g1: "set_executed_msg g (incr_synode g (executed_msg g)) = Some g1"
    by (auto simp: x_check_increment_fetch_def split: option.splits)
  obtain g2 xc2 inform where i: "x_check_execute_inform g1 xc = ((g2, xc2), inform)"
    by (metis prod.exhaust)
  with x_check_execute_inform_state [of g1 xc] have "xc_state xc2 = xc_state xc"
    by simp
  with nx r g1 i show ?thesis
    by (auto simp: x_check_increment_fetch_def)
qed

lemma setup_exit_fields:
  assumes "\<not> is_member (site_defs st ! site)"
  shows "delivery_limit (snd (setup_exit_handling st xc site)) = sd_start (site_defs st ! site)"
    and "exit_synode (snd (setup_exit_handling st xc site)) =
           compute_delay (sd_start (site_defs st ! site)) (sd_event_horizon (site_defs st ! site))"
    and "exit_flag (snd (setup_exit_handling st xc site)) = 1"
    and "xc_state (snd (setup_exit_handling st xc site)) = xc_state xc"
  using assms by (simp_all add: setup_exit_handling_def Let_def)

lemma setup_exit_sites:
  assumes "\<not> is_member (site_defs st ! site)"
  shows "site_defs (fst (setup_exit_handling st xc site)) =
           (if is_empty_site (site_defs st ! site)
            then (site_defs st)[site := (site_defs st ! site)\<lparr>sd_start :=
                   compute_delay
                     (compute_delay (sd_start (site_defs st ! site))
                        (sd_event_horizon (site_defs st ! site)))
                     (sd_event_horizon (site_defs st ! site))\<rparr>]
            else site_defs st)"
  using assms by (simp add: setup_exit_handling_def Let_def set_max_synode_def)

lemma inform_loop_keeps_context:
  "exit_synode (snd (inform_loop st xc)) = exit_synode xc \<and>
   delivery_limit (snd (inform_loop st xc)) = delivery_limit xc \<and>
   exit_flag (snd (inform_loop st xc)) = exit_flag xc \<and>
   site_defs (fst (inform_loop st xc)) = site_defs st"
proof (induction st xc rule: inform_loop.induct)
  case (1 st xc)
  show ?case
  proof (cases "\<not> fifo_empty (delay_fifo st) \<and>
                \<not> synode_lt (executed_msg st) (fifo_front (delay_fifo st))")
    case True
    with "1.IH" show ?thesis
      by (subst (1 2 3 4) inform_loop.simps) simp
  next
    case False
    then show ?thesis
      by (subst (1 2 3 4) inform_loop.simps) auto
  qed
qed

lemma x_check_execute_inform_keeps:
  "exit_synode (snd (fst (x_check_execute_inform st xc))) = exit_synode xc \<and>
   delivery_limit (snd (fst (x_check_execute_inform st xc))) = delivery_limit xc \<and>
   exit_flag (snd (fst (x_check_execute_inform st xc))) = exit_flag xc \<and>
   site_defs (fst (fst (x_check_execute_inform st xc))) = site_defs st"
proof (cases "inform_loop st xc")
  case (Pair st1 xc1)
  with inform_loop_keeps_context [of st xc] show ?thesis
    by (simp add: x_check_execute_inform_def)
qed

lemma set_executed_msg_sites:
  "set_executed_msg g m = Some g1 \<Longrightarrow> site_defs g1 = site_defs g"
  by (auto simp: set_executed_msg_def Let_def split: if_splits option.splits)

lemma set_executed_msg_returns:
  "site_defs g \<noteq> [] \<Longrightarrow> \<exists>g1. set_executed_msg g m = Some g1"
  by (auto simp: set_executed_msg_def first_free_synode_def get_site_def_def Let_def
        split: option.splits)

lemma x_check_increment_fetch_keeps:
  assumes r: "x_check_increment_fetch g x = Some (g', x')"
  shows "exit_synode x' = exit_synode x \<and> delivery_limit x' = delivery_limit x \<and>
         exit_flag x' = exit_flag x \<and> site_defs g' = site_defs g"
proof (cases "x_check_exit g x")
  case True
  with r show ?thesis
    by (auto simp: x_check_increment_fetch_def)
next
  case False
  with r obtain g1 where
    g1: "set_executed_msg g (incr_synode g (executed_msg g)) = Some g1"
    by (auto simp: x_check_increment_fetch_def split: option.splits)
  obtain g2 xc2 inform where i: "x_check_execute_inform g1 x = ((g2, xc2), inform)"
    by (metis prod.exhaust)
  from x_check_execute_inform_keeps [of g1 x] i set_executed_msg_sites [OF g1]
  have "exit_synode xc2 = exit_synode x \<and> delivery_limit xc2 = delivery_limit x \<and>
        exit_flag xc2 = exit_flag x \<and> site_defs g2 = site_defs g"
    by simp
  with False r g1 i show ?thesis
    by (auto simp: x_check_increment_fetch_def)
qed

lemma x_check_increment_fetch_returns:
  assumes "x_check_exit g x \<or> site_defs g \<noteq> []"
  shows "\<exists>g' x'. x_check_increment_fetch g x = Some (g', x')"
proof (cases "x_check_exit g x")
  case True
  then show ?thesis
    by (simp add: x_check_increment_fetch_def)
next
  case False
  with assms have "site_defs g \<noteq> []" by simp
  from set_executed_msg_returns [OF this] obtain g1 where
    "set_executed_msg g (incr_synode g (executed_msg g)) = Some g1"
    by blast
  with False show ?thesis
    by (cases "x_check_execute_inform g1 x") (auto simp: x_check_increment_fetch_def)
qed

lemma x_check_increment_fetch_terminates:
  assumes run: "xc_state x \<noteq> Some FP_x_terminate"
    and r: "x_check_increment_fetch g x = Some (g', x')"
  shows "(xc_state x' = Some FP_x_terminate) = x_check_exit g x"
proof (cases "x_check_exit g x")
  case True
  with r show ?thesis
    by (auto simp: x_check_increment_fetch_def)
next
  case False
  from x_check_increment_fetch_state [OF False r] run False show ?thesis
    by auto
qed

lemma exit_transitions:
  assumes flag: "exit_flag x \<noteq> 0" and run: "xc_state x \<noteq> Some FP_x_terminate"
  shows "x_check_exit g x =
           (\<not> synode_lt (executed_msg g) (exit_synode x) \<and>
            \<not> synode_lt (delivered_msg g) (delivery_limit x))"
    and "(xc_state (snd (x_check_increment_execute g x)) = Some FP_x_terminate) =
           (\<not> synode_lt (executed_msg g) (exit_synode x) \<and>
            \<not> synode_lt (delivered_msg g) (delivery_limit x))"
    and "(\<not> synode_lt (executed_msg g) (exit_synode x) \<and>
          \<not> synode_lt (delivered_msg g) (delivery_limit x)) \<or> site_defs g \<noteq> [] \<Longrightarrow>
         (case x_check_increment_fetch g x of
            None \<Rightarrow> False
          | Some (g', x') \<Rightarrow>
              (xc_state x' = Some FP_x_terminate) =
                (\<not> synode_lt (executed_msg g) (exit_synode x) \<and>
                 \<not> synode_lt (delivered_msg g) (delivery_limit x)))"
proof -
  show chk: "x_check_exit g x =
           (\<not> synode_lt (executed_msg g) (exit_synode x) \<and>
            \<not> synode_lt (delivered_msg g) (delivery_limit x))"
    using flag by (simp add: x_check_exit_def)
  show "(xc_state (snd (x_check_increment_execute g x)) = Some FP_x_terminate) =
           (\<not> synode_lt (executed_msg g) (exit_synode x) \<and>
            \<not> synode_lt (delivered_msg g) (delivery_limit x))"
    using run chk by (auto simp: x_check_increment_execute_def Let_def)
  assume "(\<not> synode_lt (executed_msg g) (exit_synode x) \<and>
          \<not> synode_lt (delivered_msg g) (delivery_limit x)) \<or> site_defs g \<noteq> []"
  with chk have "x_check_exit g x \<or> site_defs g \<noteq> []"
    by simp
  from x_check_increment_fetch_returns [OF this] obtain g' x' where
    r: "x_check_increment_fetch g x = Some (g', x')"
    by blast
  from x_check_increment_fetch_terminates [OF run r] chk r
  show "(case x_check_increment_fetch g x of
            None \<Rightarrow> False
          | Some (g', x') \<Rightarrow>
              (xc_state x' = Some FP_x_terminate) =
                (\<not> synode_lt (executed_msg g) (exit_synode x) \<and>
                 \<not> synode_lt (delivered_msg g) (delivery_limit x)))"
    by simp
qed

lemma setup_exit_messages:
  "executed_msg (fst (setup_exit_handling st xc site)) = executed_msg st \<and>
   delivered_msg (fst (setup_exit_handling st xc site)) = delivered_msg st \<and>
   length (site_defs (fst (setup_exit_handling st xc site))) = length (site_defs st)"
  by (simp add: setup_exit_handling_def Let_def set_max_synode_def split_def)


lemma x_fetch_learns_config:
  assumes lm: "learner_msg p = Some r"
    and app: "msg_a (ms r) = Some app"
    and cfg: "is_config (app_c_t app)"
    and latest: "get_site_def (site_defs st) = Some latest"
    and redo: "synode_gt (executed_msg st) (sd_boot_key (site_defs st ! latest))"
    and hc: "handle_config cenv env st app (msg_force_delivery (ms r) \<noteq> 0) = Some (st1, app1, True)"
    and sites: "sites = garbage_collect_site_defs env (delivered_msg st1) (site_defs st1)"
    and c: "get_site_def sites = Some c"
  shows "x_fetch cenv env ms st xc p =
           map_option (\<lambda>(st2, xc2). (ms(r := (ms r)\<lparr>msg_a := Some app1\<rparr>), st2, xc2))
             (if exit_flag xc = 0
              then x_check_increment_fetch
                     (fst (setup_exit_handling
                             ((set_last_received_config st1 (executed_msg st1))\<lparr>site_defs := sites\<rparr>)
                             xc c))
                     (snd (setup_exit_handling
                             ((set_last_received_config st1 (executed_msg st1))\<lparr>site_defs := sites\<rparr>)
                             xc c))
              else x_check_increment_fetch
                     ((set_last_received_config st1 (executed_msg st1))\<lparr>site_defs := sites\<rparr>) xc)"
proof -
  have d: "delivered_msg (set_last_received_config st1 (executed_msg st1)) = delivered_msg st1"
    "site_defs (set_last_received_config st1 (executed_msg st1)) = site_defs st1"
    by (simp_all add: set_last_received_config_def)
  show ?thesis
    using lm app cfg latest redo hc c [unfolded sites]
    by (simp add: x_fetch_def Let_def d sites split_def)
qed

lemma x_fetch_on_removal:
  assumes lm: "learner_msg p = Some r"
    and app: "msg_a (ms r) = Some app"
    and cfg: "is_config (app_c_t app)"
    and latest: "get_site_def (site_defs st) = Some latest"
    and redo: "synode_gt (executed_msg st) (sd_boot_key (site_defs st ! latest))"
    and hc: "handle_config cenv env st app (msg_force_delivery (ms r) \<noteq> 0) = Some (st1, app1, True)"
    and sites: "sites = garbage_collect_site_defs env (delivered_msg st1) (site_defs st1)"
    and c: "get_site_def sites = Some c"
    and nm: "\<not> is_member (sites ! c)"
    and run: "xc_state xc \<noteq> Some FP_x_terminate"
  shows "\<exists>ms' st' xc'.
           x_fetch cenv env ms st xc p = Some (ms', st', xc') \<and>
           (exit_flag xc = 0 \<longrightarrow>
              delivery_limit xc' = sd_start (sites ! c) \<and>
              exit_synode xc' =
                (sd_start (sites ! c))
                  \<lparr>msgno := msgno (sd_start (sites ! c)) + ucast (sd_event_horizon (sites ! c))\<rparr> \<and>
              exit_flag xc' = 1 \<and>
              site_defs st' =
                (if is_empty_site (sites ! c)
                 then sites[c := (sites ! c)
                        \<lparr>sd_start := (sd_start (sites ! c))
                           \<lparr>msgno := msgno (sd_start (sites ! c)) +
                                      ucast (sd_event_horizon (sites ! c)) +
                                      ucast (sd_event_horizon (sites ! c))\<rparr>\<rparr>]
                 else sites)) \<and>
           (exit_flag xc \<noteq> 0 \<longrightarrow>
              delivery_limit xc' = delivery_limit xc \<and> exit_synode xc' = exit_synode xc \<and>
              exit_flag xc' = exit_flag xc \<and> site_defs st' = sites) \<and>
           ((xc_state xc' = Some FP_x_terminate) =
              (\<not> synode_lt (executed_msg st1) (exit_synode xc') \<and>
               \<not> synode_lt (delivered_msg st1) (delivery_limit xc'))) \<and>
           exit_flag xc' \<noteq> 0"
proof -
  let ?C = "sites ! c"
  let ?H = "ucast (sd_event_horizon ?C) :: u64"
  define st3 where "st3 = (set_last_received_config st1 (executed_msg st1))\<lparr>site_defs := sites\<rparr>"
  define g0 where "g0 = (if exit_flag xc = 0 then fst (setup_exit_handling st3 xc c) else st3)"
  define x0 where "x0 = (if exit_flag xc = 0 then snd (setup_exit_handling st3 xc c) else xc)"
  from c have ne: "sites \<noteq> []" and cl: "c < length sites"
    by (auto simp: get_site_def_def split: if_splits)
  have s3: "site_defs st3 = sites" "executed_msg st3 = executed_msg st1"
    "delivered_msg st3 = delivered_msg st1"
    by (simp_all add: st3_def set_last_received_config_def)
  have nm3: "\<not> is_member (site_defs st3 ! c)"
    using nm s3 by simp
  note f = setup_exit_fields [OF nm3, of xc]
  have fetch: "x_fetch cenv env ms st xc p =
                 map_option (\<lambda>(st2, xc2). (ms(r := (ms r)\<lparr>msg_a := Some app1\<rparr>), st2, xc2))
                   (x_check_increment_fetch g0 x0)"
    using x_fetch_learns_config [where ms = ms and r = r and xc = xc,
            OF lm app cfg latest redo hc sites c]
    by (simp add: g0_def x0_def st3_def)
  have flag: "exit_flag x0 \<noteq> 0"
    using f(3) by (simp add: x0_def)
  have run0: "xc_state x0 \<noteq> Some FP_x_terminate"
    using f(4) run by (simp add: x0_def)
  have msgs: "executed_msg g0 = executed_msg st1" "delivered_msg g0 = delivered_msg st1"
    using setup_exit_messages [of st3 xc c] s3 by (simp_all add: g0_def)
  have ne0: "site_defs g0 \<noteq> []"
    using setup_exit_messages [of st3 xc c] s3 ne by (auto simp: g0_def)
  have first: "delivery_limit x0 = sd_start ?C \<and>
               exit_synode x0 = (sd_start ?C)\<lparr>msgno := msgno (sd_start ?C) + ?H\<rparr> \<and>
               exit_flag x0 = 1 \<and>
               site_defs g0 =
                 (if is_empty_site ?C
                  then sites[c := ?C\<lparr>sd_start := (sd_start ?C)\<lparr>msgno := msgno (sd_start ?C) + ?H + ?H\<rparr>\<rparr>]
                  else sites)"
    if "exit_flag xc = 0"
    using that f setup_exit_sites [OF nm3, of xc] s3
    by (simp add: g0_def x0_def compute_delay_def)
  have later: "delivery_limit x0 = delivery_limit xc \<and> exit_synode x0 = exit_synode xc \<and>
               exit_flag x0 = exit_flag xc \<and> site_defs g0 = sites"
    if "exit_flag xc \<noteq> 0"
    using that s3 by (simp add: g0_def x0_def)
  from x_check_increment_fetch_returns [of g0 x0] ne0 obtain st' xc' where
    res: "x_check_increment_fetch g0 x0 = Some (st', xc')"
    by blast
  note keep = x_check_increment_fetch_keeps [OF res]
  have ends: "(xc_state xc' = Some FP_x_terminate) =
                (\<not> synode_lt (executed_msg st1) (exit_synode xc') \<and>
                 \<not> synode_lt (delivered_msg st1) (delivery_limit xc'))"
    using x_check_increment_fetch_terminates [OF run0 res] exit_transitions(1) [OF flag run0, of g0]
          keep msgs
    by simp
  show ?thesis
    unfolding fetch res
    using first later keep ends flag
    by simp
qed

lemma running_add_event_horizon:
  "add_event_horizon running_state \<lparr>group_id = 1, msgno = 45, node = 0\<rparr> =
     Some \<lparr>group_id = 1, msgno = 56, node = 0\<rparr>"
  by (simp add: add_event_horizon_def latest_event_horizon_reconfig_def find_site_def_def
        find_next_site_def_def running_state_def shrinking_horizon_state_def
        three_node_site_def synode_lt_def synode_gt_def
        latest_event_horizon_reconfig_loop.simps)

lemma running_getstart:
  "getstart plain_site_env running_state remove_all_payload =
     Some (remove_all_payload, \<lparr>group_id = 1, msgno = 56, node = 0\<rparr>)"
proof -
  have "get_site_def (site_defs running_state) \<noteq> None"
    by (simp add: get_site_def_def running_state_def)
  then show ?thesis
    using running_add_event_horizon
    by (simp add: getstart_def remove_all_payload_def null_id_def Let_def)
qed

lemma removal_handle_config:
  "handle_config member_env plain_site_env running_state remove_all_payload False =
     Some (installed_state, remove_all_payload, True)"
proof -
  have l: "get_site_def (site_defs running_state) = Some 0"
    "site_defs running_state ! 0 = three_node_site"
    by (simp_all add: get_site_def_def running_state_def)
  have c: "app_c_t remove_all_payload = remove_node_type"
    "app_nodes remove_all_payload = sd_nodes three_node_site"
    "app_key remove_all_payload = \<lparr>group_id = 1, msgno = 45, node = 0\<rparr>"
    by (simp_all add: remove_all_payload_def)
  have site: "remove_site_def plain_site_env (sd_nodes three_node_site)
                (clone_site_def three_node_site) = three_node_site\<lparr>sd_nodes := []\<rparr>"
    by (simp add: plain_site_env_def clone_site_def_def three_node_site_def node_exists_def)
  have ix: "xcom_find_node_index plain_site_env [] = VOID_NODE_NO"
    "get_group_id plain_site_env s = group_id (sd_start s)" for s
    by (simp_all add: plain_site_env_def find_nodeno_def)
  have inst: "site_install_action plain_site_env running_state
                (three_node_site\<lparr>sd_nodes := [],
                                 sd_start := \<lparr>group_id = 1, msgno = 56, node = 0\<rparr>,
                                 sd_boot_key := \<lparr>group_id = 1, msgno = 45, node = 0\<rparr>\<rparr>)
                remove_node_type =
              running_state\<lparr>site_defs := [learned_empty_site, three_node_site],
                             executor_site := Some 1\<rparr>"
    by (simp add: site_install_action_def ix Let_def push_site_def_def set_group_def
          running_state_def shrinking_horizon_state_def group_mismatch_def synode_gt_def
          learned_empty_site_def get_maxnodes_def get_site_def_def deref_site_def
          three_node_site_def)
  have eff: "effects running_state = []"
    by (simp add: running_state_def shrinking_horizon_state_def)
  have g: "get_site_def [learned_empty_site, three_node_site] = Some 0"
    by (simp add: get_site_def_def)
  show ?thesis
    by (simp add: handle_config_def handle_remove_node_def l c site running_getstart Let_def
          inst installed_state_def g eff)
qed

lemma installed_facts:
  "garbage_collect_site_defs plain_site_env x sites = sites"
  "get_site_def (site_defs installed_state) = Some 0"
  "site_defs installed_state ! 0 = learned_empty_site"
  "site_defs installed_state = [learned_empty_site, three_node_site]"
  "executed_msg installed_state = \<lparr>group_id = 1, msgno = 45, node = 0\<rparr>"
  "delivered_msg installed_state = \<lparr>group_id = 1, msgno = 45, node = 0\<rparr>"
  by (simp_all add: plain_site_env_def installed_state_def get_site_def_def running_state_def
        shrinking_horizon_state_def)

lemma learned_empty_site_facts:
  "\<not> is_member learned_empty_site" "is_empty_site learned_empty_site"
  "sd_start learned_empty_site = \<lparr>group_id = 1, msgno = 56, node = 0\<rparr>"
  "sd_event_horizon learned_empty_site = 10"
  by (simp_all add: learned_empty_site_def is_member_def is_empty_site_def three_node_site_def)

lemma removal_scenario:
  "learner_msg removal_machine = Some 5"
  "msg_a (removal_store 5) = Some remove_all_payload"
  "is_config (app_c_t remove_all_payload)"
  "get_site_def (site_defs running_state) = Some 0"
  "synode_gt (executed_msg running_state) (sd_boot_key (site_defs running_state ! 0))"
  "msg_force_delivery (removal_store 5) = 0"
  "xc_state fresh_context \<noteq> Some FP_x_terminate"
  "xc_state leaving_context \<noteq> Some FP_x_terminate"
  "exit_flag fresh_context = 0" "exit_flag leaving_context = 1"
  "delivery_limit leaving_context = \<lparr>group_id = 1, msgno = 50, node = 0\<rparr>"
  "exit_synode leaving_context = \<lparr>group_id = 1, msgno = 60, node = 0\<rparr>"
  by (simp_all add: removal_machine_def removal_store_def remove_all_payload_def is_config_def
        get_site_def_def running_state_def shrinking_horizon_state_def three_node_site_def
        synode_gt_def blank_msg_def fresh_context_def leaving_context_def)

text \<open>
  C6: the claim has the executor set \<open>delivery_limit\<close> and \<open>exit_synode\<close> whenever it learns
  a configuration without the local node, and move the start of an empty configuration by
  one more event horizon. The node at message 45 learns the request that removes all nodes:
  the empty configuration \<open>C'\<close> starts at message 56 with event horizon 10, so that
  \<open>C'.start + H\<close> is message 66; \<open>x_fetch\<close> moves the start of \<open>C'\<close> to message 76, which is
  \<open>C'.start + 2 * H\<close>. And an executor that has set its exit trigger before, with
  \<open>delivery_limit\<close> at message 50 and \<open>exit_synode\<close> at message 60, keeps both when it
  learns \<open>C'\<close>, where the claim has them at messages 56 and 66.
\<close>

theorem exit_handling_counterexample:
  "handle_config member_env plain_site_env running_state remove_all_payload False =
     Some (installed_state, remove_all_payload, True) \<and>
   \<not> is_member (site_defs installed_state ! 0) \<and>
   is_empty_site (site_defs installed_state ! 0) \<and>
   sd_start (site_defs installed_state ! 0) = \<lparr>group_id = 1, msgno = 56, node = 0\<rparr> \<and>
   compute_delay (sd_start (site_defs installed_state ! 0))
     (sd_event_horizon (site_defs installed_state ! 0)) = \<lparr>group_id = 1, msgno = 66, node = 0\<rparr> \<and>
   map_option (\<lambda>(ms', st', xc'). sd_start (site_defs st' ! 0))
     (x_fetch member_env plain_site_env removal_store running_state fresh_context
        removal_machine) = Some \<lparr>group_id = 1, msgno = 76, node = 0\<rparr> \<and>
   map_option (\<lambda>(ms', st', xc'). (delivery_limit xc', exit_synode xc'))
     (x_fetch member_env plain_site_env removal_store running_state leaving_context
        removal_machine) =
     Some (\<lparr>group_id = 1, msgno = 50, node = 0\<rparr>, \<lparr>group_id = 1, msgno = 60, node = 0\<rparr>)"
proof -
  note s = removal_scenario
  have hc: "handle_config member_env plain_site_env running_state remove_all_payload
              (msg_force_delivery (removal_store 5) \<noteq> 0) =
            Some (installed_state, remove_all_payload, True)"
    using removal_handle_config by (simp add: s(6))
  have gc: "site_defs installed_state =
              garbage_collect_site_defs plain_site_env (delivered_msg installed_state)
                (site_defs installed_state)"
    by (simp add: installed_facts(1))
  have nm: "\<not> is_member (site_defs installed_state ! 0)"
    "is_empty_site (site_defs installed_state ! 0)"
    by (simp_all add: installed_facts learned_empty_site_facts)
  note t1 = x_fetch_on_removal
              [where ms = removal_store and r = 5 and xc = fresh_context and cenv = member_env,
               OF s(1) s(2) s(3) s(4) s(5) hc gc installed_facts(2) nm(1) s(7)]
  note t2 = x_fetch_on_removal
              [where ms = removal_store and r = 5 and xc = leaving_context and cenv = member_env,
               OF s(1) s(2) s(3) s(4) s(5) hc gc installed_facts(2) nm(1) s(8)]
  have v: "compute_delay (sd_start (site_defs installed_state ! 0))
             (sd_event_horizon (site_defs installed_state ! 0)) =
           \<lparr>group_id = 1, msgno = 66, node = 0\<rparr>"
    by (simp add: installed_facts learned_empty_site_facts compute_delay_def)
  show ?thesis
    using t1 t2 removal_handle_config nm v
    by (auto simp: installed_facts learned_empty_site_facts s)
qed

text \<open>
  C6 as amended. The executor learns a configuration in \<open>x_fetch\<close>: the message that the
  machine has learned carries a configuration request, \<open>executed_msg\<close> is after the boot
  key of the latest site, and \<open>handle_config\<close> succeeds; \<open>C'\<close> is the latest site of the
  history once its garbage is collected, and it does not contain the local node. Then
  \<open>x_fetch\<close> returns. If the exit trigger has not been set (\<open>exit_flag = 0\<close>) it sets
  \<open>delivery_limit\<close> to the start of \<open>C'\<close>, \<open>exit_synode\<close> to that start with \<open>H (C')\<close> added
  to the message number and \<open>exit_flag\<close> to 1, and when \<open>C'\<close> is empty it moves the start of
  \<open>C'\<close> to the old start plus \<open>H (C') + H (C')\<close>, one event horizon beyond \<open>exit_synode\<close>,
  leaving the rest of the history as it is. If the exit trigger has been set before,
  \<open>delivery_limit\<close>, \<open>exit_synode\<close>, \<open>exit_flag\<close> and the history stay as they are. In both
  cases \<open>x_fetch\<close> itself goes to \<open>x_terminate\<close> exactly when \<open>executed_msg\<close> is not before
  \<open>exit_synode\<close> and \<open>delivered_msg\<close> is not before \<open>delivery_limit\<close>; and from then on, in
  any global state and for any context with these \<open>exit_synode\<close>, \<open>delivery_limit\<close> and
  \<open>exit_flag\<close> that has not terminated, \<open>x_check_exit\<close> holds exactly in that case, and
  \<open>x_check_increment_execute\<close> and \<open>x_check_increment_fetch\<close> (which returns when it leaves
  or the history is not empty) go to \<open>x_terminate\<close> exactly in that case. The sums are those
  of the program, in unsigned 64-bit arithmetic.
\<close>

theorem exit_handling_on_removal:
  "learner_msg p = Some r \<Longrightarrow> msg_a (ms r) = Some app \<Longrightarrow> is_config (app_c_t app) \<Longrightarrow>
   get_site_def (site_defs st) = Some latest \<Longrightarrow>
   synode_gt (executed_msg st) (sd_boot_key (site_defs st ! latest)) \<Longrightarrow>
   handle_config cenv env st app (msg_force_delivery (ms r) \<noteq> 0) = Some (st1, app1, True) \<Longrightarrow>
   sites = garbage_collect_site_defs env (delivered_msg st1) (site_defs st1) \<Longrightarrow>
   get_site_def sites = Some c \<Longrightarrow> \<not> is_member (sites ! c) \<Longrightarrow>
   xc_state xc \<noteq> Some FP_x_terminate \<Longrightarrow>
   (let C = sites ! c; H = ucast (sd_event_horizon C)
    in case x_fetch cenv env ms st xc p of
         None \<Rightarrow> False
       | Some (ms', st', xc') \<Rightarrow>
           (exit_flag xc = 0 \<longrightarrow>
              delivery_limit xc' = sd_start C \<and>
              exit_synode xc' = (sd_start C)\<lparr>msgno := msgno (sd_start C) + H\<rparr> \<and>
              exit_flag xc' = 1 \<and>
              site_defs st' =
                (if is_empty_site C
                 then sites[c := C\<lparr>sd_start := (sd_start C)\<lparr>msgno := msgno (sd_start C) + H + H\<rparr>\<rparr>]
                 else sites)) \<and>
           (exit_flag xc \<noteq> 0 \<longrightarrow>
              delivery_limit xc' = delivery_limit xc \<and> exit_synode xc' = exit_synode xc \<and>
              exit_flag xc' = exit_flag xc \<and> site_defs st' = sites) \<and>
           ((xc_state xc' = Some FP_x_terminate) =
              (\<not> synode_lt (executed_msg st1) (exit_synode xc') \<and>
               \<not> synode_lt (delivered_msg st1) (delivery_limit xc'))) \<and>
           (\<forall>g x. exit_synode x = exit_synode xc' \<and> delivery_limit x = delivery_limit xc' \<and>
                  exit_flag x = exit_flag xc' \<and> xc_state x \<noteq> Some FP_x_terminate \<longrightarrow>
              (let leave = (\<not> synode_lt (executed_msg g) (exit_synode xc') \<and>
                            \<not> synode_lt (delivered_msg g) (delivery_limit xc'))
               in x_check_exit g x = leave \<and>
                  (xc_state (snd (x_check_increment_execute g x)) = Some FP_x_terminate) = leave \<and>
                  (leave \<or> site_defs g \<noteq> [] \<longrightarrow>
                     (case x_check_increment_fetch g x of
                        None \<Rightarrow> False
                      | Some (g', x') \<Rightarrow> (xc_state x' = Some FP_x_terminate) = leave)))))"
proof -
  assume lm: "learner_msg p = Some r"
    and app: "msg_a (ms r) = Some app"
    and cfg: "is_config (app_c_t app)"
    and latest: "get_site_def (site_defs st) = Some latest"
    and redo: "synode_gt (executed_msg st) (sd_boot_key (site_defs st ! latest))"
    and hc: "handle_config cenv env st app (msg_force_delivery (ms r) \<noteq> 0) = Some (st1, app1, True)"
    and sites: "sites = garbage_collect_site_defs env (delivered_msg st1) (site_defs st1)"
    and c: "get_site_def sites = Some c"
    and nm: "\<not> is_member (sites ! c)"
    and run: "xc_state xc \<noteq> Some FP_x_terminate"
  from x_fetch_on_removal [where ms = ms and r = r and xc = xc,
         OF lm app cfg latest redo hc sites c nm run]
  obtain ms' st' xc' where
    res: "x_fetch cenv env ms st xc p = Some (ms', st', xc')"
    and fields: "(exit_flag xc = 0 \<longrightarrow>
              delivery_limit xc' = sd_start (sites ! c) \<and>
              exit_synode xc' =
                (sd_start (sites ! c))
                  \<lparr>msgno := msgno (sd_start (sites ! c)) + ucast (sd_event_horizon (sites ! c))\<rparr> \<and>
              exit_flag xc' = 1 \<and>
              site_defs st' =
                (if is_empty_site (sites ! c)
                 then sites[c := (sites ! c)
                        \<lparr>sd_start := (sd_start (sites ! c))
                           \<lparr>msgno := msgno (sd_start (sites ! c)) +
                                      ucast (sd_event_horizon (sites ! c)) +
                                      ucast (sd_event_horizon (sites ! c))\<rparr>\<rparr>]
                 else sites)) \<and>
           (exit_flag xc \<noteq> 0 \<longrightarrow>
              delivery_limit xc' = delivery_limit xc \<and> exit_synode xc' = exit_synode xc \<and>
              exit_flag xc' = exit_flag xc \<and> site_defs st' = sites) \<and>
           ((xc_state xc' = Some FP_x_terminate) =
              (\<not> synode_lt (executed_msg st1) (exit_synode xc') \<and>
               \<not> synode_lt (delivered_msg st1) (delivery_limit xc')))"
    and flag: "exit_flag xc' \<noteq> 0"
    by blast
  have general: "x_check_exit g x =
                   (\<not> synode_lt (executed_msg g) (exit_synode xc') \<and>
                    \<not> synode_lt (delivered_msg g) (delivery_limit xc')) \<and>
                 (xc_state (snd (x_check_increment_execute g x)) = Some FP_x_terminate) =
                   (\<not> synode_lt (executed_msg g) (exit_synode xc') \<and>
                    \<not> synode_lt (delivered_msg g) (delivery_limit xc')) \<and>
                 ((\<not> synode_lt (executed_msg g) (exit_synode xc') \<and>
                   \<not> synode_lt (delivered_msg g) (delivery_limit xc')) \<or> site_defs g \<noteq> [] \<longrightarrow>
                    (case x_check_increment_fetch g x of
                       None \<Rightarrow> False
                     | Some (g', x') \<Rightarrow>
                         (xc_state x' = Some FP_x_terminate) =
                           (\<not> synode_lt (executed_msg g) (exit_synode xc') \<and>
                            \<not> synode_lt (delivered_msg g) (delivery_limit xc'))))"
    if x: "exit_synode x = exit_synode xc' \<and> delivery_limit x = delivery_limit xc' \<and>
           exit_flag x = exit_flag xc' \<and> xc_state x \<noteq> Some FP_x_terminate" for g x
  proof -
    from x flag have fx: "exit_flag x \<noteq> 0" and rx: "xc_state x \<noteq> Some FP_x_terminate"
      by simp_all
    from x have e: "exit_synode x = exit_synode xc'" "delivery_limit x = delivery_limit xc'"
      by simp_all
    from exit_transitions [OF fx rx, of g, unfolded e] show ?thesis
      by blast
  qed
  show ?thesis
    unfolding Let_def res
    using fields general
    by simp
qed

theorem exit_handling_on_removal_witness:
  "learner_msg removal_machine = Some 5 \<and>
   msg_a (removal_store 5) = Some remove_all_payload \<and>
   is_config (app_c_t remove_all_payload) \<and>
   get_site_def (site_defs running_state) = Some 0 \<and>
   synode_gt (executed_msg running_state) (sd_boot_key (site_defs running_state ! 0)) \<and>
   handle_config member_env plain_site_env running_state remove_all_payload
     (msg_force_delivery (removal_store 5) \<noteq> 0) =
     Some (installed_state, remove_all_payload, True) \<and>
   site_defs installed_state =
     garbage_collect_site_defs plain_site_env (delivered_msg installed_state)
       (site_defs installed_state) \<and>
   get_site_def (site_defs installed_state) = Some 0 \<and>
   \<not> is_member (site_defs installed_state ! 0) \<and>
   is_empty_site (site_defs installed_state ! 0) \<and>
   xc_state fresh_context \<noteq> Some FP_x_terminate \<and>
   exit_flag fresh_context = 0 \<and>
   map_option (\<lambda>(ms', st', xc'). (delivery_limit xc', exit_synode xc', exit_flag xc',
                                    map sd_start (site_defs st'),
                                    xc_state xc' = Some FP_x_terminate))
     (x_fetch member_env plain_site_env removal_store running_state fresh_context
        removal_machine) =
     Some (\<lparr>group_id = 1, msgno = 56, node = 0\<rparr>, \<lparr>group_id = 1, msgno = 66, node = 0\<rparr>, 1,
           [\<lparr>group_id = 1, msgno = 76, node = 0\<rparr>, \<lparr>group_id = 1, msgno = 1, node = 0\<rparr>],
           False) \<and>
   xc_state leaving_context \<noteq> Some FP_x_terminate \<and>
   exit_flag leaving_context \<noteq> 0 \<and>
   map_option (\<lambda>(ms', st', xc'). (delivery_limit xc', exit_synode xc', exit_flag xc',
                                    map sd_start (site_defs st')))
     (x_fetch member_env plain_site_env removal_store running_state leaving_context
        removal_machine) =
     Some (\<lparr>group_id = 1, msgno = 50, node = 0\<rparr>, \<lparr>group_id = 1, msgno = 60, node = 0\<rparr>, 1,
           [\<lparr>group_id = 1, msgno = 56, node = 0\<rparr>, \<lparr>group_id = 1, msgno = 1, node = 0\<rparr>])"
proof -
  note s = removal_scenario
  have hc: "handle_config member_env plain_site_env running_state remove_all_payload
              (msg_force_delivery (removal_store 5) \<noteq> 0) =
            Some (installed_state, remove_all_payload, True)"
    using removal_handle_config by (simp add: s(6))
  have gc: "site_defs installed_state =
              garbage_collect_site_defs plain_site_env (delivered_msg installed_state)
                (site_defs installed_state)"
    by (simp add: installed_facts(1))
  have nm: "\<not> is_member (site_defs installed_state ! 0)"
    "is_empty_site (site_defs installed_state ! 0)"
    by (simp_all add: installed_facts learned_empty_site_facts)
  note t1 = exit_handling_on_removal
              [where ms = removal_store and r = 5 and xc = fresh_context and cenv = member_env,
               OF s(1) s(2) s(3) s(4) s(5) hc gc installed_facts(2) nm(1) s(7)]
  note t2 = exit_handling_on_removal
              [where ms = removal_store and r = 5 and xc = leaving_context and cenv = member_env,
               OF s(1) s(2) s(3) s(4) s(5) hc gc installed_facts(2) nm(1) s(8)]
  have three: "sd_start three_node_site = \<lparr>group_id = 1, msgno = 1, node = 0\<rparr>"
    by (simp add: three_node_site_def)
  have w1: "case x_fetch member_env plain_site_env removal_store running_state fresh_context
                   removal_machine of
              None \<Rightarrow> False
            | Some (ms', st', xc') \<Rightarrow>
                delivery_limit xc' = \<lparr>group_id = 1, msgno = 56, node = 0\<rparr> \<and>
                exit_synode xc' = \<lparr>group_id = 1, msgno = 66, node = 0\<rparr> \<and>
                exit_flag xc' = 1 \<and>
                map sd_start (site_defs st') =
                  [\<lparr>group_id = 1, msgno = 76, node = 0\<rparr>, \<lparr>group_id = 1, msgno = 1, node = 0\<rparr>] \<and>
                xc_state xc' \<noteq> Some FP_x_terminate"
    using t1
    unfolding Let_def installed_facts
    by (clarsimp split: option.splits simp: synode_lt_def three s learned_empty_site_facts)
  have w2: "case x_fetch member_env plain_site_env removal_store running_state leaving_context
                   removal_machine of
              None \<Rightarrow> False
            | Some (ms', st', xc') \<Rightarrow>
                delivery_limit xc' = \<lparr>group_id = 1, msgno = 50, node = 0\<rparr> \<and>
                exit_synode xc' = \<lparr>group_id = 1, msgno = 60, node = 0\<rparr> \<and>
                exit_flag xc' = 1 \<and>
                map sd_start (site_defs st') =
                  [\<lparr>group_id = 1, msgno = 56, node = 0\<rparr>, \<lparr>group_id = 1, msgno = 1, node = 0\<rparr>]"
    using t2
    unfolding Let_def installed_facts
    by (clarsimp split: option.splits simp: synode_lt_def three s learned_empty_site_facts)
  show ?thesis
    using w1 w2 s hc gc nm installed_facts(2)
    by (auto split: option.splits)
qed

subsection \<open>The acceptor and the learner\<close>

lemma gt_ballot_asym: "gt_ballot x y \<Longrightarrow> \<not> gt_ballot y x"
  by (auto simp: gt_ballot_def word_sless_alt)

lemma gt_ballot_irrefl: "\<not> gt_ballot x x"
  by (simp add: gt_ballot_def word_sless_alt)

text \<open>
  C1: the claim says that a prepare that passes only because it is a \<open>no_op\<close> that meets an
  accepted \<open>no_op\<close> sets the promise to its ballot. The program sets the promise only
  when the ballot is greater. Here the machine has promised (5, 1) and accepted a
  \<open>no_op\<close>; a \<open>no_op\<close> prepare with ballot (3, 2) is acknowledged and the promise stays
  (5, 1).
\<close>

theorem prepare_noop_match_counterexample:
  "\<not> finished example_store noop_accepted_machine \<and>
   noop_match example_store noop_accepted_machine (example_store 2) \<and>
   acceptor_promise
     (fst (handle_simple_prepare (\<lambda>a. a) 1 example_store noop_accepted_machine 2
             (msg_synode (example_store 2)))) \<noteq> proposal (example_store 2) \<and>
   map_option msg_op
     (snd (handle_simple_prepare (\<lambda>a. a) 1 example_store noop_accepted_machine 2
             (msg_synode (example_store 2)))) = Some ack_prepare_op"
  by (simp add: handle_simple_prepare_def finished_def noop_match_def accepted_noop_def
        accepted_def gt_ballot_def create_ack_prepare_msg_def safe_app_data_copy_def
        clone_pax_msg_no_app_def Let_def example_store_def noop_accepted_machine_def
        idle_machine_def blank_msg_def)

lemma copy_same: "safe_app_data_copy (\<lambda>a. a) t src = Some (t\<lparr>msg_a := src\<rparr>)"
  by (cases src) (simp_all add: safe_app_data_copy_def Let_def)

lemma learn_reply:
  assumes "finished h p" and "learner_msg p = Some l"
  shows "create_learn_msg_for_ignorant_node (\<lambda>a. a) h p pm synode =
           Some ((h pm)\<lparr>msg_synode := synode, proposal := proposal (h l),
                        msg_a := msg_a (h l), msg_op := learn_op,
                        msg_type := (if msg_a (h l) \<noteq> None then normal else no_op)\<rparr>)"
  using assms
  by (simp add: create_learn_msg_for_ignorant_node_def copy_same set_learn_type_def
        clone_pax_msg_no_app_def Let_def)

lemma ack_prepare_reply:
  "create_ack_prepare_msg (\<lambda>a. a) h p pm synode =
     (if accepted h p
      then (case acceptor_msg p of
              None \<Rightarrow> None
            | Some a \<Rightarrow>
                Some ((h pm)\<lparr>msg_synode := synode, proposal := proposal (h a),
                             msg_type := msg_type (h a), msg_op := ack_prepare_op,
                             msg_a := msg_a (h a)\<rparr>))
      else Some ((h pm)\<lparr>msg_a := None, msg_synode := synode, msg_op := ack_prepare_empty_op\<rparr>))"
  by (simp add: create_ack_prepare_msg_def copy_same clone_pax_msg_no_app_def Let_def
           split: option.splits)

lemma accepted_Some: "accepted h p \<Longrightarrow> \<exists>a. acceptor_msg p = Some a"
  by (simp add: accepted_def split: option.splits)

lemma accepted_time [simp]: "accepted h (p\<lparr>last_modified := t\<rparr>) = accepted h p"
  by (simp add: accepted_def)

lemma accepted_promise [simp]: "accepted h (p\<lparr>acceptor_promise := b\<rparr>) = accepted h p"
  by (simp add: accepted_def)

text \<open>
  C1 as amended, for a copy of the payload that succeeds. If the machine has learned a
  value, the reply is a \<open>learn_op\<close> message with the ballot and the payload of the learned
  message and the machine is unchanged. Otherwise, if the ballot of the prepare is
  greater than the promise, the promise becomes that ballot and the reply acknowledges
  the prepare; if the ballot is not greater but the prepare is a \<open>no_op\<close> and the machine
  has accepted a \<open>no_op\<close>, the promise is kept and the reply acknowledges the prepare; in
  every other case there is no reply and the machine is unchanged.
\<close>

theorem handle_simple_prepare_cases:
  "(finished h p \<and> learner_msg p = Some l \<longrightarrow>
      fst (handle_simple_prepare (\<lambda>a. a) now h p pm synode) = p \<and>
      (\<exists>r. snd (handle_simple_prepare (\<lambda>a. a) now h p pm synode) = Some r \<and>
           msg_op r = learn_op \<and> msg_synode r = synode \<and>
           proposal r = proposal (h l) \<and> msg_a r = msg_a (h l))) \<and>
   (\<not> finished h p \<and> gt_ballot (proposal (h pm)) (acceptor_promise p) \<longrightarrow>
      acceptor_promise (fst (handle_simple_prepare (\<lambda>a. a) now h p pm synode)) = proposal (h pm) \<and>
      ack_prepare_of h p (snd (handle_simple_prepare (\<lambda>a. a) now h p pm synode))) \<and>
   (\<not> finished h p \<and> \<not> gt_ballot (proposal (h pm)) (acceptor_promise p) \<and>
    noop_match h p (h pm) \<longrightarrow>
      acceptor_promise (fst (handle_simple_prepare (\<lambda>a. a) now h p pm synode)) = acceptor_promise p \<and>
      ack_prepare_of h p (snd (handle_simple_prepare (\<lambda>a. a) now h p pm synode))) \<and>
   (\<not> finished h p \<and> \<not> gt_ballot (proposal (h pm)) (acceptor_promise p) \<and>
    \<not> noop_match h p (h pm) \<longrightarrow>
      handle_simple_prepare (\<lambda>a. a) now h p pm synode = (p, None))"
proof -
  have learn: "fst (handle_simple_prepare (\<lambda>a. a) now h p pm synode) = p \<and>
      (\<exists>r. snd (handle_simple_prepare (\<lambda>a. a) now h p pm synode) = Some r \<and>
           msg_op r = learn_op \<and> msg_synode r = synode \<and>
           proposal r = proposal (h l) \<and> msg_a r = msg_a (h l))"
    if "finished h p" "learner_msg p = Some l"
    using that by (simp add: handle_simple_prepare_def learn_reply)
  have ack: "ack_prepare_of h p (create_ack_prepare_msg (\<lambda>a. a) h p' pm synode)"
    if "acceptor_msg p' = acceptor_msg p" for p'
    using that
    by (auto simp: ack_prepare_reply ack_prepare_of_def accepted_def split: option.splits)
  have greater: "acceptor_promise (fst (handle_simple_prepare (\<lambda>a. a) now h p pm synode)) = proposal (h pm) \<and>
      ack_prepare_of h p (snd (handle_simple_prepare (\<lambda>a. a) now h p pm synode))"
    if "\<not> finished h p" "gt_ballot (proposal (h pm)) (acceptor_promise p)"
    using that by (simp add: handle_simple_prepare_def Let_def ack)
  have noop: "acceptor_promise (fst (handle_simple_prepare (\<lambda>a. a) now h p pm synode)) = acceptor_promise p \<and>
      ack_prepare_of h p (snd (handle_simple_prepare (\<lambda>a. a) now h p pm synode))"
    if "\<not> finished h p" "\<not> gt_ballot (proposal (h pm)) (acceptor_promise p)" "noop_match h p (h pm)"
    using that by (simp add: handle_simple_prepare_def Let_def ack)
  have other: "handle_simple_prepare (\<lambda>a. a) now h p pm synode = (p, None)"
    if "\<not> finished h p" "\<not> gt_ballot (proposal (h pm)) (acceptor_promise p)" "\<not> noop_match h p (h pm)"
    using that by (simp add: handle_simple_prepare_def Let_def)
  from learn greater noop other show ?thesis
    by blast
qed


theorem handle_simple_prepare_cases_witness:
  "finished example_store learned_machine \<and> learner_msg learned_machine = Some 3 \<and>
   map_option msg_op
     (snd (handle_simple_prepare (\<lambda>a. a) 1 example_store learned_machine 4 null_synode)) =
     Some learn_op \<and>
   \<not> finished example_store noop_accepted_machine \<and>
   gt_ballot (proposal (example_store 4)) (acceptor_promise noop_accepted_machine) \<and>
   acceptor_promise
     (fst (handle_simple_prepare (\<lambda>a. a) 1 example_store noop_accepted_machine 4 null_synode)) =
     \<lparr>bal_cnt = 6, bal_node = 2\<rparr> \<and>
   \<not> gt_ballot (proposal (example_store 2)) (acceptor_promise noop_accepted_machine) \<and>
   noop_match example_store noop_accepted_machine (example_store 2) \<and>
   acceptor_promise
     (fst (handle_simple_prepare (\<lambda>a. a) 1 example_store noop_accepted_machine 2 null_synode)) =
     \<lparr>bal_cnt = 5, bal_node = 1\<rparr> \<and>
   \<not> noop_match example_store idle_machine (example_store 2) \<and>
   \<not> gt_ballot (proposal blank_msg) (acceptor_promise idle_machine) \<and>
   handle_simple_prepare (\<lambda>a. a) 1 example_store idle_machine 0 null_synode = (idle_machine, None)"
proof -
  have f: "finished example_store learned_machine" "learner_msg learned_machine = Some 3"
    "\<not> finished example_store noop_accepted_machine"
    "\<not> finished example_store idle_machine"
    by (simp_all add: finished_def example_store_def learned_machine_def
          noop_accepted_machine_def idle_machine_def blank_msg_def)
  have g: "gt_ballot (proposal (example_store 4)) (acceptor_promise noop_accepted_machine)"
    "\<not> gt_ballot (proposal (example_store 2)) (acceptor_promise noop_accepted_machine)"
    "\<not> gt_ballot (proposal (example_store 0)) (acceptor_promise idle_machine)"
    "proposal (example_store 4) = \<lparr>bal_cnt = 6, bal_node = 2\<rparr>"
    "acceptor_promise noop_accepted_machine = \<lparr>bal_cnt = 5, bal_node = 1\<rparr>"
    "example_store 0 = blank_msg"
    by (simp_all add: gt_ballot_def example_store_def noop_accepted_machine_def
          idle_machine_def blank_msg_def)
  have n: "noop_match example_store noop_accepted_machine (example_store 2)"
    "\<not> noop_match example_store idle_machine (example_store 0)"
    "\<not> noop_match example_store idle_machine (example_store 2)"
    by (simp_all add: noop_match_def accepted_noop_def accepted_def example_store_def
          noop_accepted_machine_def idle_machine_def blank_msg_def)
  from handle_simple_prepare_cases
         [where h = example_store and p = learned_machine and l = 3 and now = 1 and pm = 4
            and synode = null_synode] f
  obtain r where "snd (handle_simple_prepare (\<lambda>a. a) 1 example_store learned_machine 4 null_synode) = Some r"
    "msg_op r = learn_op"
    by blast
  then show ?thesis
    using handle_simple_prepare_cases
            [where h = example_store and p = noop_accepted_machine and l = 3 and now = 1
               and pm = 4 and synode = null_synode]
          handle_simple_prepare_cases
            [where h = example_store and p = noop_accepted_machine and l = 3 and now = 1
               and pm = 2 and synode = null_synode]
          handle_simple_prepare_cases
            [where h = example_store and p = idle_machine and l = 3 and now = 1
               and pm = 0 and synode = null_synode]
          f g n
    by simp
qed

lemma finished_time [simp]: "finished h (p\<lparr>last_modified := t\<rparr>) = finished h p"
  by (simp add: finished_def)

lemma handle_learn_finished:
  "finished h p \<Longrightarrow> handle_learn env h p m = (h, p\<lparr>last_modified := env_now env\<rparr>, [Call_task_wakeup])"
  by (simp add: handle_learn_def Let_def)

lemma handle_skip_finished:
  "finished h p \<Longrightarrow> handle_skip now h p m = (h, p, [Call_task_wakeup])"
  by (simp add: handle_skip_def)

lemma finished_after_op_learn:
  "finished h p \<Longrightarrow> finished (h(a := (h a)\<lparr>msg_op := learn_op\<rparr>)) p"
  by (auto simp: finished_def split: option.splits)

lemma learned_value_after_op:
  "learned_value (h(a := (h a)\<lparr>msg_op := x\<rparr>)) p = learned_value h p"
  by (auto simp: learned_value_def split: option.splits)

lemma learned_value_time [simp]:
  "learned_value h (p\<lparr>last_modified := t\<rparr>) = learned_value h p"
  by (simp add: learned_value_def)

lemma handle_tiny_learn_finished:
  assumes "finished h p"
  shows "keeps_learned h p (handle_tiny_learn env h p m)"
proof (cases "acceptor_msg p")
  case None
  with assms show ?thesis
    by (simp add: handle_tiny_learn_def keeps_learned_def)
next
  case (Some a)
  show ?thesis
  proof (cases "eq_ballot (proposal (h a)) (proposal (h m))")
    case False
    with Some assms show ?thesis
      by (simp add: handle_tiny_learn_def keeps_learned_def)
  next
    case True
    let ?h1 = "h(a := (h a)\<lparr>msg_op := learn_op\<rparr>)"
    have fin: "finished ?h1 (p\<lparr>last_modified := env_now env\<rparr>)"
      using assms finished_after_op_learn [of h p a] by simp
    have "handle_tiny_learn env h p m =
            (?h1, p\<lparr>last_modified := env_now env\<rparr>, [Call_update_max_synode m, Call_task_wakeup])"
      using Some True handle_learn_finished [OF fin, of env a]
      by (simp add: handle_tiny_learn_def Let_def)
    then show ?thesis
      using fin by (simp add: keeps_learned_def learned_value_after_op)
  qed
qed

text \<open>
  C2: on a machine that has learned a value (\<open>finished\<close>), a learn, a skip, a tiny learn
  and an answer to a prepare leave the learner's pointer, the ballot and the value of the
  learned message as they are, and the machine stays finished. Learn and skip return the
  store of messages as it was, and the answer to a prepare returns at once.
\<close>

theorem learned_value_never_changes:
  "finished h p \<Longrightarrow>
     keeps_learned h p (handle_learn env h p m) \<and> fst (handle_learn env h p m) = h \<and>
     keeps_learned h p (handle_skip now h p m) \<and> fst (handle_skip now h p m) = h \<and>
     keeps_learned h p (handle_tiny_learn env h p m) \<and>
     handle_ack_prepare fc site h p m = Some (h, p, [])"
  using handle_tiny_learn_finished [of h p env m]
  by (simp add: handle_learn_finished handle_skip_finished keeps_learned_def
        handle_ack_prepare_def)

theorem learned_value_never_changes_witness:
  "finished example_store learned_machine \<and>
   learned_value example_store learned_machine =
     Some (\<lparr>bal_cnt = 4, bal_node = 1\<rparr>, no_op, None) \<and>
   keeps_learned example_store learned_machine
     (handle_learn \<lparr>env_now = 2, env_ignore_forced = False, env_force_reach = None\<rparr>
        example_store learned_machine 4) \<and>
   keeps_learned example_store learned_machine (handle_skip 2 example_store learned_machine 4) \<and>
   keeps_learned example_store learned_machine
     (handle_tiny_learn \<lparr>env_now = 2, env_ignore_forced = False, env_force_reach = None\<rparr>
        example_store learned_machine 1) \<and>
   handle_ack_prepare None (Some three_node_site) example_store learned_machine 2 =
     Some (example_store, learned_machine, [])"
proof -
  have f: "finished example_store learned_machine"
    by (simp add: finished_def example_store_def learned_machine_def
          noop_accepted_machine_def idle_machine_def blank_msg_def)
  have v: "learned_value example_store learned_machine =
     Some (\<lparr>bal_cnt = 4, bal_node = 1\<rparr>, no_op, None)"
    by (simp add: learned_value_def example_store_def learned_machine_def
          noop_accepted_machine_def idle_machine_def blank_msg_def)
  show ?thesis
    using learned_value_never_changes
        [OF f, where env = "\<lparr>env_now = 2, env_ignore_forced = False, env_force_reach = None\<rparr>"
           and m = 4 and now = 2 and fc = None and site = "Some three_node_site"]
      learned_value_never_changes
        [OF f, where env = "\<lparr>env_now = 2, env_ignore_forced = False, env_force_reach = None\<rparr>"
           and m = 1 and now = 2 and fc = None and site = "Some three_node_site"]
      learned_value_never_changes
        [OF f, where env = "\<lparr>env_now = 2, env_ignore_forced = False, env_force_reach = None\<rparr>"
           and m = 2 and now = 2 and fc = None and site = "Some three_node_site"]
      f v
    by simp
qed


lemma promise_same:
  "acceptor_promise p' = acceptor_promise p \<Longrightarrow> promise_not_decreased p p'"
  by (simp add: promise_not_decreased_def gt_ballot_irrefl)

lemma promise_raised:
  "gt_ballot (acceptor_promise p') (acceptor_promise p) \<Longrightarrow> promise_not_decreased p p'"
  by (simp add: promise_not_decreased_def gt_ballot_asym)

lemma force_pax_machine_promise [simp]:
  "acceptor_promise (force_pax_machine p enf) = acceptor_promise p"
  by (simp add: force_pax_machine_def Let_def)

lemma force_interval_step_promise [simp]:
  "acceptor_promise (force_interval_step p enf) = acceptor_promise p"
  by (simp add: force_interval_step_def Let_def)

lemma do_learn_promise [simp]:
  "acceptor_promise (snd (do_learn h p m)) = acceptor_promise p"
  by (simp add: do_learn_def Let_def)

lemma handle_simple_prepare_promise:
  "promise_not_decreased p (fst (handle_simple_prepare cp now h p m synode))"
  by (auto simp: handle_simple_prepare_def Let_def intro: promise_same promise_raised)

lemma handle_simple_accept_promise:
  "acceptor_promise (fst (handle_simple_accept cp now h p m synode skip_flag)) = acceptor_promise p"
  by (simp add: handle_simple_accept_def)

lemma handle_learn_promise:
  "acceptor_promise (fst (snd (handle_learn env h p m))) = acceptor_promise p"
proof (cases "do_learn h (p\<lparr>last_modified := env_now env\<rparr>) m")
  case (Pair h1 p1)
  with do_learn_promise [of h "p\<lparr>last_modified := env_now env\<rparr>" m]
  have p1: "acceptor_promise p1 = acceptor_promise p"
    by simp
  show ?thesis
    using Pair p1
    by (simp add: handle_learn_def Let_def
             split: list.splits call.splits option.splits)
qed

lemma handle_skip_promise:
  "acceptor_promise (fst (snd (handle_skip now h p m))) = acceptor_promise p"
proof (cases "do_learn (h(m := skip_value (h m))) (p\<lparr>last_modified := now\<rparr>) m")
  case (Pair h1 p1)
  with do_learn_promise [of "h(m := skip_value (h m))" "p\<lparr>last_modified := now\<rparr>" m]
  have "acceptor_promise p1 = acceptor_promise p"
    by simp
  with Pair show ?thesis
    by (simp add: handle_skip_def Let_def)
qed

lemma handle_tiny_learn_promise:
  "acceptor_promise (fst (snd (handle_tiny_learn env h p m))) = acceptor_promise p"
proof (cases "acceptor_msg p")
  case None
  then show ?thesis
    by (simp add: handle_tiny_learn_def)
next
  case (Some a)
  let ?h1 = "h(a := (h a)\<lparr>msg_op := learn_op\<rparr>)"
  let ?p1 = "p\<lparr>last_modified := env_now env\<rparr>"
  obtain h2 p2 calls where r: "handle_learn env ?h1 ?p1 a = (h2, p2, calls)"
    by (metis prod_cases3)
  with handle_learn_promise [of env ?h1 ?p1 a] have "acceptor_promise p2 = acceptor_promise p"
    by simp
  with Some r show ?thesis
    by (simp add: handle_tiny_learn_def Let_def)
qed

text \<open>
  C3: after a prepare, an accept, a learn, a skip or a tiny learn, the promise of the
  acceptor is the promise it had or a greater ballot, and never a smaller one. Only the
  prepare writes the promise, and only with a greater ballot.
\<close>

theorem promise_never_decreases:
  "promise_not_decreased p (fst (handle_simple_prepare cp now h p m synode)) \<and>
   promise_not_decreased p (fst (handle_simple_accept cp now h p m synode skip_flag)) \<and>
   promise_not_decreased p (fst (snd (handle_learn env h p m))) \<and>
   promise_not_decreased p (fst (snd (handle_skip now h p m))) \<and>
   promise_not_decreased p (fst (snd (handle_tiny_learn env h p m)))"
  by (simp add: handle_simple_prepare_promise promise_same handle_simple_accept_promise
        handle_learn_promise handle_skip_promise handle_tiny_learn_promise)

theorem promise_never_decreases_witness:
  "acceptor_promise noop_accepted_machine = \<lparr>bal_cnt = 5, bal_node = 1\<rparr> \<and>
   acceptor_promise
     (fst (handle_simple_prepare (\<lambda>a. a) 1 example_store noop_accepted_machine 2 null_synode)) =
     \<lparr>bal_cnt = 5, bal_node = 1\<rparr> \<and>
   acceptor_promise
     (fst (handle_simple_prepare (\<lambda>a. a) 1 example_store noop_accepted_machine 4 null_synode)) =
     \<lparr>bal_cnt = 6, bal_node = 2\<rparr> \<and>
   promise_not_decreased noop_accepted_machine
     (fst (handle_simple_prepare (\<lambda>a. a) 1 example_store noop_accepted_machine 2 null_synode)) \<and>
   promise_not_decreased noop_accepted_machine
     (fst (handle_simple_prepare (\<lambda>a. a) 1 example_store noop_accepted_machine 4 null_synode)) \<and>
   promise_not_decreased noop_accepted_machine
     (fst (handle_simple_accept (\<lambda>a. a) 1 example_store noop_accepted_machine 2 null_synode False)) \<and>
   promise_not_decreased noop_accepted_machine
     (fst (snd (handle_skip 1 example_store noop_accepted_machine 2)))"
proof -
  have "acceptor_promise
     (fst (handle_simple_prepare (\<lambda>a. a) 1 example_store noop_accepted_machine 2 null_synode)) =
     \<lparr>bal_cnt = 5, bal_node = 1\<rparr>"
    "acceptor_promise
     (fst (handle_simple_prepare (\<lambda>a. a) 1 example_store noop_accepted_machine 4 null_synode)) =
     \<lparr>bal_cnt = 6, bal_node = 2\<rparr>"
    "acceptor_promise noop_accepted_machine = \<lparr>bal_cnt = 5, bal_node = 1\<rparr>"
    by (simp_all add: handle_simple_prepare_def finished_def noop_match_def accepted_noop_def
          accepted_def gt_ballot_def Let_def example_store_def noop_accepted_machine_def
          idle_machine_def blank_msg_def)
  then show ?thesis
    using promise_never_decreases
            [where p = noop_accepted_machine and cp = "\<lambda>a. a" and now = 1 and h = example_store
               and m = 2 and synode = null_synode and skip_flag = False]
          promise_never_decreases
            [where p = noop_accepted_machine and cp = "\<lambda>a. a" and now = 1 and h = example_store
               and m = 4 and synode = null_synode and skip_flag = False]
    by simp
qed

subsection \<open>Validation of an add\_node request\<close>

lemma allow_add_node_loop_present:
  "\<exists>n \<in> set ns. node_exists n (sd_nodes new) \<or> node_exists n (sd_nodes valid) \<Longrightarrow>
   allow_add_node_loop (Some new) (Some valid) ns = Some False"
  by (induction ns) auto

lemma event_horizon_loop_total:
  "get_site_def (site_defs st) = Some l \<Longrightarrow>
   \<exists>b. add_node_unsafe_against_event_horizon_loop env st ns = Some b"
  by (induction ns) (auto simp: unsafe_against_event_horizon_def)

lemma node_exists_via:
  "node_exists x ns \<Longrightarrow> node_exists x ms \<Longrightarrow> \<exists>n \<in> set ns. node_exists n ms"
proof -
  assume "node_exists x ns" and m: "node_exists x ms"
  then obtain n where n: "n \<in> set ns" "address n = address x"
    by (auto simp: node_exists_def list_ex_iff)
  from m n(2) have "node_exists n ms"
    by (simp add: node_exists_def)
  with n(1) show ?thesis
    by blast
qed

text \<open>
  C9: the claim says that every request to add the local node's own address is rejected.
  The program tests the own address only while the node has not booted
  (\<open>executed_msg.msgno \<le> 2\<close>). Here the executor is at message 45, the local node z:1 is
  in neither the latest nor the active configuration, and the request to add z:1 is
  answered \<open>REQUEST_OK\<close>.
\<close>

theorem self_add_counterexample:
  "msg_a (add_request (cfg_identity outsider_env)) = Some (add_payload (cfg_identity outsider_env)) \<and>
   app_c_t (add_payload (cfg_identity outsider_env)) = add_node_type \<and>
   node_exists (cfg_identity outsider_env) (app_nodes (add_payload (cfg_identity outsider_env))) \<and>
   can_execute_cfgchange outsider_env shrinking_horizon_state
     (add_request (cfg_identity outsider_env)) = Some REQUEST_OK"
  by (simp add: can_execute_cfgchange_def allow_add_node_def
        add_node_unsafe_against_event_horizon_def unsafe_against_event_horizon_def
        add_node_unsafe_against_ipv4_old_nodes_def reconfigurable_event_horizon_def
        first_event_horizon_aware_protocol_def x_1_4_def node_exists_def
        get_site_def_def find_site_def_def deref_site_def synode_lt_def
        add_request_def add_payload_def outsider_env_def shrinking_horizon_state_def
        three_node_site_def blank_msg_def Let_def)

text \<open>
  C9 as amended: an \<open>add_node\<close> request whose node list contains the address of the
  local node is answered \<open>REQUEST_FAIL\<close> while the node has not booted
  (\<open>executed_msg.msgno \<le> 2\<close>); after that it is answered \<open>REQUEST_FAIL\<close> when the local
  address belongs to a node of the latest configuration or of the configuration of
  \<open>executed_msg\<close>.
\<close>

theorem self_add_rejected:
  "msg_a p = Some a \<Longrightarrow> app_c_t a = add_node_type \<Longrightarrow>
   node_exists (cfg_identity env) (app_nodes a) \<Longrightarrow>
   (msgno (executed_msg st) \<le> 2 \<longrightarrow> can_execute_cfgchange env st p = Some REQUEST_FAIL) \<and>
   (2 < msgno (executed_msg st) \<and>
    get_site_def (site_defs st) = Some l \<and>
    find_site_def (site_defs st) (executed_msg st) = Some v \<and>
    (node_exists (cfg_identity env) (sd_nodes (site_defs st ! l)) \<or>
     node_exists (cfg_identity env) (sd_nodes (site_defs st ! v))) \<longrightarrow>
      can_execute_cfgchange env st p = Some REQUEST_FAIL)"
proof -
  assume a: "msg_a p = Some a" and t: "app_c_t a = add_node_type"
    and own: "node_exists (cfg_identity env) (app_nodes a)"
  have unbooted: "can_execute_cfgchange env st p = Some REQUEST_FAIL"
    if "msgno (executed_msg st) \<le> 2"
    using that a t own by (simp add: can_execute_cfgchange_def add_node_adding_own_address_def)
  have booted: "can_execute_cfgchange env st p = Some REQUEST_FAIL"
    if b: "2 < msgno (executed_msg st)"
      and l: "get_site_def (site_defs st) = Some l"
      and v: "find_site_def (site_defs st) (executed_msg st) = Some v"
      and m: "node_exists (cfg_identity env) (sd_nodes (site_defs st ! l)) \<or>
              node_exists (cfg_identity env) (sd_nodes (site_defs st ! v))"
  proof -
    from m own have "\<exists>n \<in> set (app_nodes a).
        node_exists n (sd_nodes (site_defs st ! l)) \<or> node_exists n (sd_nodes (site_defs st ! v))"
      using node_exists_via by blast
    then have loop: "allow_add_node_loop (Some (site_defs st ! l)) (Some (site_defs st ! v))
                       (app_nodes a) = Some False"
      by (rule allow_add_node_loop_present)
    obtain u where u: "add_node_unsafe_against_event_horizon_loop env st (app_nodes a) = Some u"
      using event_horizon_loop_total [OF l] by blast
    have "allow_add_node env st a = Some False"
      using l v loop u
      by (simp add: allow_add_node_def add_node_unsafe_against_event_horizon_def
            deref_site_def Let_def)
    moreover have "\<not> msgno (executed_msg st) \<le> 2"
      using b by simp
    ultimately show ?thesis
      using a t by (simp add: can_execute_cfgchange_def)
  qed
  from unbooted booted show ?thesis
    by blast
qed

theorem self_add_rejected_witness:
  "msg_a (add_request (cfg_identity member_env)) = Some (add_payload (cfg_identity member_env)) \<and>
   app_c_t (add_payload (cfg_identity member_env)) = add_node_type \<and>
   node_exists (cfg_identity member_env) (app_nodes (add_payload (cfg_identity member_env))) \<and>
   can_execute_cfgchange member_env
     (shrinking_horizon_state\<lparr>executed_msg := \<lparr>group_id = 1, msgno = 1, node = 0\<rparr>\<rparr>)
     (add_request (cfg_identity member_env)) = Some REQUEST_FAIL \<and>
   2 < msgno (executed_msg shrinking_horizon_state) \<and>
   node_exists (cfg_identity member_env) (sd_nodes (site_defs shrinking_horizon_state ! 0)) \<and>
   can_execute_cfgchange member_env shrinking_horizon_state
     (add_request (cfg_identity member_env)) = Some REQUEST_FAIL"
proof -
  let ?a = "add_payload (cfg_identity member_env)"
  have a: "msg_a (add_request (cfg_identity member_env)) = Some ?a"
    by (simp add: add_request_def)
  have t: "app_c_t ?a = add_node_type"
    by (simp add: add_payload_def)
  have own: "node_exists (cfg_identity member_env) (app_nodes ?a)"
    by (simp add: add_payload_def node_exists_def)
  have s: "get_site_def (site_defs shrinking_horizon_state) = Some 0"
    "find_site_def (site_defs shrinking_horizon_state) (executed_msg shrinking_horizon_state) = Some 1"
    "2 < msgno (executed_msg shrinking_horizon_state)"
    "node_exists (cfg_identity member_env) (sd_nodes (site_defs shrinking_horizon_state ! 0))"
    by (simp_all add: get_site_def_def find_site_def_def synode_lt_def node_exists_def
          shrinking_horizon_state_def three_node_site_def member_env_def outsider_env_def)
  show ?thesis
    using self_add_rejected [OF a t own, where st = shrinking_horizon_state and l = 0 and v = 1]
          self_add_rejected [OF a t own,
            where st = "shrinking_horizon_state\<lparr>executed_msg := \<lparr>group_id = 1, msgno = 1, node = 0\<rparr>\<rparr>"
              and l = 0 and v = 1]
          a t own s
    by simp
qed

subsection \<open>The back-off of a waiting proposer\<close>

lemma wakeup_delay_loop_ends:
  assumes m: "0 < m"
  shows "c \<le> m * 1.3 ^ k \<Longrightarrow>
         \<exists>d j. wakeup_delay_loop c m = Some d \<and> d = c / 1.3 ^ j \<and> d \<le> m \<and>
               (c \<le> m \<longrightarrow> d = c) \<and> (m < c \<longrightarrow> m / 1.3 < d)"
proof (induction k arbitrary: c)
  case 0
  then have "c \<le> m" by simp
  then have "wakeup_delay_loop c m = Some c"
    by (subst wakeup_delay_loop.simps) simp
  with \<open>c \<le> m\<close> show ?case
    by (intro exI [of _ c] exI [of _ 0]) simp
next
  case (Suc k)
  show ?case
  proof (cases "c \<le> m")
    case True
    then have "wakeup_delay_loop c m = Some c"
      by (subst wakeup_delay_loop.simps) simp
    with True show ?thesis
      by (intro exI [of _ c] exI [of _ 0]) simp
  next
    case False
    then have gt: "m < c" by simp
    have "c / 1.3 \<le> m * 1.3 ^ k"
      using Suc.prems by (simp add: field_simps)
    from Suc.IH [OF this] obtain d j where
      d: "wakeup_delay_loop (c / 1.3) m = Some d" "d = c / 1.3 / 1.3 ^ j" "d \<le> m"
         "c / 1.3 \<le> m \<longrightarrow> d = c / 1.3" "m < c / 1.3 \<longrightarrow> m / 1.3 < d"
      by blast
    have unfold: "wakeup_delay_loop c m = Some d"
      using gt d(1) by (subst wakeup_delay_loop.simps) simp
    have pow: "d = c / 1.3 ^ Suc j"
      using d(2) by simp
    have low: "m / 1.3 < d"
    proof (cases "c / 1.3 \<le> m")
      case True
      with d(4) have "d = c / 1.3" by simp
      with gt show ?thesis by (simp add: field_simps)
    next
      case False
      with d(5) show ?thesis by simp
    qed
    have "wakeup_delay_loop c m = Some d \<and> d = c / 1.3 ^ Suc j \<and> d \<le> m \<and>
               (c \<le> m \<longrightarrow> d = c) \<and> (m < c \<longrightarrow> m / 1.3 < d)"
      using unfold pow d(3) gt low by simp
    then show ?thesis
      by (intro exI [of _ d] exI [of _ "Suc j"])
  qed
qed

lemma wakeup_delay_threshold_eq:
  "wakeup_delay_threshold site = min 0.5 (max 0.005 (10 * max_conn_rtt site))"
  by (simp add: wakeup_delay_threshold_def Let_def min_def max_def)

lemma wakeup_delay_threshold_pos: "0 < wakeup_delay_threshold site"
  by (simp add: wakeup_delay_threshold_eq)

lemma wakeup_delay_result:
  fixes site old
  defines "c \<equiv> (if old = 0 then 0.001 + max_conn_rtt site else old * 1.4)"
    and "cap \<equiv> min 0.5 (max 0.005 (10 * max_conn_rtt site))"
  shows "\<exists>d j. wakeup_delay site old = Some d \<and> d = c / 1.3 ^ j \<and> d \<le> cap \<and>
               (c \<le> cap \<longrightarrow> d = c) \<and> (cap < c \<longrightarrow> cap / 1.3 < d)"
proof -
  have pos: "0 < cap"
    by (simp add: cap_def)
  obtain k where "c / cap < 1.3 ^ k"
    using real_arch_pow [of "1.3" "c / cap"] by auto
  then have "c \<le> cap * 1.3 ^ k"
    using pos by (simp add: field_simps)
  from wakeup_delay_loop_ends [OF pos this]
  show ?thesis
    by (auto simp: wakeup_delay_def wakeup_delay_threshold_eq c_def cap_def Let_def)
qed

text \<open>
  C7: the claim gives \<open>max (max_rtt, 0.001)\<close> as the first delay and
  \<open>min (0.5, 10 * max_rtt)\<close> as the cap. With a round-trip time of 0 the first delay of
  the program is 0.001, above the claimed cap of 0 (in this computation the
  floating-point operations of the program are exact as well: 0 is added, and 0 is
  multiplied). With a round-trip time of 0.25 the first delay is 0.251, not 0.25. With a
  previous delay of 0.4 the next delay is 0.56 / 1.3, not the claimed 0.5.
\<close>

theorem wakeup_delay_counterexample:
  "wakeup_delay (three_node_site\<lparr>max_conn_rtt := 0\<rparr>) 0 = Some 0.001 \<and>
   spec_wakeup_delay (three_node_site\<lparr>max_conn_rtt := 0\<rparr>) 0 = 0 \<and>
   wakeup_delay (three_node_site\<lparr>max_conn_rtt := 0.25\<rparr>) 0 = Some 0.251 \<and>
   spec_wakeup_delay (three_node_site\<lparr>max_conn_rtt := 0.25\<rparr>) 0 = 0.25 \<and>
   wakeup_delay (three_node_site\<lparr>max_conn_rtt := 0.25\<rparr>) 0.4 = Some (0.56 / 1.3) \<and>
   spec_wakeup_delay (three_node_site\<lparr>max_conn_rtt := 0.25\<rparr>) 0.4 = 0.5"
  by (simp add: wakeup_delay_def wakeup_delay_threshold_def spec_wakeup_delay_def Let_def
        wakeup_delay_loop.simps)

text \<open>
  C7 as amended, with delays taken as real numbers. \<open>wakeup_delay\<close> returns. The
  candidate delay is \<open>0.001 + max_conn_rtt\<close> for the first wait (\<open>old = 0\<close>) and the
  previous delay times 1.4 afterwards; the cap is
  \<open>min 0.5 (max 0.005 (10 * max_conn_rtt))\<close>. The delay is the candidate divided by a power
  of 1.3 and is at most the cap: it is the candidate itself when that is not above the
  cap, and it is above \<open>cap / 1.3\<close> otherwise.

  When the task wakes up and its machine still has the proposer's message number and a
  proposer message and has not learned a value, the round goes on waiting, and phase 1 is
  resent exactly when \<open>start_push + 3 \<le> now\<close>. Resent means: the machine, first forced
  when a forced configuration is awaited, has its set of prepare answers cleared and its
  proposer ballot set to the node number of the local node in the site and to one more
  than the larger of its own count and the promised count; the task's prepare message
  becomes a \<open>prepare_op\<close> of type \<open>normal\<close> for the proposer's message number with that
  ballot as proposal and as \<open>reply_to\<close>; this very message is the one handed to
  \<open>send_to_acceptors\<close>; and \<open>start_push\<close> is set to \<open>now\<close>. Otherwise the machine, the
  prepare message, \<open>start_push\<close> and the globals stay as they are and nothing is sent.
\<close>

theorem proposer_back_off:
  "\<exists>d j. wakeup_delay site old = Some d \<and>
         d = (if old = 0 then 0.001 + max_conn_rtt site else old * 1.4) / 1.3 ^ j \<and>
         d \<le> min 0.5 (max 0.005 (10 * max_conn_rtt site)) \<and>
         ((if old = 0 then 0.001 + max_conn_rtt site else old * 1.4)
            \<le> min 0.5 (max 0.005 (10 * max_conn_rtt site)) \<longrightarrow>
          d = (if old = 0 then 0.001 + max_conn_rtt site else old * 1.4)) \<and>
         (min 0.5 (max 0.005 (10 * max_conn_rtt site))
            < (if old = 0 then 0.001 + max_conn_rtt site else old * 1.4) \<longrightarrow>
          min 0.5 (max 0.005 (10 * max_conn_rtt site)) / 1.3 < d) \<and>
         (synode_eq (ep_msgno ep) (pm_synode p) \<and> proposer_msg p \<noteq> None \<and> \<not> finished h p \<longrightarrow>
          (\<exists>r. proposer_wait_round wfc site now h p (ep\<lparr>ep_delay := old\<rparr>) g = Some r \<and>
               wr_outcome r = Keep_waiting \<and> ep_delay (wr_env r) = d \<and>
               (ep_start_push ep + 3 \<le> now \<longrightarrow>
                  (let q = (if wfc then force_pax_machine p 1 else p);
                       b = \<lparr>bal_cnt = MAX_i32 (bal_cnt (proposer_bal q))
                                              (bal_cnt (acceptor_promise q)) + 1,
                            bal_node = sd_nodeno site\<rparr>;
                       m = (ep_prepare_msg ep)
                             \<lparr>msg_op := prepare_op, msg_synode := ep_msgno ep, proposal := b,
                              reply_to := b, msg_type := normal,
                              msg_force_delivery := force_delivery q\<rparr>
                   in wr_machine r = q\<lparr>prep_nodeset := BIT_ZERO, proposer_bal := b\<rparr> \<and>
                      wr_env r = ep\<lparr>ep_delay := d, ep_start_push := now, ep_prepare_msg := m\<rparr> \<and>
                      sent_to_acceptors (wr_globals r) = sent_to_acceptors g @ [m] \<and>
                      participate_paxos (wr_globals r) =
                        (participate_paxos g)(unat (msgno (ep_msgno ep)) mod MAX_ARRAY_LEN := 1) \<and>
                      current_propose_msgno (wr_globals r) =
                        max (current_propose_msgno g) (msgno (ep_msgno ep)))) \<and>
               (\<not> ep_start_push ep + 3 \<le> now \<longrightarrow>
                  wr_machine r = p \<and> wr_env r = ep\<lparr>ep_delay := d\<rparr> \<and> wr_globals r = g)))"
proof -
  from wakeup_delay_result [of site old] obtain d j where
    d: "wakeup_delay site old = Some d"
       "d = (if old = 0 then 0.001 + max_conn_rtt site else old * 1.4) / 1.3 ^ j"
       "d \<le> min 0.5 (max 0.005 (10 * max_conn_rtt site))"
       "(if old = 0 then 0.001 + max_conn_rtt site else old * 1.4)
            \<le> min 0.5 (max 0.005 (10 * max_conn_rtt site)) \<longrightarrow>
          d = (if old = 0 then 0.001 + max_conn_rtt site else old * 1.4)"
       "min 0.5 (max 0.005 (10 * max_conn_rtt site))
            < (if old = 0 then 0.001 + max_conn_rtt site else old * 1.4) \<longrightarrow>
          min 0.5 (max 0.005 (10 * max_conn_rtt site)) / 1.3 < d"
    by blast
  let ?ep = "ep\<lparr>ep_delay := old\<rparr>"
  let ?q = "if wfc then force_pax_machine p 1 else p"
  let ?b = "\<lparr>bal_cnt = MAX_i32 (bal_cnt (proposer_bal ?q)) (bal_cnt (acceptor_promise ?q)) + 1,
             bal_node = sd_nodeno site\<rparr>"
  let ?m = "(ep_prepare_msg ep)
              \<lparr>msg_op := prepare_op, msg_synode := ep_msgno ep, proposal := ?b,
               reply_to := ?b, msg_type := normal, msg_force_delivery := force_delivery ?q\<rparr>"
  have push: "push_msg_3p wfc (Some site) p (ep_prepare_msg ep) (ep_msgno ep) normal g =
                (?q\<lparr>prep_nodeset := BIT_ZERO, proposer_bal := ?b\<rparr>, ?m,
                 g\<lparr>participate_paxos :=
                      (participate_paxos g)(unat (msgno (ep_msgno ep)) mod MAX_ARRAY_LEN := 1),
                    current_propose_msgno := max (current_propose_msgno g) (msgno (ep_msgno ep)),
                    sent_to_acceptors := sent_to_acceptors g @ [?m]\<rparr>)"
    by (simp add: push_msg_3p_def prepare_push_3p_def prepare_msg_def init_prepare_msg_def
          prepare_def get_nodeno_def Let_def max_def)
  have round: "\<exists>r. proposer_wait_round wfc site now h p ?ep g = Some r \<and>
               wr_outcome r = Keep_waiting \<and> ep_delay (wr_env r) = d \<and>
               (ep_start_push ep + 3 \<le> now \<longrightarrow>
                  wr_machine r = ?q\<lparr>prep_nodeset := BIT_ZERO, proposer_bal := ?b\<rparr> \<and>
                  wr_env r = ep\<lparr>ep_delay := d, ep_start_push := now, ep_prepare_msg := ?m\<rparr> \<and>
                  sent_to_acceptors (wr_globals r) = sent_to_acceptors g @ [?m] \<and>
                  participate_paxos (wr_globals r) =
                    (participate_paxos g)(unat (msgno (ep_msgno ep)) mod MAX_ARRAY_LEN := 1) \<and>
                  current_propose_msgno (wr_globals r) =
                    max (current_propose_msgno g) (msgno (ep_msgno ep))) \<and>
               (\<not> ep_start_push ep + 3 \<le> now \<longrightarrow>
                  wr_machine r = p \<and> wr_env r = ep\<lparr>ep_delay := d\<rparr> \<and> wr_globals r = g)"
    if "synode_eq (ep_msgno ep) (pm_synode p)" "proposer_msg p \<noteq> None" "\<not> finished h p"
    using that d(1) push
    by (simp add: proposer_wait_round_def Let_def)
  from d round show ?thesis
    unfolding Let_def by blast
qed

theorem proposer_back_off_witness:
  "synode_eq (ep_msgno waiting_env) (pm_synode proposing_machine) \<and>
   proposer_msg proposing_machine \<noteq> None \<and>
   \<not> finished example_store proposing_machine \<and>
   0.001 + max_conn_rtt (three_node_site\<lparr>max_conn_rtt := 0.25\<rparr>)
     \<le> min 0.5 (max 0.005 (10 * max_conn_rtt (three_node_site\<lparr>max_conn_rtt := 0.25\<rparr>))) \<and>
   ep_start_push waiting_env + 3 \<le> 13 \<and>
   (\<exists>r. proposer_wait_round False (three_node_site\<lparr>max_conn_rtt := 0.25\<rparr>) 13 example_store
          proposing_machine waiting_env proposed_to_6 = Some r \<and>
        ep_delay (wr_env r) = 0.251 \<and> ep_start_push (wr_env r) = 13 \<and>
        proposer_bal (wr_machine r) = \<lparr>bal_cnt = 1, bal_node = 0\<rparr> \<and>
        sent_to_acceptors (wr_globals r) =
          [blank_msg\<lparr>msg_op := prepare_op, proposal := \<lparr>bal_cnt = 1, bal_node = 0\<rparr>,
                     reply_to := \<lparr>bal_cnt = 1, bal_node = 0\<rparr>\<rparr>] \<and>
        ep_prepare_msg (wr_env r) = last (sent_to_acceptors (wr_globals r)) \<and>
        current_propose_msgno (wr_globals r) = 7) \<and>
   \<not> ep_start_push waiting_env + 3 \<le> 12 \<and>
   (\<exists>r. proposer_wait_round False (three_node_site\<lparr>max_conn_rtt := 0.25\<rparr>) 12 example_store
          proposing_machine waiting_env proposed_to_6 = Some r \<and>
        wr_machine r = proposing_machine \<and> ep_prepare_msg (wr_env r) = blank_msg \<and>
        ep_start_push (wr_env r) = 10 \<and> sent_to_acceptors (wr_globals r) = [])"
proof -
  have h: "synode_eq (ep_msgno waiting_env) (pm_synode proposing_machine)"
    "proposer_msg proposing_machine \<noteq> None"
    "\<not> finished example_store proposing_machine"
    by (simp_all add: synode_eq_def waiting_env_def proposing_machine_def idle_machine_def
          finished_def)
  have e: "waiting_env\<lparr>ep_delay := 0\<rparr> = waiting_env" "ep_start_push waiting_env = 10"
    "ep_prepare_msg waiting_env = blank_msg"
    "ep_msgno waiting_env = \<lparr>group_id = 1, msgno = 7, node = 0\<rparr>"
    by (simp_all add: waiting_env_def)
  have c: "max_conn_rtt (three_node_site\<lparr>max_conn_rtt := 0.25\<rparr>) = 0.25"
    "sd_nodeno (three_node_site\<lparr>max_conn_rtt := 0.25\<rparr>) = 0"
    by (simp_all add: three_node_site_def)
  have m: "MAX_i32 (bal_cnt (proposer_bal proposing_machine))
             (bal_cnt (acceptor_promise proposing_machine)) + 1 = 1"
    "force_delivery proposing_machine = 0"
    by (simp_all add: proposing_machine_def idle_machine_def MAX_i32_def word_sless_alt)
  have b: "blank_msg\<lparr>msg_op := prepare_op, msg_synode := \<lparr>group_id = 1, msgno = 7, node = 0\<rparr>,
                      proposal := \<lparr>bal_cnt = 1, bal_node = 0\<rparr>,
                      reply_to := \<lparr>bal_cnt = 1, bal_node = 0\<rparr>, msg_type := normal,
                      msg_force_delivery := 0\<rparr> =
           blank_msg\<lparr>msg_op := prepare_op, proposal := \<lparr>bal_cnt = 1, bal_node = 0\<rparr>,
                     reply_to := \<lparr>bal_cnt = 1, bal_node = 0\<rparr>\<rparr>"
    by (simp add: blank_msg_def)
  have g: "sent_to_acceptors proposed_to_6 = []" "current_propose_msgno proposed_to_6 = 6"
    by (simp_all add: proposed_to_6_def)
  show ?thesis
    using proposer_back_off
            [where site = "three_node_site\<lparr>max_conn_rtt := 0.25\<rparr>" and old = 0
               and ep = waiting_env and p = proposing_machine and h = example_store
               and wfc = False and now = 13 and g = proposed_to_6]
          proposer_back_off
            [where site = "three_node_site\<lparr>max_conn_rtt := 0.25\<rparr>" and old = 0
               and ep = waiting_env and p = proposing_machine and h = example_store
               and wfc = False and now = 12 and g = proposed_to_6]
          h
    unfolding e c Let_def
    by (auto simp: m b g e)
qed

end
